theory Spec2Isabelle
  imports Complex_Main "HOL-Library.Sublist" "HOL-Library.AList"
begin

section \<open>Caller triage: the step evaluator of CallerPage\<close>

text \<open>
  JavaScript strings are modelled as \<open>string\<close>, read as the UTF-8 bytes of the text.
  \<open>String.prototype.toLowerCase\<close> maps the ASCII capitals to their small letters; every
  other character it changes is outside ASCII and is mapped to characters outside the
  letters of \<open>yes\<close>, so the bytes above 127 are left as they are.
\<close>

definition toLowerCase_char :: "char \<Rightarrow> char" where
  "toLowerCase_char c =
     (case map_of (zip ''ABCDEFGHIJKLMNOPQRSTUVWXYZ'' ''abcdefghijklmnopqrstuvwxyz'') c of
        Some l \<Rightarrow> l
      | None \<Rightarrow> c)"

definition toLowerCase :: "string \<Rightarrow> string" where
  "toLowerCase s = map toLowerCase_char s"

text \<open>\<open>String.prototype.includes\<close>: the pattern occurs at some position of the text.\<close>

fun includes_str :: "string \<Rightarrow> string \<Rightarrow> bool" where
  "includes_str [] pat = (pat = [])"
| "includes_str (c # cs) pat = (prefix pat (c # cs) \<or> includes_str cs pat)"

datatype category = RED | YELLOW | GREEN

record TriageResult =
  triage_category :: category
  priority_rank :: nat
  short_reason :: string
  next_step :: string

definition endStates_RED :: TriageResult where
  "endStates_RED = \<lparr> triage_category = RED, priority_rank = 1,
     short_reason = ''Life-threatening condition detected. Immediate response required.'',
     next_step = ''Emergency logged. Ambulance dispatched based on priority.'' \<rparr>"

definition endStates_YELLOW :: TriageResult where
  "endStates_YELLOW = \<lparr> triage_category = YELLOW, priority_rank = 2,
     short_reason = ''Serious condition but currently stable. Priority response dispatched.'',
     next_step = ''Emergency logged. Ambulance dispatched based on priority.'' \<rparr>"

definition endStates_GREEN :: TriageResult where
  "endStates_GREEN = \<lparr> triage_category = GREEN, priority_rank = 3,
     short_reason = ''Minor condition. Patient is alert and mobile.'',
     next_step = ''Emergency logged. Ambulance dispatched based on priority.'' \<rparr>"

text \<open>
  \<open>evaluateStep(step, answer)\<close>: \<open>None\<close> is the source's \<open>null\<close> (go on to the next
  question), \<open>Some r\<close> a terminal result.
\<close>

definition evaluateStep :: "nat \<Rightarrow> string \<Rightarrow> TriageResult option" where
  "evaluateStep step answer =
     (let yes = includes_str (toLowerCase answer) ''yes'' in
      if step = 0 then (if yes then None else Some endStates_RED)
      else if step = 1 then (if yes then None else Some endStates_RED)
      else if step = 2 then (if yes then Some endStates_RED else None)
      else if step = 3 then (if yes then Some endStates_YELLOW else None)
      else if step = 4 then (if yes then Some endStates_GREEN else Some endStates_YELLOW)
      else None)"

text \<open>
  The question loop of CallerPage: each answer is evaluated at the current step; a
  terminal result ends the dialogue at that step, \<open>null\<close> moves to the next step.
  The result is the step at which the dialogue ended and its triage result, or \<open>None\<close>
  when the answers ran out before a terminal result.
\<close>

fun runTriage :: "nat \<Rightarrow> string list \<Rightarrow> (nat \<times> TriageResult) option" where
  "runTriage step [] = None"
| "runTriage step (a # as) =
     (case evaluateStep step a of
        Some r \<Rightarrow> Some (step, r)
      | None \<Rightarrow> runTriage (Suc step) as)"

text \<open>The spec's words for the answer fold: the text contains y, e, s in a row, in any case.\<close>

definition contains_yes_ignoring_case :: "string \<Rightarrow> bool" where
  "contains_yes_ignoring_case a =
     (\<exists>pre suf y e s. a = pre @ [y, e, s] @ suf
        \<and> (y = CHR ''y'' \<or> y = CHR ''Y'')
        \<and> (e = CHR ''e'' \<or> e = CHR ''E'')
        \<and> (s = CHR ''s'' \<or> s = CHR ''S''))"

section \<open>Shared storage: the patients collection\<close>

text \<open>
  A Firestore document is a set of named fields. Field values are strings, numbers,
  timestamps (whole seconds) and, in a write payload only, the \<open>serverTimestamp()\<close>
  sentinel that the server replaces by its own time when the write is applied.
\<close>

datatype fvalue = VString string | VNumber real | VTimestamp int | VServerTimestamp

type_synonym document = "(string \<times> fvalue) list"

type_synonym docId = nat

definition field :: "document \<Rightarrow> string \<Rightarrow> fvalue option" where
  "field d k = map_of d k"

record firestore =
  documents :: "(docId \<times> document) list"
  nextId :: docId
  serverSeconds :: int
  online :: bool

datatype error = FirestoreError | ReferenceError string | CanvasError | GeolocationError
  | NetworkError | SyntaxError | TypeError

definition resolveTimestamps :: "int \<Rightarrow> document \<Rightarrow> document" where
  "resolveTimestamps now d =
     map (\<lambda>(k, v). (k, if v = VServerTimestamp then VTimestamp now else v)) d"

text \<open>
  \<open>addDoc(collection(db, 'patients'), payload)\<close>: a new document under a fresh
  identifier; the promise is rejected, and nothing is stored, when the store does not
  take the write.
\<close>

definition addDoc :: "firestore \<Rightarrow> document \<Rightarrow> error + firestore" where
  "addDoc fs payload =
     (if online fs
      then Inr (fs\<lparr> documents := documents fs
                       @ [(nextId fs, resolveTimestamps (serverSeconds fs) payload)],
                    nextId := Suc (nextId fs) \<rparr>)
      else Inl FirestoreError)"

text \<open>
  \<open>updateDoc(doc(db, 'patients', docId), fields)\<close>: the named fields are merged into
  the stored document, every other field is kept; the promise is rejected when the
  document does not exist or the store does not take the write.
\<close>

definition updateDoc :: "firestore \<Rightarrow> docId \<Rightarrow> document \<Rightarrow> error + firestore" where
  "updateDoc fs i upd =
     (case map_of (documents fs) i of
        None \<Rightarrow> Inl FirestoreError
      | Some d \<Rightarrow>
          if online fs
          then Inr (fs\<lparr> documents := AList.update i (AList.merge d upd) (documents fs) \<rparr>)
          else Inl FirestoreError)"

text \<open>\<open>query(collection(db, 'patients'), where('status', '==', 'waiting'))\<close>\<close>

definition waitingQuery :: "firestore \<Rightarrow> (docId \<times> document) list" where
  "waitingQuery fs =
     filter (\<lambda>(i, d). field d ''status'' = Some (VString ''waiting'')) (documents fs)"

definition stored :: "firestore \<Rightarrow> docId \<Rightarrow> string \<Rightarrow> fvalue option" where
  "stored fs i k = (case map_of (documents fs) i of None \<Rightarrow> None | Some d \<Rightarrow> field d k)"

section \<open>Dispatch queue ordering\<close>

text \<open>
  A \<open>Patient\<close> of the driver pages is a snapshot document together with its \<open>docId\<close>;
  the tier functions and the comparators read the fields \<open>triage\<close>, \<open>acuity\<close> and
  \<open>timestamp\<close> only.
\<close>

type_synonym Patient = "docId \<times> document"

definition triage :: "Patient \<Rightarrow> fvalue option" where
  "triage p = field (snd p) ''triage''"

definition acuity :: "Patient \<Rightarrow> fvalue option" where
  "acuity p = field (snd p) ''acuity''"

text \<open>\<open>p.timestamp?.seconds\<close>: \<open>None\<close> is \<open>undefined\<close>.\<close>

definition timestamp_seconds :: "Patient \<Rightarrow> int option" where
  "timestamp_seconds p =
     (case field (snd p) ''timestamp'' of Some (VTimestamp s) \<Rightarrow> Some s | _ \<Rightarrow> None)"

text \<open>The two-phase driver page (DriverPage.tsx): \<open>tier\<close> and its comparator.\<close>

definition tier :: "Patient \<Rightarrow> int" where
  "tier p =
     (if triage p = Some (VString ''RED'') \<or> acuity p = Some (VString ''Critical'') then 1
      else if triage p = Some (VString ''YELLOW'') \<or> acuity p = Some (VString ''Urgent'') then 2
      else if triage p = Some (VString ''GREEN'') \<or> acuity p = Some (VString ''Routine'') then 3
      else 5)"

definition compare_tier :: "Patient \<Rightarrow> Patient \<Rightarrow> int" where
  "compare_tier a b =
     (let d = tier a - tier b in
      if d \<noteq> 0 then d
      else (case timestamp_seconds a of None \<Rightarrow> 0 | Some s \<Rightarrow> s)
         - (case timestamp_seconds b of None \<Rightarrow> 0 | Some s \<Rightarrow> s))"

text \<open>The mass-casualty queue page: \<open>getTier\<close> knows BLACK, and its comparator.\<close>

definition getTier :: "Patient \<Rightarrow> int" where
  "getTier p =
     (if triage p = Some (VString ''RED'') \<or> acuity p = Some (VString ''Critical'') then 1
      else if triage p = Some (VString ''YELLOW'') \<or> acuity p = Some (VString ''Urgent'') then 2
      else if triage p = Some (VString ''GREEN'') \<or> acuity p = Some (VString ''Routine'') then 3
      else if triage p = Some (VString ''BLACK'') then 4
      else 5)"

definition compare_getTier :: "Patient \<Rightarrow> Patient \<Rightarrow> int" where
  "compare_getTier a b =
     (let tierA = getTier a; tierB = getTier b in
      if tierA \<noteq> tierB then tierA - tierB
      else
        let timeA = (case timestamp_seconds a of
                       None \<Rightarrow> 0 | Some s \<Rightarrow> if s = 0 then 0 else s);
            timeB = (case timestamp_seconds b of
                       None \<Rightarrow> 0 | Some s \<Rightarrow> if s = 0 then 0 else s)
        in timeA - timeB)"

text \<open>
  \<open>Array.prototype.sort(compareFn)\<close> is a stable sort: an element is placed before the
  first element that the comparator does not put ahead of it.
\<close>

fun insert_by :: "('a \<Rightarrow> 'a \<Rightarrow> int) \<Rightarrow> 'a \<Rightarrow> 'a list \<Rightarrow> 'a list" where
  "insert_by cmp x [] = [x]"
| "insert_by cmp x (y # ys) =
     (if cmp x y \<le> 0 then x # y # ys else y # insert_by cmp x ys)"

definition sort_by :: "('a \<Rightarrow> 'a \<Rightarrow> int) \<Rightarrow> 'a list \<Rightarrow> 'a list" where
  "sort_by cmp xs = foldr (insert_by cmp) xs []"

text \<open>The \<open>onSnapshot\<close> callback: the waiting records, sorted, become the queue.\<close>

definition dispatchQueue :: "firestore \<Rightarrow> Patient list" where
  "dispatchQueue fs = sort_by compare_tier (waitingQuery fs)"

definition dispatchQueue_mci :: "firestore \<Rightarrow> Patient list" where
  "dispatchQueue_mci fs = sort_by compare_getTier (waitingQuery fs)"

text \<open>
  The spec's words, read on the stored record itself: the tier of a record by its
  severity labels (BLACK only in the mass-casualty variant), and its creation time, the
  seconds of the timestamp that the server stored in the record, 0 when the record has
  no such timestamp. The sort key is the pair of tier and creation time.
\<close>

definition severity_tier :: "bool \<Rightarrow> Patient \<Rightarrow> int" where
  "severity_tier mass_casualty p =
     (let labelled = (\<lambda>k v. map_of (snd p) k = Some (VString v)) in
      if labelled ''triage'' ''RED'' \<or> labelled ''acuity'' ''Critical'' then 1
      else if labelled ''triage'' ''YELLOW'' \<or> labelled ''acuity'' ''Urgent'' then 2
      else if labelled ''triage'' ''GREEN'' \<or> labelled ''acuity'' ''Routine'' then 3
      else if mass_casualty \<and> labelled ''triage'' ''BLACK'' then 4
      else 5)"

definition creation_time :: "Patient \<Rightarrow> int" where
  "creation_time p =
     (case map_of (snd p) ''timestamp'' of Some (VTimestamp s) \<Rightarrow> s | _ \<Rightarrow> 0)"

definition queue_le :: "(Patient \<Rightarrow> int) \<Rightarrow> Patient \<Rightarrow> Patient \<Rightarrow> bool" where
  "queue_le t a b = (t a < t b \<or> (t a = t b \<and> creation_time a \<le> creation_time b))"

text \<open>
  Four waiting records for the examples: three of tier 1, reported at second 20, at
  second 10 and without a timestamp, and one of tier 2 reported at second 10.
\<close>

definition red_at_20 :: Patient where
  "red_at_20 = (1, [(''triage'', VString ''RED''), (''status'', VString ''waiting''),
                    (''timestamp'', VTimestamp 20)])"

definition urgent_at_10 :: Patient where
  "urgent_at_10 = (0, [(''acuity'', VString ''Urgent''), (''status'', VString ''waiting''),
                       (''timestamp'', VTimestamp 10)])"

definition critical_at_10 :: Patient where
  "critical_at_10 = (2, [(''acuity'', VString ''Critical''), (''status'', VString ''waiting''),
                         (''timestamp'', VTimestamp 10)])"

definition red_untimed :: Patient where
  "red_untimed = (3, [(''triage'', VString ''RED''), (''status'', VString ''waiting'')])"

definition example_queue_store :: firestore where
  "example_queue_store =
     \<lparr> documents = [urgent_at_10, red_at_20, critical_at_10, red_untimed],
       nextId = 4, serverSeconds = 30, online = True \<rparr>"

section \<open>Driver flows\<close>

text \<open>
  The state of a driver page that its handlers read and write: the selected patient (a
  snapshot taken from the queue), whether the map view is shown, and the phase of the
  trip (1: to the patient, 2: to the hospital). Toast notifications, the route geometry
  and the ETA banner are not part of the model.
\<close>

record driver =
  selectedPatient :: "Patient option"
  isNavigating :: bool
  navigationPhase :: nat


text \<open>
  The handlers of the two-phase driver page (DriverPage.tsx). A rejected \<open>updateDoc\<close>
  is caught: the store and the page state stay as they were.
\<close>

definition handleAcceptDispatch :: "firestore \<times> driver \<Rightarrow> firestore \<times> driver" where
  "handleAcceptDispatch s =
     (case selectedPatient (snd s) of
        None \<Rightarrow> s
      | Some p \<Rightarrow>
          (case updateDoc (fst s) (fst p) [(''status'', VString ''driver_en_route'')] of
             Inr fs' \<Rightarrow> (fs', (snd s)\<lparr> navigationPhase := 1, isNavigating := True \<rparr>)
           | Inl e \<Rightarrow> s))"

definition handlePatientLoaded :: "firestore \<times> driver \<Rightarrow> firestore \<times> driver" where
  "handlePatientLoaded s =
     (case selectedPatient (snd s) of
        None \<Rightarrow> s
      | Some p \<Rightarrow>
          (case updateDoc (fst s) (fst p) [(''status'', VString ''en_route_to_hospital'')] of
             Inr fs' \<Rightarrow> (fs', (snd s)\<lparr> navigationPhase := 2 \<rparr>)
           | Inl e \<Rightarrow> s))"

definition handlePatientDelivered :: "firestore \<times> driver \<Rightarrow> firestore \<times> driver" where
  "handlePatientDelivered s =
     (case selectedPatient (snd s) of
        None \<Rightarrow> s
      | Some p \<Rightarrow>
          (case updateDoc (fst s) (fst p) [(''status'', VString ''delivered'')] of
             Inr fs' \<Rightarrow> (fs', (snd s)\<lparr> navigationPhase := 1, isNavigating := False,
                                   selectedPatient := None \<rparr>)
           | Inl e \<Rightarrow> s))"

text \<open>
  The tracking interval of phase 1: every tick sends the driver's position to the
  selected patient's document; errors are caught.
\<close>

definition trackingTick :: "real \<Rightarrow> real \<Rightarrow> firestore \<times> driver \<Rightarrow> firestore \<times> driver" where
  "trackingTick lat lng s =
     (case selectedPatient (snd s) of
        None \<Rightarrow> s
      | Some p \<Rightarrow>
          (case updateDoc (fst s) (fst p)
                  [(''driverLat'', VNumber lat), (''driverLng'', VNumber lng)] of
             Inr fs' \<Rightarrow> (fs', snd s)
           | Inl e \<Rightarrow> s))"

text \<open>The queue page with a single handler (the first driver page of \<open>unnamed/part_002\<close>).\<close>

definition handlePatientLoaded_queue :: "firestore \<times> driver \<Rightarrow> firestore \<times> driver" where
  "handlePatientLoaded_queue s =
     (case selectedPatient (snd s) of
        None \<Rightarrow> s
      | Some p \<Rightarrow>
          (case updateDoc (fst s) (fst p) [(''status'', VString ''loaded'')] of
             Inr fs' \<Rightarrow> (fs', (snd s)\<lparr> selectedPatient := None \<rparr>)
           | Inl e \<Rightarrow> s))"

text \<open>The navigation page (the second driver page of \<open>unnamed/part_002\<close>).\<close>

definition handlePatientLoaded_nav :: "firestore \<times> driver \<Rightarrow> firestore \<times> driver" where
  "handlePatientLoaded_nav s =
     (case selectedPatient (snd s) of
        None \<Rightarrow> s
      | Some p \<Rightarrow>
          (case updateDoc (fst s) (fst p) [(''status'', VString ''loaded'')] of
             Inr fs' \<Rightarrow> (fs', (snd s)\<lparr> isNavigating := True \<rparr>)
           | Inl e \<Rightarrow> s))"

definition completeTransport :: "firestore \<times> driver \<Rightarrow> firestore \<times> driver" where
  "completeTransport s =
     (case selectedPatient (snd s) of
        None \<Rightarrow> s
      | Some p \<Rightarrow>
          (case updateDoc (fst s) (fst p) [(''status'', VString ''delivered'')] of
             Inr fs' \<Rightarrow> (fs', (snd s)\<lparr> selectedPatient := None, isNavigating := False \<rparr>)
           | Inl e \<Rightarrow> s))"

text \<open>
  What a driver can do on a page, as the page renders it. A card of the queue is shown,
  and can be selected, while the map view is not shown; the modal with its buttons is
  shown for a selected patient outside the map view; the map view shows the button of
  its phase. An event whose control is not rendered leaves the state as it is. (The
  accept button is enabled once the ETA banner is shown; the banner is computed when
  the patient is selected and is kept while the selection stays, so the model lets the
  button be pressed whenever it is rendered.)
\<close>

datatype driver_event =
    SelectPatient Patient
  | CloseModal
  | AcceptDispatch
  | PatientLoaded
  | PatientDelivered
  | TrackingTick real real

fun driverPage_step :: "firestore \<times> driver \<Rightarrow> driver_event \<Rightarrow> firestore \<times> driver" where
  "driverPage_step s (SelectPatient p) =
     (if \<not> isNavigating (snd s) \<and> p \<in> set (dispatchQueue (fst s))
      then (fst s, (snd s)\<lparr> selectedPatient := Some p \<rparr>) else s)"
| "driverPage_step s CloseModal =
     (if selectedPatient (snd s) \<noteq> None \<and> \<not> isNavigating (snd s)
      then (fst s, (snd s)\<lparr> selectedPatient := None \<rparr>) else s)"
| "driverPage_step s AcceptDispatch =
     (if selectedPatient (snd s) \<noteq> None \<and> \<not> isNavigating (snd s)
      then handleAcceptDispatch s else s)"
| "driverPage_step s PatientLoaded =
     (if isNavigating (snd s) \<and> navigationPhase (snd s) = 1
      then handlePatientLoaded s else s)"
| "driverPage_step s PatientDelivered =
     (if isNavigating (snd s) \<and> navigationPhase (snd s) \<noteq> 1
      then handlePatientDelivered s else s)"
| "driverPage_step s (TrackingTick lat lng) =
     (if isNavigating (snd s) \<and> selectedPatient (snd s) \<noteq> None \<and> navigationPhase (snd s) = 1
      then trackingTick lat lng s else s)"

fun queuePage_step :: "firestore \<times> driver \<Rightarrow> driver_event \<Rightarrow> firestore \<times> driver" where
  "queuePage_step s (SelectPatient p) =
     (if p \<in> set (dispatchQueue_mci (fst s))
      then (fst s, (snd s)\<lparr> selectedPatient := Some p \<rparr>) else s)"
| "queuePage_step s CloseModal =
     (if selectedPatient (snd s) \<noteq> None
      then (fst s, (snd s)\<lparr> selectedPatient := None \<rparr>) else s)"
| "queuePage_step s PatientLoaded =
     (if selectedPatient (snd s) \<noteq> None then handlePatientLoaded_queue s else s)"
| "queuePage_step s ev = s"

fun navPage_step :: "firestore \<times> driver \<Rightarrow> driver_event \<Rightarrow> firestore \<times> driver" where
  "navPage_step s (SelectPatient p) =
     (if \<not> isNavigating (snd s) \<and> p \<in> set (dispatchQueue_mci (fst s))
      then (fst s, (snd s)\<lparr> selectedPatient := Some p \<rparr>) else s)"
| "navPage_step s CloseModal =
     (if selectedPatient (snd s) \<noteq> None \<and> \<not> isNavigating (snd s)
      then (fst s, (snd s)\<lparr> selectedPatient := None \<rparr>) else s)"
| "navPage_step s PatientLoaded =
     (if selectedPatient (snd s) \<noteq> None \<and> \<not> isNavigating (snd s)
      then handlePatientLoaded_nav s else s)"
| "navPage_step s PatientDelivered =
     (if isNavigating (snd s) then completeTransport s else s)"
| "navPage_step s ev = s"

text \<open>
  Two drivers on the two-phase page, sharing the store: an event is an action of the
  first driver (\<open>Inl\<close>) or of the second (\<open>Inr\<close>).
\<close>

fun twoDrivers_step ::
  "firestore \<times> driver \<times> driver \<Rightarrow> driver_event + driver_event \<Rightarrow> firestore \<times> driver \<times> driver"
where
  "twoDrivers_step (fs, a, b) (Inl ev) = (case driverPage_step (fs, a) ev of (fs', a') \<Rightarrow> (fs', a', b))"
| "twoDrivers_step (fs, a, b) (Inr ev) = (case driverPage_step (fs, b) ev of (fs', b') \<Rightarrow> (fs', a, b'))"
















text \<open>A store with one waiting record, reported by a caller, for the examples.\<close>

definition example_record :: document where
  "example_record =
     [(''id'', VString ''CAL-101500''), (''triage'', VString ''RED''),
      (''status'', VString ''waiting''), (''patientLat'', VNumber 18.5074),
      (''patientLng'', VNumber 73.8077), (''timestamp'', VTimestamp 100)]"

definition example_store :: firestore where
  "example_store =
     \<lparr> documents = [(0, example_record)], nextId = 1, serverSeconds = 200, online = True \<rparr>"



section \<open>Intake: caller triage, mass-casualty capture, standard report\<close>

text \<open>
  White space as \<open>String.prototype.trim\<close> and \<open>parseInt\<close> strip it; of the Unicode white
  space characters the ASCII ones (space, tab, line feed, vertical tab, form feed,
  carriage return) are modelled.
\<close>

definition isWhiteSpace :: "char \<Rightarrow> bool" where
  "isWhiteSpace c = (c \<in> set [CHR '' '', CHR 0x09, CHR 0x0A, CHR 0x0B, CHR 0x0C, CHR 0x0D])"

definition trim :: "string \<Rightarrow> string" where
  "trim s = rev (dropWhile isWhiteSpace (rev (dropWhile isWhiteSpace s)))"

subsection \<open>CallerPage\<close>

record caller =
  currentStep :: nat
  triageResult :: "TriageResult option"

definition category_name :: "category \<Rightarrow> string" where
  "category_name c = (case c of RED \<Rightarrow> ''RED'' | YELLOW \<Rightarrow> ''YELLOW'' | GREEN \<Rightarrow> ''GREEN'')"

text \<open>
  \<open>handleSendMessage(text)\<close>, with the delayed callback run at once (while it is pending
  \<open>isTyping\<close> blocks every other message). \<open>hhmmss\<close> is the local time of day that names
  the record. A rejected \<open>addDoc\<close> is caught and logged. The chat transcript is not part
  of the model.
\<close>

definition handleSendMessage ::
  "string \<Rightarrow> string \<Rightarrow> firestore \<times> caller \<Rightarrow> firestore \<times> caller" where
  "handleSendMessage hhmmss text s =
     (let trimmed = trim text in
      if trimmed = [] \<or> triageResult (snd s) \<noteq> None then s
      else
        (case evaluateStep (currentStep (snd s)) trimmed of
           Some result \<Rightarrow>
             (case addDoc (fst s)
                     [(''id'', VString (''CAL-'' @ hhmmss)),
                      (''triage'', VString (category_name (triage_category result))),
                      (''status'', VString ''waiting''),
                      (''patientLat'', VNumber 18.5074),
                      (''patientLng'', VNumber 73.8077),
                      (''timestamp'', VServerTimestamp)] of
                Inr fs' \<Rightarrow> (fs', (snd s)\<lparr> triageResult := Some result \<rparr>)
              | Inl e \<Rightarrow> (fst s, (snd s)\<lparr> triageResult := Some result \<rparr>))
         | None \<Rightarrow> (fst s, (snd s)\<lparr> currentStep := currentStep (snd s) + 1 \<rparr>)))"

subsection \<open>ParamedicPage\<close>

datatype MciColor = MCI_RED | MCI_YELLOW | MCI_GREEN | MCI_BLACK

definition color_name :: "MciColor \<Rightarrow> string" where
  "color_name c =
     (case c of MCI_RED \<Rightarrow> ''RED'' | MCI_YELLOW \<Rightarrow> ''YELLOW''
      | MCI_GREEN \<Rightarrow> ''GREEN'' | MCI_BLACK \<Rightarrow> ''BLACK'')"

record Vitals =
  name :: string
  hr :: string
  bp :: string
  spo2 :: string
  notes_text :: string

datatype toast = ToastLoading string | ToastSuccess string | ToastError string

record paramedic =
  isMciMode :: bool
  isUploading :: bool
  selectedColor :: "MciColor option"
  cameraStream :: bool
  vitals :: Vitals
  toasts :: "toast list"

definition stopCamera :: "paramedic \<Rightarrow> paramedic" where
  "stopCamera p = p\<lparr> cameraStream := False, selectedColor := None \<rparr>"

text \<open>
  \<open>captureAndSubmit\<close>. \<open>video\<close> tells whether the video element is mounted; \<open>frame\<close> is
  the image read from the canvas, \<open>None\<close> when the canvas gives no 2d context (the
  source then throws into its own \<open>catch\<close>); \<open>timeStr\<close> is the local time of day.
\<close>

definition captureAndSubmit ::
  "bool \<Rightarrow> string option \<Rightarrow> string \<Rightarrow> firestore \<times> paramedic \<Rightarrow> firestore \<times> paramedic" where
  "captureAndSubmit video frame timeStr s =
     (case selectedColor (snd s) of
        None \<Rightarrow> s
      | Some color \<Rightarrow>
          if \<not> video then s
          else
            let p1 = (snd s)\<lparr> isUploading := True,
                       toasts := toasts (snd s)
                         @ [ToastLoading (''Processing '' @ color_name color @ '' triage...'')] \<rparr>
            in (case frame of
                  None \<Rightarrow>
                    (fst s, (stopCamera (p1\<lparr> toasts := toasts p1
                                @ [ToastError ''Failed to log patient''] \<rparr>))
                            \<lparr> isUploading := False \<rparr>)
                | Some base64Image \<Rightarrow>
                    let p2 = stopCamera p1;
                        mciId = ''MCI-'' @ color_name color @ ''-'' @ timeStr
                    in (case addDoc (fst s)
                               [(''id'', VString mciId),
                                (''triage'', VString (color_name color)),
                                (''photoBase64'', VString base64Image),
                                (''status'', VString ''waiting''),
                                (''timestamp'', VServerTimestamp)] of
                          Inr fs' \<Rightarrow>
                            (fs', p2\<lparr> toasts := toasts p2
                                      @ [ToastSuccess (''Patient Logged: '' @ mciId)],
                                    isUploading := False \<rparr>)
                        | Inl e \<Rightarrow>
                            (fst s, (stopCamera (p2\<lparr> toasts := toasts p2
                                        @ [ToastError ''Failed to log patient''] \<rparr>))
                                    \<lparr> isUploading := False \<rparr>))))"

text \<open>
  \<open>parseInt(s, 10)\<close>: leading white space is skipped, a sign is read, then the longest
  run of decimal digits; no digit gives \<open>NaN\<close>.
\<close>

datatype js_number = NaN | Num int

definition digit_of :: "char \<Rightarrow> nat option" where
  "digit_of c = map_of (zip ''0123456789'' [0 ..< 10]) c"

definition parseInt :: "string \<Rightarrow> js_number" where
  "parseInt s =
     (let s1 = dropWhile isWhiteSpace s;
          neg = (case s1 of c # r \<Rightarrow> c = CHR ''-'' | [] \<Rightarrow> False);
          s2 = (case s1 of c # r \<Rightarrow> if c = CHR ''-'' \<or> c = CHR ''+'' then r else s1 | [] \<Rightarrow> s1);
          ds = takeWhile (\<lambda>c. digit_of c \<noteq> None) s2;
          n = foldl (\<lambda>a c. 10 * a + (case digit_of c of Some d \<Rightarrow> d | None \<Rightarrow> 0)) 0 ds
      in if ds = [] then NaN else Num (if neg then - int n else int n))"

definition isNaN :: "js_number \<Rightarrow> bool" where
  "isNaN x = (x = NaN)"

text \<open>\<open>x < k\<close> and \<open>x > k\<close> on numbers: both are false for \<open>NaN\<close>.\<close>

definition js_lt :: "js_number \<Rightarrow> int \<Rightarrow> bool" where
  "js_lt x k = (case x of NaN \<Rightarrow> False | Num n \<Rightarrow> n < k)"

definition js_gt :: "js_number \<Rightarrow> int \<Rightarrow> bool" where
  "js_gt x k = (case x of NaN \<Rightarrow> False | Num n \<Rightarrow> n > k)"

text \<open>
  \<open>validateNormalForm\<close>. Its third check reads an identifier \<open>bp\<close> that the function,
  the component and the module do not declare, so the name is looked up in the global
  scope. \<open>bp_global\<close> is what that lookup gives, as a number: \<open>None\<close> when no global of
  that name exists, and then reading it throws a \<open>ReferenceError\<close>. The tests of the
  third check run from left to right and stop at the first that holds.
\<close>

definition validateNormalForm ::
  "js_number option \<Rightarrow> paramedic \<Rightarrow> (error + bool) \<times> paramedic" where
  "validateNormalForm bp_global p =
     (let hr_n = parseInt (hr (vitals p));
          spo2_n = parseInt (spo2 (vitals p))
      in
      if hr (vitals p) = [] \<or> isNaN hr_n \<or> js_lt hr_n 1 \<or> js_gt hr_n 300
      then (Inr False, p\<lparr> toasts := toasts p
              @ [ToastError ''Heart Rate is required and must be between 1 and 300''] \<rparr>)
      else if spo2 (vitals p) = [] \<or> isNaN spo2_n \<or> js_lt spo2_n 0 \<or> js_gt spo2_n 100
      then (Inr False, p\<lparr> toasts := toasts p
              @ [ToastError ''SpO2 is required and must be between 0 and 100''] \<rparr>)
      else if bp (vitals p) = []
      then (Inr False, p\<lparr> toasts := toasts p @ [ToastError ''Blood Pressure is required''] \<rparr>)
      else (case bp_global of
              None \<Rightarrow> (Inl (ReferenceError ''bp''), p)
            | Some b \<Rightarrow>
                if isNaN b \<or> trim (bp (vitals p)) = []
                then (Inr False, p\<lparr> toasts := toasts p
                        @ [ToastError ''Blood Pressure is required''] \<rparr>)
                else (Inr True, p)))"

text \<open>
  \<open>submitStandardReport\<close>: an exception of the validation leaves the handler (\<open>Inl\<close>)
  before anything else is done; a rejected \<open>addDoc\<close> is caught.
\<close>

definition submitStandardReport ::
  "js_number option \<Rightarrow> firestore \<times> paramedic \<Rightarrow> (error + unit) \<times> firestore \<times> paramedic" where
  "submitStandardReport bp_global s =
     (case validateNormalForm bp_global (snd s) of
        (Inl e, p') \<Rightarrow> (Inl e, fst s, p')
      | (Inr False, p') \<Rightarrow> (Inr (), fst s, p')
      | (Inr True, p') \<Rightarrow>
          let p1 = p'\<lparr> isUploading := True,
                      toasts := toasts p' @ [ToastLoading ''Submitting report...''] \<rparr>
          in (case addDoc (fst s)
                     [(''name'', VString (name (vitals p1))),
                      (''hr'', VString (hr (vitals p1))),
                      (''bp'', VString (bp (vitals p1))),
                      (''spo2'', VString (spo2 (vitals p1))),
                      (''notes'', VString (notes_text (vitals p1))),
                      (''type'', VString ''standard''),
                      (''status'', VString ''waiting''),
                      (''timestamp'', VServerTimestamp)] of
                Inr fs' \<Rightarrow>
                  (Inr (), fs',
                   p1\<lparr> toasts := toasts p1 @ [ToastSuccess ''Report Submitted''],
                       vitals := \<lparr> name = [], hr = [], bp = [], spo2 = [], notes_text = [] \<rparr>,
                       isUploading := False \<rparr>)
              | Inl e \<Rightarrow>
                  (Inr (), fst s,
                   p1\<lparr> toasts := toasts p1 @ [ToastError ''Failed to submit report''],
                       isUploading := False \<rparr>)))"

text \<open>
  The spec's words for a newly created record: one document was added, it has status
  waiting and the server's time as its timestamp, and the waiting query of the dispatch
  queue returns it.
\<close>

definition created_waiting :: "firestore \<Rightarrow> firestore \<Rightarrow> bool" where
  "created_waiting fs fs' =
     (\<exists>d. documents fs' = documents fs @ [(nextId fs, d)]
          \<and> field d ''status'' = Some (VString ''waiting'')
          \<and> field d ''timestamp'' = Some (VTimestamp (serverSeconds fs))
          \<and> (nextId fs, d) \<in> set (waitingQuery fs')
          \<and> (nextId fs, d) \<in> set (dispatchQueue fs')
          \<and> (nextId fs, d) \<in> set (dispatchQueue_mci fs'))"

definition example_paramedic :: paramedic where
  "example_paramedic =
     \<lparr> isMciMode = False, isUploading = False, selectedColor = None, cameraStream = False,
       vitals = \<lparr> name = ''A. Rao'', hr = ''80'', bp = ''120/80'', spo2 = ''98'', notes_text = [] \<rparr>,
       toasts = [] \<rparr>"

text \<open>
  The spec's words for the vitals that must be rejected: the heart rate is absent or
  outside 1..300, the oxygen saturation is absent or outside 0..100 (a field that does
  not read as a number is not in the range), the blood pressure is absent (the empty
  text) or empty (nothing but white space).
\<close>

definition hr_invalid :: "Vitals \<Rightarrow> bool" where
  "hr_invalid v = (hr v = [] \<or> (case parseInt (hr v) of NaN \<Rightarrow> True | Num n \<Rightarrow> n < 1 \<or> 300 < n))"

definition spo2_invalid :: "Vitals \<Rightarrow> bool" where
  "spo2_invalid v =
     (spo2 v = [] \<or> (case parseInt (spo2 v) of NaN \<Rightarrow> True | Num n \<Rightarrow> n < 0 \<or> 100 < n))"

definition bp_absent :: "Vitals \<Rightarrow> bool" where
  "bp_absent v = (bp v = [])"

definition bp_blank :: "Vitals \<Rightarrow> bool" where
  "bp_blank v = (trim (bp v) = [])"

section \<open>JavaScript numbers\<close>

text \<open>
  A JavaScript number that is neither \<open>NaN\<close> nor infinite is a rational: a binary64
  value. \<open>fl\<close> rounds a number (a rational, or a real where the real functions come
  in) to the nearest binary64 value, ties to the even significand, as every arithmetic
  operation of the language does with its exact result.
  \<open>binade\<close> finds the exponent \<open>e\<close> with \<open>2^52 \<le> x / 2^e < 2^53\<close>; its fuel of 2200
  steps is more than the 2098 binades of the format. Below \<open>2^-1022\<close> the spacing stays
  \<open>2^-1074\<close>. Overflow to infinity (beyond \<open>2^1024\<close>) is not modelled.
\<close>

definition round_half_even :: "'a::floor_ceiling \<Rightarrow> int" where
  "round_half_even x =
     (let n = \<lfloor>x\<rfloor>; r = x - of_int n
      in if r < 1 / 2 then n else if 1 / 2 < r then n + 1 else if even n then n else n + 1)"

fun binade :: "nat \<Rightarrow> 'a::linordered_field \<Rightarrow> int \<Rightarrow> int" where
  "binade 0 x e = e"
| "binade (Suc k) x e =
     (if x < 2 ^ 52 then binade k (2 * x) (e - 1)
      else if 2 ^ 53 \<le> x then binade k (x / 2) (e + 1)
      else e)"

definition fl :: "'a::floor_ceiling \<Rightarrow> 'a" where
  "fl x =
     (if x = 0 then 0
      else let e = max (binade 2200 \<bar>x\<bar> 0) (- 1074)
           in sgn x * of_int (round_half_even (\<bar>x\<bar> / 2 powi e)) * 2 powi e)"

text \<open>\<open>Math.round\<close>: the nearest integer, a tie going up.\<close>

definition Math_round :: "rat \<Rightarrow> int" where
  "Math_round x = \<lfloor>x + 1 / 2\<rfloor>"

text \<open>
  Decimal output. \<open>Number.prototype.toFixed(1)\<close> takes the integer \<open>n\<close> for which
  \<open>n / 10\<close> is nearest to the number, the larger one on a tie, and prints it with one
  digit after the point; a negative number is printed as its absolute value after a
  minus sign. A template literal prints an integer in decimal. (The exponent notation
  of both for magnitudes from \<open>10^21\<close> is not modelled.)
\<close>

definition digit_char :: "nat \<Rightarrow> char" where
  "digit_char d = ''0123456789'' ! (d mod 10)"

fun digits :: "nat \<Rightarrow> string" where
  "digits n = (if n < 10 then [digit_char n] else digits (n div 10) @ [digit_char (n mod 10)])"

definition Number_toString :: "int \<Rightarrow> string" where
  "Number_toString k = (if k < 0 then ''-'' @ digits (nat (- k)) else digits (nat k))"

definition tenths :: "rat \<Rightarrow> nat" where
  "tenths x = nat \<lfloor>10 * \<bar>x\<bar> + 1 / 2\<rfloor>"

definition toFixed1 :: "rat \<Rightarrow> string" where
  "toFixed1 x =
     (if x < 0 then ''-'' else []) @ digits (tenths x div 10) @ ''.'' @ digits (tenths x mod 10)"

section \<open>Camera image compression\<close>

text \<open>
  \<open>compressToUnder100KB(canvas, callback)\<close>. The canvas is modelled by its encoder
  \<open>toDataURL\<close>: the data URL that \<open>canvas.toDataURL("image/jpeg", quality)\<close> gives for a
  quality. The inner function \<open>compress\<close> calls itself with a lower quality until the
  estimated size fits or the quality is at its floor; it is a partial function, \<open>None\<close>
  standing for a loop that never reaches the callback, and \<open>Some (dataURL, size)\<close> for
  the arguments the callback is called with. The literals \<open>0.9\<close>, \<open>0.05\<close> and \<open>0.1\<close> are
  the binary64 values nearest to them, and the subtraction rounds.
\<close>

definition MAX_SIZE :: nat where
  "MAX_SIZE = 100 * 1024"

definition estimated_size :: "string \<Rightarrow> nat" where
  "estimated_size dataURL = nat (Math_round (of_nat (length dataURL * 3) / 4))"

partial_function (option) compress :: "(rat \<Rightarrow> string) \<Rightarrow> rat \<Rightarrow> (string \<times> nat) option" where
  "compress toDataURL quality =
     (let dataURL = toDataURL quality;
          size = estimated_size dataURL
      in if size \<le> MAX_SIZE \<or> quality \<le> fl (1 / 10) then Some (dataURL, size)
         else compress toDataURL (fl (quality - fl (5 / 100))))"

definition compressToUnder100KB :: "(rat \<Rightarrow> string) \<Rightarrow> (string \<times> nat) option" where
  "compressToUnder100KB toDataURL = compress toDataURL (fl (9 / 10))"

text \<open>The qualities the loop goes through: 0.9, then 0.05 less at every step.\<close>

primrec quality_steps :: "nat \<Rightarrow> rat" where
  "quality_steps 0 = fl (9 / 10)"
| "quality_steps (Suc k) = fl (quality_steps k - fl (5 / 100))"

text \<open>
  A canvas for the examples: at a quality above 0.7 its JPEG data URL has 150000
  characters, below that 60000.
\<close>

definition example_canvas :: "rat \<Rightarrow> string" where
  "example_canvas quality =
     ''data:image/jpeg;base64,'' @ replicate (if 7 / 10 < quality then 149977 else 59977) CHR ''A''"

text \<open>
  The canvas that the page passes to the compressor. \<open>canvas.toDataURL\<close> is the
  browser's: for a bitmap with no pixels (width or height 0) it returns \<open>data:,\<close>, and
  otherwise, in a browser that encodes JPEG, the data URL of the JPEG file of the bitmap
  at the given quality, whose base64 text \<open>jpeg_base64\<close> stands for.
\<close>

record canvas =
  canvas_width :: nat
  canvas_height :: nat
  jpeg_base64 :: "rat \<Rightarrow> string"

definition canvas_toDataURL :: "canvas \<Rightarrow> rat \<Rightarrow> string" where
  "canvas_toDataURL c quality =
     (if canvas_width c = 0 \<or> canvas_height c = 0 then ''data:,''
      else ''data:image/jpeg;base64,'' @ jpeg_base64 c quality)"

text \<open>
  The capture handler: the canvas takes the size of the video frame, scaled down to a
  width of 640 when the frame is wider, the frame is drawn on it, and the canvas is
  compressed; the result is what the callback shows as \<open>output.src\<close> and as the final
  size. A video that has no frame yet (the camera was not started, or has not delivered
  a frame) has width and height 0. \<open>frame_base64 v w h\<close> stands for the base64 text of the
  JPEG file of the frame drawn at \<open>w\<close> by \<open>h\<close> pixels.
\<close>

record video =
  videoWidth :: nat
  videoHeight :: nat
  frame_base64 :: "nat \<Rightarrow> nat \<Rightarrow> rat \<Rightarrow> string"

definition MAX_WIDTH :: nat where
  "MAX_WIDTH = 640"

definition capture_canvas :: "video \<Rightarrow> canvas" where
  "capture_canvas v =
     (let width = (of_nat (videoWidth v) :: rat);
          height = (of_nat (videoHeight v) :: rat);
          scale = fl (of_nat MAX_WIDTH / width);
          width' = (if of_nat MAX_WIDTH < width then fl (width * scale) else width);
          height' = (if of_nat MAX_WIDTH < width then fl (height * scale) else height)
      in \<lparr> canvas_width = nat \<lfloor>width'\<rfloor>, canvas_height = nat \<lfloor>height'\<rfloor>,
           jpeg_base64 = frame_base64 v (nat \<lfloor>width'\<rfloor>) (nat \<lfloor>height'\<rfloor>) \<rparr>)"

definition capture :: "video \<Rightarrow> (string \<times> nat) option" where
  "capture v = compressToUnder100KB (canvas_toDataURL (capture_canvas v))"

text \<open>The spec's words: an encoded JPEG data URL.\<close>

definition is_jpeg_data_url :: "string \<Rightarrow> bool" where
  "is_jpeg_data_url s = prefix ''data:image/jpeg;base64,'' s"

text \<open>
  For the examples: a video without a frame, and a video of 320 by 240 pixels whose
  frame encodes as the example canvas does.
\<close>

definition camera_not_started :: video where
  "camera_not_started = \<lparr> videoWidth = 0, videoHeight = 0, frame_base64 = (\<lambda>w h q. []) \<rparr>"

definition example_video :: video where
  "example_video =
     \<lparr> videoWidth = 320, videoHeight = 240,
       frame_base64 = (\<lambda>w h quality.
          replicate (if 7 / 10 < quality then 149977 else 59977) CHR ''A'') \<rparr>"

section \<open>ETA advisory and nearest hospital\<close>

text \<open>Coordinates in degrees; they are reals, as the distance functions are.\<close>

record LatLng =
  lat :: real
  lng :: real

definition DEMO_PICKUP :: LatLng where
  "DEMO_PICKUP = \<lparr> lat = 18.5074, lng = 73.8077 \<rparr>"

subsection \<open>The routing service\<close>

text \<open>
  A route of the routing service, as section 6 of the spec gives it: distance in metres
  and duration in seconds, both JavaScript numbers (the path geometry is not used by the
  ETA). What the service does with one request is one of: the \<open>fetch\<close> is rejected (no
  network), the body of the response is not JSON, the body is the JSON value \<open>null\<close>, or
  the body is a JSON value with or without a \<open>routes\<close> array.
\<close>

record Route =
  distance :: rat
  duration :: rat

datatype osrm_reply = FetchRejected | BodyNotJson | JsonNull | JsonData "Route list option"

text \<open>
  The network as the page sees it: the replies the service will give to the coming
  requests, and the log of the requests made so far (origin and destination). A request
  that gets no reply counts as rejected.
\<close>

record network =
  replies :: "osrm_reply list"
  requests :: "(LatLng \<times> LatLng) list"

text \<open>
  \<open>fetchOsrmRoute(from, to)\<close>: one request; \<open>attempt\<close> is the body of the \<open>try\<close>, whose
  exceptions (\<open>Inl\<close>) the \<open>catch\<close> turns into \<open>null\<close>. The result is \<open>Inr\<close> of the
  route or of \<open>None\<close> for \<open>null\<close>; \<open>Inl\<close> would be an exception leaving the function.
\<close>

definition fetchOsrmRoute ::
  "network \<Rightarrow> LatLng \<Rightarrow> LatLng \<Rightarrow> (error + Route option) \<times> network" where
  "fetchOsrmRoute net from_pos to_pos =
     (let net' = net\<lparr> requests := requests net @ [(from_pos, to_pos)],
                       replies := tl (replies net) \<rparr>;
          attempt =
            (case replies net of
               [] \<Rightarrow> Inl NetworkError
             | FetchRejected # _ \<Rightarrow> Inl NetworkError
             | BodyNotJson # _ \<Rightarrow> Inl SyntaxError
             | JsonNull # _ \<Rightarrow> Inl TypeError
             | JsonData routes # _ \<Rightarrow>
                 Inr (case routes of
                        None \<Rightarrow> None
                      | Some [] \<Rightarrow> None
                      | Some (r # _) \<Rightarrow> Some r))
      in (case attempt of
            Inl e \<Rightarrow> (Inr None, net')
          | Inr route \<Rightarrow> (Inr route, net')))"

subsection \<open>The ETA banner of the dispatch modal\<close>

record ETA =
  eta_distance :: string
  eta_time :: string

record eta_page =
  driverLocation :: "LatLng option"
  dispatchETA :: "ETA option"
  isCalculatingETA :: bool

text \<open>
  The pickup position of the selected patient: its stored coordinates, the demo pickup
  point where a coordinate is absent.
\<close>

definition patientPos :: "Patient \<Rightarrow> LatLng" where
  "patientPos p =
     \<lparr> lat = (case field (snd p) ''patientLat'' of Some (VNumber x) \<Rightarrow> x | _ \<Rightarrow> lat DEMO_PICKUP),
       lng = (case field (snd p) ''patientLng'' of Some (VNumber x) \<Rightarrow> x | _ \<Rightarrow> lng DEMO_PICKUP) \<rparr>"

text \<open>
  The flag \<open>cancelled\<close> of the effect, which the cleanup sets when the selection (or the
  driver location) changes while the calculation is waiting. \<open>calculateETA\<close> reads it
  three times: after the position is known, after the route came back, and in its
  \<open>finally\<close> clause.
\<close>

record cancelled_flag =
  after_position :: bool
  after_route :: bool
  at_finally :: bool

definition not_cancelled :: cancelled_flag where
  "not_cancelled = \<lparr> after_position = False, after_route = False, at_finally = False \<rparr>"

text \<open>
  \<open>calculateETA\<close>, for a selected patient. \<open>geo\<close> is what \<open>getPosition()\<close> gives when the
  driver's location is not known yet. Every exception inside is caught and logged, so
  the result is \<open>Inr ()\<close> on every path; \<open>finally_block\<close> is the body of the \<open>finally\<close>
  clause. (The test \<open>if (!pos) return\<close> is left out: a position is an object and never
  falsy.)
\<close>

definition calculateETA ::
  "cancelled_flag \<Rightarrow> error + LatLng \<Rightarrow> Patient \<Rightarrow> network \<times> eta_page
     \<Rightarrow> (error + unit) \<times> network \<times> eta_page" where
  "calculateETA cancelled geo selected s =
     (let finally_block =
            (\<lambda>st. if at_finally cancelled then st else st\<lparr> isCalculatingETA := False \<rparr>) in
      case (case driverLocation (snd s) of Some p \<Rightarrow> Inr p | None \<Rightarrow> geo) of
        Inl e \<Rightarrow> (Inr (), fst s, finally_block (snd s))
      | Inr pos \<Rightarrow>
          let st1 = (if driverLocation (snd s) = None \<and> \<not> after_position cancelled
                     then (snd s)\<lparr> driverLocation := Some pos \<rparr> else snd s);
              fetched = fetchOsrmRoute (fst s) pos (patientPos selected)
          in (case fst fetched of
                Inl e \<Rightarrow> (Inr (), snd fetched, finally_block st1)
              | Inr None \<Rightarrow> (Inr (), snd fetched, finally_block st1)
              | Inr (Some routeData) \<Rightarrow>
                  (Inr (), snd fetched,
                   finally_block
                     (if after_route cancelled then st1
                      else st1\<lparr> dispatchETA := Some
                             \<lparr> eta_distance = toFixed1 (fl (distance routeData / 1000)),
                               eta_time = Number_toString
                                 (Math_round (fl (duration routeData / 60))) \<rparr> \<rparr>))))"

text \<open>
  The effect that runs when a patient is selected outside the map view: the banner is
  cleared, the spinner is shown, and the ETA is calculated.
\<close>

definition etaEffect ::
  "cancelled_flag \<Rightarrow> error + LatLng \<Rightarrow> Patient \<Rightarrow> network \<times> eta_page
     \<Rightarrow> (error + unit) \<times> network \<times> eta_page" where
  "etaEffect cancelled geo selected s =
     calculateETA cancelled geo selected
       (fst s, (snd s)\<lparr> dispatchETA := None, isCalculatingETA := True \<rparr>)"

text \<open>The number that a decimal numeral of digits stands for.\<close>

definition decimal_value :: "string \<Rightarrow> nat" where
  "decimal_value s = foldl (\<lambda>a c. 10 * a + (case digit_of c of Some d \<Rightarrow> d | None \<Rightarrow> 0)) 0 s"

text \<open>
  The spec's words for the two outcomes of the advisory. The route that the single
  request yields: none on a network failure, on a body that does not parse, and on a
  body without a route. The position the route starts from: the known driver location,
  else what the geolocation gives.
\<close>

definition answered_route :: "network \<Rightarrow> Route option" where
  "answered_route net =
     (case replies net of JsonData (Some (r # rs)) # rest \<Rightarrow> Some r | _ \<Rightarrow> None)"

definition known_position :: "eta_page \<Rightarrow> error + LatLng \<Rightarrow> LatLng option" where
  "known_position st geo =
     (case driverLocation st of
        Some p \<Rightarrow> Some p
      | None \<Rightarrow> (case geo of Inr p \<Rightarrow> Some p | Inl e \<Rightarrow> None))"

definition example_network :: network where
  "example_network =
     \<lparr> replies = [JsonData (Some [\<lparr> distance = 24691 / 2, duration = 3017 / 4 \<rparr>]),
                  BodyNotJson],
       requests = [] \<rparr>"

definition example_eta_page :: eta_page where
  "example_eta_page =
     \<lparr> driverLocation = Some \<lparr> lat = 18.52, lng = 73.85 \<rparr>,
       dispatchETA = Some \<lparr> eta_distance = ''1.0'', eta_time = ''2'' \<rparr>,
       isCalculatingETA = False \<rparr>"

subsection \<open>Nearest hospital\<close>

text \<open>
  The distance computation of the two-phase driver page, in binary64. A number is
  \<open>NaN\<close> or the real value of a binary64 number; the infinities, which need
  coordinates beyond \<open>2^1000\<close>, and the sign of zero are not modelled. A literal is the
  binary64 value nearest to it, and every arithmetic operation rounds its exact result
  (\<open>fl\<close>). \<open>Math.PI\<close> is the binary64 value nearest to \<open>\<pi>\<close>.
\<close>

datatype double = NotANumber | Double real

definition PI :: real where
  "PI = 884279719003555 / 281474976710656"

text \<open>
  ECMAScript leaves \<open>Math.sin\<close>, \<open>Math.cos\<close>, \<open>Math.sqrt\<close>, \<open>Math.atan2\<close> and \<open>**\<close>
  implementation-approximated. They are a parameter of the model, a Math library: its
  values on numbers. What the language fixes is written out: \<open>Math.sqrt\<close> of a negative
  number is \<open>NaN\<close>, \<open>Math.atan2\<close> with a \<open>NaN\<close> argument is \<open>NaN\<close>, a product with
  \<open>NaN\<close> is \<open>NaN\<close>, and a comparison with \<open>NaN\<close> is false.
\<close>

record math_library =
  Math_sin :: "real \<Rightarrow> real"
  Math_cos :: "real \<Rightarrow> real"
  Math_pow :: "real \<Rightarrow> real \<Rightarrow> real"
  sqrt_of_nonnegative :: "real \<Rightarrow> real"
  atan2_of_numbers :: "real \<Rightarrow> real \<Rightarrow> real"

definition Math_sqrt :: "math_library \<Rightarrow> real \<Rightarrow> double" where
  "Math_sqrt M x = (if x < 0 then NotANumber else Double (sqrt_of_nonnegative M x))"

definition Math_atan2 :: "math_library \<Rightarrow> double \<Rightarrow> double \<Rightarrow> double" where
  "Math_atan2 M y x =
     (case y of
        NotANumber \<Rightarrow> NotANumber
      | Double y' \<Rightarrow>
          (case x of NotANumber \<Rightarrow> NotANumber | Double x' \<Rightarrow> Double (atan2_of_numbers M y' x')))"

definition times :: "real \<Rightarrow> double \<Rightarrow> double" where
  "times r x = (case x of NotANumber \<Rightarrow> NotANumber | Double x' \<Rightarrow> Double (fl (r * x')))"

definition less_than :: "double \<Rightarrow> double \<Rightarrow> bool" where
  "less_than x y =
     (case x of
        NotANumber \<Rightarrow> False
      | Double x' \<Rightarrow> (case y of NotANumber \<Rightarrow> False | Double y' \<Rightarrow> x' < y'))"

text \<open>The hospital list.\<close>

record Hospital = LatLng +
  hospital_name :: string

definition Deenanath :: Hospital where
  "Deenanath =
     \<lparr> lat = fl 18.5028, lng = fl 73.8365, hospital_name = ''Deenanath Mangeshkar Hospital'' \<rparr>"

definition Sahyadri :: Hospital where
  "Sahyadri =
     \<lparr> lat = fl 18.5050, lng = fl 73.8024, hospital_name = ''Sahyadri Hospital Kothrud'' \<rparr>"

definition Shashwat :: Hospital where
  "Shashwat = \<lparr> lat = fl 18.4965, lng = fl 73.8202, hospital_name = ''Shashwat Hospital'' \<rparr>"

definition HOSPITALS :: "Hospital list" where
  "HOSPITALS = [Deenanath, Sahyadri, Shashwat]"

text \<open>The value \<open>h\<close> of \<open>haversineKm\<close>, and the function itself.\<close>

definition haversine_h :: "math_library \<Rightarrow> LatLng \<Rightarrow> LatLng \<Rightarrow> real" where
  "haversine_h M a b =
     (let dLat = fl (fl (fl (lat b - lat a) * PI) / 180);
          dLng = fl (fl (fl (lng b - lng a) * PI) / 180)
      in fl (Math_pow M (Math_sin M (fl (dLat / 2))) 2
             + fl (fl (Math_cos M (fl (fl (lat a * PI) / 180))
                       * Math_cos M (fl (fl (lat b * PI) / 180)))
                   * Math_pow M (Math_sin M (fl (dLng / 2))) 2)))"

definition haversineKm :: "math_library \<Rightarrow> LatLng \<Rightarrow> LatLng \<Rightarrow> double" where
  "haversineKm M a b =
     (let R = 6371;
          h = haversine_h M a b
      in times (fl (R * 2)) (Math_atan2 M (Math_sqrt M h) (Math_sqrt M (fl (1 - h)))))"

text \<open>
  \<open>Array.prototype.reduce\<close> without an initial value: the first element starts the
  accumulation; on an empty array it throws a \<open>TypeError\<close>.
\<close>

definition reduce :: "('a \<Rightarrow> 'a \<Rightarrow> 'a) \<Rightarrow> 'a list \<Rightarrow> error + 'a" where
  "reduce f xs = (case xs of [] \<Rightarrow> Inl TypeError | x # rest \<Rightarrow> Inr (foldl f x rest))"

definition closestHospital :: "math_library \<Rightarrow> LatLng \<Rightarrow> error + Hospital" where
  "closestHospital M to_pos =
     reduce (\<lambda>best h.
               if less_than (haversineKm M \<lparr> lat = lat h, lng = lng h \<rparr> to_pos)
                            (haversineKm M \<lparr> lat = lat best, lng = lng best \<rparr> to_pos)
               then h else best)
       HOSPITALS"

text \<open>The coordinates of a hospital, as a pickup point.\<close>

definition position_of :: "Hospital \<Rightarrow> LatLng" where
  "position_of h = \<lparr> lat = lat h, lng = lng h \<rparr>"

text \<open>
  The spec's words: one distance is at most another. Of \<open>NaN\<close> this does not hold.
\<close>

definition at_most :: "double \<Rightarrow> double \<Rightarrow> bool" where
  "at_most x y =
     (case x of
        NotANumber \<Rightarrow> False
      | Double x' \<Rightarrow> (case y of NotANumber \<Rightarrow> False | Double y' \<Rightarrow> x' \<le> y'))"

text \<open>
  The values that the language fixes, or that every library gives, at the arguments of a
  distance from a point to itself: \<open>Math.sin(0)\<close>, \<open>0 ** 2\<close>, \<open>Math.sqrt(0)\<close> and
  \<open>Math.atan2(0, 1)\<close> are 0, and \<open>Math.sqrt(1)\<close> is 1.
\<close>

definition exact_at_zero :: "math_library \<Rightarrow> bool" where
  "exact_at_zero M =
     (Math_sin M 0 = 0 \<and> Math_pow M 0 2 = 0 \<and> sqrt_of_nonnegative M 0 = 0
      \<and> sqrt_of_nonnegative M 1 = 1 \<and> atan2_of_numbers M 0 1 = 0)"

text \<open>
  \<open>Math.atan2(y, x)\<close> over the reals: the angle of the point \<open>(x, y)\<close>, between \<open>-\<pi>\<close>
  and \<open>\<pi>\<close>.
\<close>

definition atan2 :: "real \<Rightarrow> real \<Rightarrow> real" where
  "atan2 y x =
     (if 0 < x then arctan (y / x)
      else if x < 0 then (if 0 \<le> y then arctan (y / x) + pi else arctan (y / x) - pi)
      else if 0 < y then pi / 2
      else if y < 0 then - (pi / 2)
      else 0)"

text \<open>
  A Math library for the examples. At the arguments that the examples reach, its values
  are the binary64 numbers that the GNU C library returns for \<open>sin\<close>, \<open>cos\<close>, \<open>pow\<close>,
  \<open>sqrt\<close> and \<open>atan2\<close>; at every other argument it returns the exact value rounded to
  binary64.
\<close>

definition libm_sin :: "real \<Rightarrow> real" where
  "libm_sin x =
     (case map_of
       [(- (442139859467995 / 281474976710656), - 1),
        (- (3536798569979077 / 2251799813685248), - (4503599581808739 / 4503599627370496)),
        (- (442056098527945 / 281474976710656), - (9007198855933211 / 9007199254740992)),
        (- (5817821676456151 / 18014398509481984), - (1429303835628895 / 4503599627370496)),
        (- (363592239052045 / 1125899906842624), - (5716887369656751 / 18014398509481984)),
        (- (5816485431547435 / 18014398509481984), - (5715948162995411 / 18014398509481984)),
        (- (5489356967119881 / 18446744073709551616), - (5489356886103335 / 18446744073709551616)),
        (- (579521556646249 / 2305843009213693952), - (4636172404362325 / 18446744073709551616)),
        (- (358176517649249 / 2305843009213693952), - (5730824259341717 / 36893488147419103232)),
        (- (2623944825925889 / 18446744073709551616), - (5247889634154625 / 36893488147419103232)),
        (- (8048910508976411 / 73786976294838206464), - (4024455246506961 / 36893488147419103232)),
        (- (5473259146101397 / 73786976294838206464), - (684157392635285 / 9223372036854775808)),
        (- (4056650896522885 / 73786976294838206464), - (8113301788958605 / 147573952589676412928)),
        (- (5666432998314049 / 295147905179352825856), - (5666432997965953 / 295147905179352825856)),
        (0, 0),
        (5666432998314049 / 295147905179352825856, 5666432997965953 / 295147905179352825856),
        (6181563270896373 / 295147905179352825856, 3090781635222225 / 147573952589676412928),
        (5923998134605211 / 147573952589676412928, 5923998133014197 / 147573952589676412928),
        (6825476111599113 / 147573952589676412928, 6825476109165631 / 147573952589676412928),
        (4056650896522885 / 73786976294838206464, 8113301788958605 / 147573952589676412928),
        (5473259146101397 / 73786976294838206464, 684157392635285 / 9223372036854775808),
        (3509324981912745 / 36893488147419103232, 1754662488310371 / 18446744073709551616),
        (2623944825925889 / 18446744073709551616, 5247889634154625 / 36893488147419103232),
        (358176517649249 / 2305843009213693952, 5730824259341717 / 36893488147419103232),
        (5489356967119881 / 18446744073709551616, 5489356886103335 / 18446744073709551616)] x of
        Some v \<Rightarrow> v
      | None \<Rightarrow> fl (sin x))"

definition libm_cos :: "real \<Rightarrow> real" where
  "libm_cos x =
     (case map_of
       [(- (1454368953769339 / 4503599627370496), 8541600443811171 / 9007199254740992),
        (5815495048017513 / 18014398509481984, 8541914691378897 / 9007199254740992),
        (5817475834588081 / 18014398509481984, 266925013772353 / 281474976710656),
        (5818167537834945 / 18014398509481984, 533843167378761 / 562949953421312),
        (2909461061597581 / 9007199254740992, 8541370922619453 / 9007199254740992)] x of
        Some v \<Rightarrow> v
      | None \<Rightarrow> fl (cos x))"

definition libm_square :: "real \<Rightarrow> real" where
  "libm_square x =
     (case map_of
       [(- 1, 1),
        (- (4503599581808739 / 4503599627370496), 9007199072493965 / 9007199254740992),
        (- (9007198855933211 / 9007199254740992), 1125899807140681 / 1125899906842624),
        (- (1429303835628895 / 4503599627370496), 7257872363707461 / 72057594037927936),
        (- (5716887369656751 / 18014398509481984), 7257039679706897 / 72057594037927936),
        (- (5715948162995411 / 18014398509481984), 7254655410193903 / 72057594037927936),
        (- (5489356886103335 / 18446744073709551616), 3345439372527415 / 37778931862957161709568),
        (- (4636172404362325 / 18446744073709551616), 2386323867728051 / 37778931862957161709568),
        (- (5730824259341717 / 36893488147419103232), 3646232947958021 / 151115727451828646838272),
        (- (5247889634154625 / 36893488147419103232), 6115185160974771 / 302231454903657293676544),
        (- (4024455246506961 / 36893488147419103232), 7192575437969763 / 604462909807314587353088),
        (- (684157392635285 / 9223372036854775808), 3325846889605881 / 604462909807314587353088),
        (- (8113301788958605 / 147573952589676412928), 3654058495712259 / 1208925819614629174706176),
        (- (5666432997965953 / 295147905179352825856), 7129510963918543 / 19342813113834066795298816),
        (0, 0),
        (5666432997965953 / 295147905179352825856, 7129510963918543 / 19342813113834066795298816),
        (3090781635222225 / 147573952589676412928, 1060588407833737 / 2417851639229258349412352),
        (5923998133014197 / 147573952589676412928, 3896189357805523 / 2417851639229258349412352),
        (6825476109165631 / 147573952589676412928, 2586104892276553 / 1208925819614629174706176),
        (8113301788958605 / 147573952589676412928, 3654058495712259 / 1208925819614629174706176),
        (684157392635285 / 9223372036854775808, 3325846889605881 / 604462909807314587353088),
        (1754662488310371 / 18446744073709551616, 2734559643510031 / 302231454903657293676544),
        (5247889634154625 / 36893488147419103232, 6115185160974771 / 302231454903657293676544),
        (5730824259341717 / 36893488147419103232, 3646232947958021 / 151115727451828646838272),
        (5489356886103335 / 18446744073709551616, 3345439372527415 / 37778931862957161709568)] x of
        Some v \<Rightarrow> v
      | None \<Rightarrow> fl (x * x))"

definition libm_sqrt :: "real \<Rightarrow> real" where
  "libm_sqrt x =
     (case map_of
       [(0, 0),
        (1427927905283455 / 604462909807314587353088, 7172623275843505 / 147573952589676412928),
        (1492172836471967 / 75557863725914323419136, 1296162512024199 / 9223372036854775808),
        (191122977 / 9007199254740992, 5374168559146067 / 36893488147419103232),
        (3206515838454713 / 151115727451828646838272, 2687086110940831 / 18446744073709551616),
        (1027638751703813 / 37778931862957161709568, 6084783315283971 / 36893488147419103232),
        (4413627062293625 / 75557863725914323419136, 8916772777882793 / 36893488147419103232),
        (6044801590293311 / 75557863725914323419136, 2608800787218791 / 9223372036854775808),
        (720597267 / 9007199254740992, 1304401085044065 / 4611686018427387904),
        (9007198534143725 / 9007199254740992, 9007198894442351 / 9007199254740992),
        (9007198534144489 / 9007199254740992, 9007198894442733 / 9007199254740992),
        (4503599364297823 / 4503599627370496, 9007198991668315 / 9007199254740992),
        (9007199009732821 / 9007199254740992, 4503599566118453 / 4503599627370496),
        (4503599531808877 / 4503599627370496, 2251799789794843 / 2251799813685248),
        (9007199063618015 / 9007199254740992, 9007199159179503 / 9007199254740992),
        (281474971151879 / 281474976710656, 562949947862535 / 562949953421312),
        (1125899904182901 / 1125899906842624, 2251799811025525 / 2251799813685248),
        (1, 1)] x of
        Some v \<Rightarrow> v
      | None \<Rightarrow> fl (sqrt x))"

definition libm_atan2 :: "real \<Rightarrow> real \<Rightarrow> real" where
  "libm_atan2 y x =
     (case map_of
       [((0, 1), 0),
        ((7172623275843505 / 147573952589676412928, 2251799811025525 / 2251799813685248), 7172623278667497 / 147573952589676412928),
        ((1296162512024199 / 9223372036854775808, 562949947862535 / 562949953421312), 2592325032580925 / 18446744073709551616),
        ((2687086110940831 / 18446744073709551616, 2251799789794843 / 2251799813685248), 5374172240887371 / 36893488147419103232),
        ((6084783315283971 / 36893488147419103232, 4503599566118453 / 4503599627370496), 6084783342869713 / 36893488147419103232),
        ((8916772777882793 / 36893488147419103232, 9007198991668315 / 9007199254740992), 4458386432346663 / 18446744073709551616),
        ((2608800787218791 / 9223372036854775808, 9007198894442733 / 9007199254740992), 5217601644007591 / 18446744073709551616),
        ((9007198894442351 / 9007199254740992, 1304401085044065 / 4611686018427387904), 3536481961413421 / 2251799813685248),
        ((9007199159179503 / 9007199254740992, 5374168559146067 / 36893488147419103232), 3536790862795339 / 2251799813685248)] (y, x) of
        Some v \<Rightarrow> v
      | None \<Rightarrow> fl (atan2 y x))"

definition libm :: math_library where
  "libm =
     \<lparr> Math_sin = libm_sin, Math_cos = libm_cos,
       Math_pow = (\<lambda>x y. if y = 2 then libm_square x else fl (x powr y)),
       sqrt_of_nonnegative = libm_sqrt, atan2_of_numbers = libm_atan2 \<rparr>"

text \<open>
  Two pickup points for the examples: the patient position that the pages use, and a
  point near the antipode of the first hospital of the list.
\<close>

definition demo_pickup :: LatLng where
  "demo_pickup = \<lparr> lat = fl 18.5074, lng = fl 73.8077 \<rparr>"

definition antipode_pickup :: LatLng where
  "antipode_pickup = \<lparr> lat = fl (- 18.502799937945074), lng = fl (- 106.16349998624679) \<rparr>"

section \<open>Properties of the triage evaluator\<close>

lemma includes_sublist: "includes_str s pat = sublist pat s"
  by (induction s) (auto simp: sublist_Cons_right)

lemma toLowerCase_char_y:
  "toLowerCase_char c = CHR ''y'' \<longleftrightarrow> c = CHR ''y'' \<or> c = CHR ''Y''"
  by (auto simp: toLowerCase_char_def)

lemma toLowerCase_char_e:
  "toLowerCase_char c = CHR ''e'' \<longleftrightarrow> c = CHR ''e'' \<or> c = CHR ''E''"
  by (auto simp: toLowerCase_char_def)

lemma toLowerCase_char_s:
  "toLowerCase_char c = CHR ''s'' \<longleftrightarrow> c = CHR ''s'' \<or> c = CHR ''S''"
  by (auto simp: toLowerCase_char_def)

lemma includes_yes_iff:
  "includes_str (toLowerCase a) ''yes'' = contains_yes_ignoring_case a"
proof
  assume "includes_str (toLowerCase a) ''yes''"
  then obtain ps ss where "map toLowerCase_char a = ps @ ''yes'' @ ss"
    by (auto simp: includes_sublist sublist_def toLowerCase_def)
  then obtain pre y e s suf where "a = pre @ [y, e, s] @ suf"
    and "toLowerCase_char y = CHR ''y''" "toLowerCase_char e = CHR ''e''"
        "toLowerCase_char s = CHR ''s''"
    by (auto simp: map_eq_append_conv map_eq_Cons_conv)
  then show "contains_yes_ignoring_case a"
    unfolding contains_yes_ignoring_case_def
      toLowerCase_char_y toLowerCase_char_e toLowerCase_char_s
    by blast
next
  assume "contains_yes_ignoring_case a"
  then obtain pre suf y e s where "a = pre @ [y, e, s] @ suf"
    and "toLowerCase_char y = CHR ''y''" "toLowerCase_char e = CHR ''e''"
        "toLowerCase_char s = CHR ''s''"
    unfolding contains_yes_ignoring_case_def
      toLowerCase_char_y toLowerCase_char_e toLowerCase_char_s
    by blast
  then have "toLowerCase a = toLowerCase pre @ ''yes'' @ toLowerCase suf"
    by (simp add: toLowerCase_def)
  then show "includes_str (toLowerCase a) ''yes''"
    unfolding includes_sublist sublist_def by blast
qed

lemma includes_yes_literal: "includes_str (toLowerCase ''yes'') ''yes''"
  by (simp add: toLowerCase_def toLowerCase_char_def)

lemma includes_no_literal: "\<not> includes_str (toLowerCase ''no'') ''yes''"
  by (simp add: toLowerCase_def toLowerCase_char_def)

text \<open>
  Claim C1. For every sequence of five answers (each one either contains "yes" or does
  not, so all 32 combinations are covered), running the evaluator from step 0 ends at a
  step below 5 with one of the three end states: a non-yes answer at step 0 or 1 gives
  RED, a yes at step 2 gives RED, a yes at step 3 gives YELLOW, and step 4 gives GREEN on
  yes and YELLOW otherwise. The end states carry the ranks RED 1, YELLOW 2, GREEN 3. The
  answers yes, yes, no, no, yes end with GREEN, and a first answer without "yes" ends
  with RED at step 0 whatever answers follow.
\<close>

theorem runTriage_five_answers:
  "runTriage 0 [a0, a1, a2, a3, a4] =
     Some (if \<not> contains_yes_ignoring_case a0 then (0, endStates_RED)
           else if \<not> contains_yes_ignoring_case a1 then (1, endStates_RED)
           else if contains_yes_ignoring_case a2 then (2, endStates_RED)
           else if contains_yes_ignoring_case a3 then (3, endStates_YELLOW)
           else if contains_yes_ignoring_case a4 then (4, endStates_GREEN)
           else (4, endStates_YELLOW))
   \<and> (\<exists>k r. runTriage 0 [a0, a1, a2, a3, a4] = Some (k, r) \<and> k < 5
          \<and> (triage_category r = RED \<and> priority_rank r = 1
             \<or> triage_category r = YELLOW \<and> priority_rank r = 2
             \<or> triage_category r = GREEN \<and> priority_rank r = 3))
   \<and> triage_category endStates_RED = RED \<and> priority_rank endStates_RED = 1
   \<and> triage_category endStates_YELLOW = YELLOW \<and> priority_rank endStates_YELLOW = 2
   \<and> triage_category endStates_GREEN = GREEN \<and> priority_rank endStates_GREEN = 3
   \<and> runTriage 0 [''yes'', ''yes'', ''no'', ''no'', ''yes''] = Some (4, endStates_GREEN)
   \<and> (\<not> contains_yes_ignoring_case a0 \<longrightarrow> runTriage 0 (a0 # rest) = Some (0, endStates_RED))
   \<and> runTriage 0 (''no'' # rest) = Some (0, endStates_RED)"
  unfolding includes_yes_iff [symmetric]
  by (simp add: evaluateStep_def includes_yes_literal includes_no_literal
      endStates_RED_def endStates_YELLOW_def endStates_GREEN_def)

theorem runTriage_five_answers_witness:
  "\<not> contains_yes_ignoring_case ''He is not moving''
   \<and> runTriage 0 (''He is not moving'' # [''yes'', ''yes'']) = Some (0, endStates_RED)
   \<and> runTriage 0 [''Yes'', ''YES'', ''no'', ''nope'', ''oh yes he can'']
       = Some (4, endStates_GREEN)
   \<and> runTriage 0 [''yes'', ''yes'', ''no'', ''no'', ''cannot'']
       = Some (4, endStates_YELLOW)"
  using runTriage_five_answers [of "''He is not moving''" "[]" "[]" "[]" "[]"
      "[''yes'', ''yes'']"]
    runTriage_five_answers [of "''Yes''" "''YES''" "''no''" "''nope''" "''oh yes he can''" "[]"]
    runTriage_five_answers [of "''yes''" "''yes''" "''no''" "''no''" "''cannot''" "[]"]
  unfolding includes_yes_iff [symmetric]
  by (simp add: toLowerCase_def toLowerCase_char_def)

text \<open>
  Claim C7. The evaluator treats an answer as "yes" exactly when the text contains
  "yes" as a substring, ignoring case; every other text is treated as "no". Nothing
  else of the answer is looked at: the result for any answer is the result for the plain
  answer "yes" or the plain answer "no", and it is the entry of the question table for
  that step and that reading of the answer. The two readings are told apart: "yes"
  contains yes, "no" does not, and at each of the five questions the plain answers "yes"
  and "no" give different results.
\<close>

theorem evaluateStep_answer_fold:
  "includes_str (toLowerCase a) ''yes'' = contains_yes_ignoring_case a
   \<and> evaluateStep step a
       = evaluateStep step (if contains_yes_ignoring_case a then ''yes'' else ''no'')
   \<and> evaluateStep step a
       = (if contains_yes_ignoring_case a
          then (if step = 2 then Some endStates_RED
                else if step = 3 then Some endStates_YELLOW
                else if step = 4 then Some endStates_GREEN
                else None)
          else (if step = 0 \<or> step = 1 then Some endStates_RED
                else if step = 4 then Some endStates_YELLOW
                else None))
   \<and> contains_yes_ignoring_case ''yes''
   \<and> \<not> contains_yes_ignoring_case ''no''
   \<and> (step < 5 \<longrightarrow> evaluateStep step ''yes'' \<noteq> evaluateStep step ''no'')"
  unfolding includes_yes_iff [symmetric]
  by (simp add: evaluateStep_def includes_yes_literal includes_no_literal
      endStates_YELLOW_def endStates_GREEN_def)

theorem evaluateStep_answer_fold_witness:
  "contains_yes_ignoring_case ''oh YeS, he is''
   \<and> evaluateStep 2 ''oh YeS, he is'' = Some endStates_RED
   \<and> evaluateStep 0 ''oh YeS, he is'' = None
   \<and> \<not> contains_yes_ignoring_case ''yeah, y e s''
   \<and> evaluateStep 2 ''yeah, y e s'' = None
   \<and> evaluateStep 0 ''yeah, y e s'' = Some endStates_RED
   \<and> (4 :: nat) < 5
   \<and> evaluateStep 4 ''yes'' = Some endStates_GREEN
   \<and> evaluateStep 4 ''no'' = Some endStates_YELLOW
   \<and> evaluateStep 4 ''yes'' \<noteq> evaluateStep 4 ''no''"
proof -
  have y: "contains_yes_ignoring_case ''oh YeS, he is''"
    unfolding includes_yes_iff [symmetric]
    by (simp add: toLowerCase_def toLowerCase_char_def)
  have n: "\<not> contains_yes_ignoring_case ''yeah, y e s''"
    unfolding includes_yes_iff [symmetric]
    by (simp add: toLowerCase_def toLowerCase_char_def)
  note value_of = evaluateStep_answer_fold [THEN conjunct2, THEN conjunct2, THEN conjunct1]
  note yes_no = evaluateStep_answer_fold [THEN conjunct2, THEN conjunct2, THEN conjunct2]
  have "evaluateStep 2 ''oh YeS, he is'' = Some endStates_RED"
    using value_of [of 2 "''oh YeS, he is''"] y by simp
  moreover have "evaluateStep 0 ''oh YeS, he is'' = None"
    using value_of [of 0 "''oh YeS, he is''"] y by simp
  moreover have "evaluateStep 2 ''yeah, y e s'' = None"
    using value_of [of 2 "''yeah, y e s''"] n by simp
  moreover have "evaluateStep 0 ''yeah, y e s'' = Some endStates_RED"
    using value_of [of 0 "''yeah, y e s''"] n by simp
  moreover have "evaluateStep 4 ''yes'' = Some endStates_GREEN"
    using value_of [of 4 "''yes''"] yes_no [of 4] by simp
  moreover have "evaluateStep 4 ''no'' = Some endStates_YELLOW"
    using value_of [of 4 "''no''"] yes_no [of 4] by simp
  moreover have "evaluateStep 4 ''yes'' \<noteq> evaluateStep 4 ''no''"
    using yes_no [of 4] by simp
  ultimately show ?thesis
    using y n by simp
qed

section \<open>Properties of the dispatch queue ordering\<close>

lemma compare_tier_sign:
  "(compare_tier a b < 0) = (tier a < tier b \<or> (tier a = tier b \<and> creation_time a < creation_time b))"
  "(compare_tier a b = 0) = (tier a = tier b \<and> creation_time a = creation_time b)"
  "(compare_tier a b \<le> 0) = queue_le tier a b"
  by (auto simp: compare_tier_def creation_time_def timestamp_seconds_def field_def queue_le_def
      Let_def split: option.splits fvalue.splits)

lemma compare_getTier_sign:
  "(compare_getTier a b < 0) = (getTier a < getTier b \<or> (getTier a = getTier b \<and> creation_time a < creation_time b))"
  "(compare_getTier a b = 0) = (getTier a = getTier b \<and> creation_time a = creation_time b)"
  "(compare_getTier a b \<le> 0) = queue_le getTier a b"
  by (auto simp: compare_getTier_def creation_time_def timestamp_seconds_def field_def queue_le_def
      Let_def split: option.splits fvalue.splits)

lemma set_insert_by: "set (insert_by cmp x ys) = insert x (set ys)"
  by (induction ys) auto

lemma length_insert_by: "length (insert_by cmp x ys) = Suc (length ys)"
  by (induction ys) auto

lemma set_sort_by: "set (sort_by cmp xs) = set xs"
  by (induction xs) (auto simp: sort_by_def set_insert_by)

lemma length_sort_by: "length (sort_by cmp xs) = length xs"
  by (induction xs) (auto simp: sort_by_def length_insert_by)

lemma queue_le_trans: "queue_le t a b \<Longrightarrow> queue_le t b c \<Longrightarrow> queue_le t a c"
  by (auto simp: queue_le_def)

lemma queue_le_total: "queue_le t a b \<or> queue_le t b a"
  by (auto simp: queue_le_def)

lemma sorted_insert_by:
  assumes cmp: "\<And>a b. (cmp a b \<le> 0) = queue_le t a b"
  shows "sorted_wrt (queue_le t) ys \<Longrightarrow> sorted_wrt (queue_le t) (insert_by cmp x ys)"
proof (induction ys)
  case Nil
  then show ?case by simp
next
  case (Cons y ys)
  show ?case
  proof (cases "cmp x y \<le> 0")
    case True
    then have "queue_le t x y" by (simp add: cmp)
    with Cons.prems show ?thesis using True
      by (auto intro: queue_le_trans)
  next
    case False
    then have "queue_le t y x" using queue_le_total [of t x y] by (simp add: cmp)
    with Cons show ?thesis using False
      by (auto simp: set_insert_by)
  qed
qed

lemma sorted_sort_by:
  assumes cmp: "\<And>a b. (cmp a b \<le> 0) = queue_le t a b"
  shows "sorted_wrt (queue_le t) (sort_by cmp xs)"
proof (induction xs)
  case Nil
  then show ?case by (simp add: sort_by_def)
next
  case (Cons x xs)
  then show ?case
    using sorted_insert_by [of cmp t "sort_by cmp xs" x, OF cmp]
    by (simp add: sort_by_def)
qed

lemma tier_values:
  "(getTier p = 1) = (triage p = Some (VString ''RED'') \<or> acuity p = Some (VString ''Critical''))"
  "(getTier p = 2) = (getTier p \<noteq> 1 \<and> (triage p = Some (VString ''YELLOW'') \<or> acuity p = Some (VString ''Urgent'')))"
  "(getTier p = 3) = (getTier p \<noteq> 1 \<and> getTier p \<noteq> 2 \<and> (triage p = Some (VString ''GREEN'') \<or> acuity p = Some (VString ''Routine'')))"
  "(getTier p = 4) = (getTier p \<noteq> 1 \<and> getTier p \<noteq> 2 \<and> getTier p \<noteq> 3 \<and> triage p = Some (VString ''BLACK''))"
  "(getTier p = 5) = (getTier p \<noteq> 1 \<and> getTier p \<noteq> 2 \<and> getTier p \<noteq> 3 \<and> getTier p \<noteq> 4)"
  "tier p = (if getTier p = 4 then 5 else getTier p)"
  by (auto simp: getTier_def tier_def)

lemma tier_severity:
  "tier p = severity_tier False p"
  "getTier p = severity_tier True p"
  by (simp_all add: tier_def getTier_def severity_tier_def triage_def acuity_def field_def)

lemma creation_time_seconds:
  "creation_time p = (case timestamp_seconds p of None \<Rightarrow> 0 | Some s \<Rightarrow> s)"
  by (simp add: creation_time_def timestamp_seconds_def field_def
      split: option.splits fvalue.splits)

lemma map_of_resolveTimestamps:
  "map_of (resolveTimestamps now d) k =
     map_option (\<lambda>v. if v = VServerTimestamp then VTimestamp now else v) (map_of d k)"
  unfolding resolveTimestamps_def
  by (induction d) (simp_all add: case_prod_beta)

lemma creation_time_addDoc:
  assumes "addDoc fs payload = Inr fs'"
    and "map_of payload ''timestamp'' = Some VServerTimestamp"
  shows "\<exists>d. documents fs' = documents fs @ [(nextId fs, d)]
           \<and> creation_time (nextId fs, d) = serverSeconds fs"
proof -
  from assms(1) have
    "documents fs' = documents fs @ [(nextId fs, resolveTimestamps (serverSeconds fs) payload)]"
    by (auto simp: addDoc_def split: if_splits)
  moreover have
    "creation_time (nextId fs, resolveTimestamps (serverSeconds fs) payload) = serverSeconds fs"
    using assms(2) by (simp add: creation_time_def map_of_resolveTimestamps)
  ultimately show ?thesis by blast
qed

text \<open>
  Claim C2. The queue comparators order two patient records by tier first, ascending,
  and for equal tiers by creation time, ascending, an absent timestamp counting as 0.
  The tier is 1 for triage RED or acuity Critical, else 2 for YELLOW or Urgent, else 3
  for GREEN or Routine, else 4 for BLACK in the mass-casualty queue (\<open>getTier\<close>), else 5;
  \<open>tier\<close> of the two-phase driver page has no BLACK case and gives 5 there. Tier and
  creation time are read on the stored record: the tier functions of the code agree with
  the tier by the stored labels, the creation time is the seconds of the stored
  timestamp field and 0 for a record without one, and for a record written with the
  \<open>serverTimestamp()\<close> sentinel it is the server's time of the write. The comparators
  read the whole seconds of a timestamp only, which is what the model keeps of it. The
  sorted queue holds exactly the waiting records, in that order.
\<close>

theorem dispatch_queue_comparator:
  "(compare_tier a b < 0)
      = (tier a < tier b \<or> (tier a = tier b \<and> creation_time a < creation_time b))
   \<and> (compare_tier a b = 0) = (tier a = tier b \<and> creation_time a = creation_time b)
   \<and> (compare_getTier a b < 0)
      = (getTier a < getTier b \<or> (getTier a = getTier b \<and> creation_time a < creation_time b))
   \<and> (compare_getTier a b = 0)
      = (getTier a = getTier b \<and> creation_time a = creation_time b)
   \<and> (getTier p = 1)
      = (triage p = Some (VString ''RED'') \<or> acuity p = Some (VString ''Critical''))
   \<and> (getTier p = 2)
      = (getTier p \<noteq> 1
         \<and> (triage p = Some (VString ''YELLOW'') \<or> acuity p = Some (VString ''Urgent'')))
   \<and> (getTier p = 3)
      = (getTier p \<noteq> 1 \<and> getTier p \<noteq> 2
         \<and> (triage p = Some (VString ''GREEN'') \<or> acuity p = Some (VString ''Routine'')))
   \<and> (getTier p = 4)
      = (getTier p \<noteq> 1 \<and> getTier p \<noteq> 2 \<and> getTier p \<noteq> 3
         \<and> triage p = Some (VString ''BLACK''))
   \<and> (getTier p = 5)
      = (getTier p \<noteq> 1 \<and> getTier p \<noteq> 2 \<and> getTier p \<noteq> 3 \<and> getTier p \<noteq> 4)
   \<and> tier p = (if getTier p = 4 then 5 else getTier p)
   \<and> creation_time p = (case timestamp_seconds p of None \<Rightarrow> 0 | Some s \<Rightarrow> s)
   \<and> sorted_wrt (queue_le tier) (dispatchQueue fs)
   \<and> set (dispatchQueue fs) = set (waitingQuery fs)
   \<and> length (dispatchQueue fs) = length (waitingQuery fs)
   \<and> sorted_wrt (queue_le getTier) (dispatchQueue_mci fs)
   \<and> set (dispatchQueue_mci fs) = set (waitingQuery fs)
   \<and> length (dispatchQueue_mci fs) = length (waitingQuery fs)
   \<and> tier p = severity_tier False p
   \<and> getTier p = severity_tier True p
   \<and> (compare_tier a b < 0)
      = (severity_tier False a < severity_tier False b
         \<or> (severity_tier False a = severity_tier False b
            \<and> creation_time a < creation_time b))
   \<and> (compare_getTier a b < 0)
      = (severity_tier True a < severity_tier True b
         \<or> (severity_tier True a = severity_tier True b
            \<and> creation_time a < creation_time b))
   \<and> (map_of (snd p) ''timestamp'' = Some (VTimestamp s) \<longrightarrow> creation_time p = s)
   \<and> (map_of (snd p) ''timestamp'' = None \<longrightarrow> creation_time p = 0)
   \<and> (map_of (snd p) ''timestamp'' = Some VServerTimestamp \<longrightarrow> creation_time p = 0)
   \<and> (addDoc fs payload = Inr fs' \<and> map_of payload ''timestamp'' = Some VServerTimestamp
        \<longrightarrow> (\<exists>d. documents fs' = documents fs @ [(nextId fs, d)]
                 \<and> creation_time (nextId fs, d) = serverSeconds fs))"
proof -
  have "sorted_wrt (queue_le tier) (dispatchQueue fs)"
    unfolding dispatchQueue_def by (rule sorted_sort_by) (rule compare_tier_sign(3))
  moreover have "sorted_wrt (queue_le getTier) (dispatchQueue_mci fs)"
    unfolding dispatchQueue_mci_def by (rule sorted_sort_by) (rule compare_getTier_sign(3))
  moreover note creation_time_seconds [of p]
  moreover have
    "(compare_tier a b < 0)
      = (severity_tier False a < severity_tier False b
         \<or> (severity_tier False a = severity_tier False b
            \<and> creation_time a < creation_time b))"
    using compare_tier_sign(1) [of a b] by (simp only: tier_severity)
  moreover have
    "(compare_getTier a b < 0)
      = (severity_tier True a < severity_tier True b
         \<or> (severity_tier True a = severity_tier True b
            \<and> creation_time a < creation_time b))"
    using compare_getTier_sign(1) [of a b] by (simp only: tier_severity)
  moreover have "map_of (snd p) ''timestamp'' = Some (VTimestamp s) \<longrightarrow> creation_time p = s"
    by (simp add: creation_time_def)
  moreover have "map_of (snd p) ''timestamp'' = None \<longrightarrow> creation_time p = 0"
    by (simp add: creation_time_def)
  moreover have "map_of (snd p) ''timestamp'' = Some VServerTimestamp \<longrightarrow> creation_time p = 0"
    by (simp add: creation_time_def)
  moreover have
    "addDoc fs payload = Inr fs' \<and> map_of payload ''timestamp'' = Some VServerTimestamp
        \<longrightarrow> (\<exists>d. documents fs' = documents fs @ [(nextId fs, d)]
                 \<and> creation_time (nextId fs, d) = serverSeconds fs)"
    using creation_time_addDoc [of fs payload fs'] by blast
  ultimately show ?thesis
    using compare_tier_sign(1,2) [of a b] compare_getTier_sign(1,2) [of a b] tier_values [of p]
      tier_severity [of p]
    by (simp only: set_sort_by length_sort_by dispatchQueue_def dispatchQueue_mci_def simp_thms)
qed

lemmas example_patients =
  red_at_20_def urgent_at_10_def critical_at_10_def red_untimed_def

lemma example_queue:
  "dispatchQueue example_queue_store = [red_untimed, critical_at_10, red_at_20, urgent_at_10]"
  "dispatchQueue_mci example_queue_store
     = [red_untimed, critical_at_10, red_at_20, urgent_at_10]"
  by (simp_all add: example_queue_store_def example_patients dispatchQueue_def
      dispatchQueue_mci_def waitingQuery_def sort_by_def compare_tier_def compare_getTier_def
      tier_def getTier_def triage_def acuity_def field_def timestamp_seconds_def)

text \<open>
  Two waiting records of tiers 2 and 1, the tier-1 record reported later: the comparator
  puts the tier-1 record first, and so does the queue. Among records of the same tier
  the earlier one comes first, and a record without a timestamp counts as reported at
  second 0: the queue of the four example records is ordered by time within tier 1, and
  the same records with tier 1 in another order of time are not in queue order. A record
  written at server second 30 has creation time 30.
\<close>

theorem dispatch_queue_comparator_witness:
  "compare_tier (1, [(''triage'', VString ''RED''), (''status'', VString ''waiting''),
                     (''timestamp'', VTimestamp 20)])
                (0, [(''acuity'', VString ''Urgent''), (''status'', VString ''waiting''),
                     (''timestamp'', VTimestamp 10)]) < 0
   \<and> dispatchQueue \<lparr> documents =
          [(0, [(''acuity'', VString ''Urgent''), (''status'', VString ''waiting''),
                (''timestamp'', VTimestamp 10)]),
           (1, [(''triage'', VString ''RED''), (''status'', VString ''waiting''),
                (''timestamp'', VTimestamp 20)])],
        nextId = 2, serverSeconds = 30, online = True \<rparr>
      = [(1, [(''triage'', VString ''RED''), (''status'', VString ''waiting''),
              (''timestamp'', VTimestamp 20)]),
         (0, [(''acuity'', VString ''Urgent''), (''status'', VString ''waiting''),
              (''timestamp'', VTimestamp 10)])]
   \<and> getTier (2, [(''triage'', VString ''BLACK'')]) = 4
   \<and> tier (2, [(''triage'', VString ''BLACK'')]) = 5
   \<and> getTier (3, [(''type'', VString ''standard'')]) = 5
   \<and> tier red_at_20 = 1 \<and> tier critical_at_10 = 1 \<and> tier red_untimed = 1
   \<and> creation_time red_at_20 = 20 \<and> creation_time critical_at_10 = 10
   \<and> creation_time red_untimed = 0
   \<and> compare_tier critical_at_10 red_at_20 < 0
   \<and> \<not> compare_tier red_at_20 critical_at_10 < 0
   \<and> compare_tier red_untimed critical_at_10 < 0
   \<and> compare_getTier critical_at_10 red_at_20 < 0
   \<and> compare_getTier red_untimed critical_at_10 < 0
   \<and> dispatchQueue example_queue_store
        = [red_untimed, critical_at_10, red_at_20, urgent_at_10]
   \<and> sorted_wrt (queue_le tier) [red_untimed, critical_at_10, red_at_20, urgent_at_10]
   \<and> \<not> sorted_wrt (queue_le tier) [red_at_20, critical_at_10, red_untimed, urgent_at_10]
   \<and> (\<exists>d. addDoc example_queue_store
               [(''triage'', VString ''RED''), (''status'', VString ''waiting''),
                (''timestamp'', VServerTimestamp)]
             = Inr (example_queue_store
                     \<lparr> documents := documents example_queue_store @ [(4, d)], nextId := 5 \<rparr>)
           \<and> creation_time (4, d) = 30)"
proof -
  let ?payload = "[(''triage'', VString ''RED''), (''status'', VString ''waiting''),
                   (''timestamp'', VServerTimestamp)]"
  let ?fs' = "example_queue_store
                \<lparr> documents := documents example_queue_store
                     @ [(4, resolveTimestamps 30 ?payload)], nextId := 5 \<rparr>"
  note by_tier = dispatch_queue_comparator
    [THEN conjunct2, THEN conjunct2, THEN conjunct2, THEN conjunct2, THEN conjunct2,
     THEN conjunct2, THEN conjunct2, THEN conjunct2, THEN conjunct2, THEN conjunct2,
     THEN conjunct2, THEN conjunct2, THEN conjunct2, THEN conjunct2, THEN conjunct2,
     THEN conjunct2, THEN conjunct2, THEN conjunct2, THEN conjunct2, THEN conjunct1]
  note by_getTier = dispatch_queue_comparator
    [THEN conjunct2, THEN conjunct2, THEN conjunct2, THEN conjunct2, THEN conjunct2,
     THEN conjunct2, THEN conjunct2, THEN conjunct2, THEN conjunct2, THEN conjunct2,
     THEN conjunct2, THEN conjunct2, THEN conjunct2, THEN conjunct2, THEN conjunct2,
     THEN conjunct2, THEN conjunct2, THEN conjunct2, THEN conjunct2, THEN conjunct2,
     THEN conjunct1]
  note tier_read = dispatch_queue_comparator
    [THEN conjunct2, THEN conjunct2, THEN conjunct2, THEN conjunct2, THEN conjunct2,
     THEN conjunct2, THEN conjunct2, THEN conjunct2, THEN conjunct2, THEN conjunct2,
     THEN conjunct2, THEN conjunct2, THEN conjunct2, THEN conjunct2, THEN conjunct2,
     THEN conjunct2, THEN conjunct2, THEN conjunct1]
  note queue_sorted = dispatch_queue_comparator
    [THEN conjunct2, THEN conjunct2, THEN conjunct2, THEN conjunct2, THEN conjunct2,
     THEN conjunct2, THEN conjunct2, THEN conjunct2, THEN conjunct2, THEN conjunct2,
     THEN conjunct2, THEN conjunct1]
  note time_stored = dispatch_queue_comparator
    [THEN conjunct2, THEN conjunct2, THEN conjunct2, THEN conjunct2, THEN conjunct2,
     THEN conjunct2, THEN conjunct2, THEN conjunct2, THEN conjunct2, THEN conjunct2,
     THEN conjunct2, THEN conjunct2, THEN conjunct2, THEN conjunct2, THEN conjunct2,
     THEN conjunct2, THEN conjunct2, THEN conjunct2, THEN conjunct2, THEN conjunct2,
     THEN conjunct2, THEN conjunct1]
  note time_absent = dispatch_queue_comparator
    [THEN conjunct2, THEN conjunct2, THEN conjunct2, THEN conjunct2, THEN conjunct2,
     THEN conjunct2, THEN conjunct2, THEN conjunct2, THEN conjunct2, THEN conjunct2,
     THEN conjunct2, THEN conjunct2, THEN conjunct2, THEN conjunct2, THEN conjunct2,
     THEN conjunct2, THEN conjunct2, THEN conjunct2, THEN conjunct2, THEN conjunct2,
     THEN conjunct2, THEN conjunct2, THEN conjunct1]
  note time_written = dispatch_queue_comparator
    [THEN conjunct2, THEN conjunct2, THEN conjunct2, THEN conjunct2, THEN conjunct2,
     THEN conjunct2, THEN conjunct2, THEN conjunct2, THEN conjunct2, THEN conjunct2,
     THEN conjunct2, THEN conjunct2, THEN conjunct2, THEN conjunct2, THEN conjunct2,
     THEN conjunct2, THEN conjunct2, THEN conjunct2, THEN conjunct2, THEN conjunct2,
     THEN conjunct2, THEN conjunct2, THEN conjunct2, THEN conjunct2]
  have old:
    "compare_tier (1, [(''triage'', VString ''RED''), (''status'', VString ''waiting''),
                     (''timestamp'', VTimestamp 20)])
                (0, [(''acuity'', VString ''Urgent''), (''status'', VString ''waiting''),
                     (''timestamp'', VTimestamp 10)]) < 0
   \<and> dispatchQueue \<lparr> documents =
          [(0, [(''acuity'', VString ''Urgent''), (''status'', VString ''waiting''),
                (''timestamp'', VTimestamp 10)]),
           (1, [(''triage'', VString ''RED''), (''status'', VString ''waiting''),
                (''timestamp'', VTimestamp 20)])],
        nextId = 2, serverSeconds = 30, online = True \<rparr>
      = [(1, [(''triage'', VString ''RED''), (''status'', VString ''waiting''),
              (''timestamp'', VTimestamp 20)]),
         (0, [(''acuity'', VString ''Urgent''), (''status'', VString ''waiting''),
              (''timestamp'', VTimestamp 10)])]
   \<and> getTier (2, [(''triage'', VString ''BLACK'')]) = 4
   \<and> tier (2, [(''triage'', VString ''BLACK'')]) = 5
   \<and> getTier (3, [(''type'', VString ''standard'')]) = 5"
    by (simp add: dispatchQueue_def waitingQuery_def sort_by_def compare_tier_def tier_def
      getTier_def triage_def acuity_def field_def timestamp_seconds_def)
  have tiers: "severity_tier b red_at_20 = 1" "severity_tier b critical_at_10 = 1"
    "severity_tier b red_untimed = 1" "severity_tier b urgent_at_10 = 2" for b
    by (simp_all add: severity_tier_def example_patients)
  have stored:
    "map_of (snd red_at_20) ''timestamp'' = Some (VTimestamp 20)"
    "map_of (snd critical_at_10) ''timestamp'' = Some (VTimestamp 10)"
    "map_of (snd red_untimed) ''timestamp'' = None"
    "map_of ?payload ''timestamp'' = Some VServerTimestamp"
    by (simp_all add: example_patients)
  have add: "addDoc example_queue_store ?payload = Inr ?fs'"
    by (simp add: addDoc_def example_queue_store_def)
  have times: "creation_time red_at_20 = 20" "creation_time critical_at_10 = 10"
    "creation_time red_untimed = 0"
    using time_stored [of red_at_20 20] time_stored [of critical_at_10 10]
      time_absent [of red_untimed] stored
    by simp_all
  have t1: "tier red_at_20 = 1" "tier critical_at_10 = 1" "tier red_untimed = 1"
    by (simp_all only: tier_read tiers)
  have c1: "compare_tier critical_at_10 red_at_20 < 0"
    and c2: "\<not> compare_tier red_at_20 critical_at_10 < 0"
    and c3: "compare_tier red_untimed critical_at_10 < 0"
    by (simp_all add: by_tier tiers times)
  have c4: "compare_getTier critical_at_10 red_at_20 < 0"
    and c5: "compare_getTier red_untimed critical_at_10 < 0"
    by (simp_all add: by_getTier tiers times)
  have q: "dispatchQueue example_queue_store
        = [red_untimed, critical_at_10, red_at_20, urgent_at_10]"
    by (rule example_queue)
  have s1: "sorted_wrt (queue_le tier) [red_untimed, critical_at_10, red_at_20, urgent_at_10]"
    using queue_sorted [of example_queue_store] by (simp only: q)
  have s2: "\<not> sorted_wrt (queue_le tier) [red_at_20, critical_at_10, red_untimed, urgent_at_10]"
    by (simp add: queue_le_def t1 times)
  have "\<exists>d. documents ?fs' = documents example_queue_store @ [(nextId example_queue_store, d)]
           \<and> creation_time (nextId example_queue_store, d) = serverSeconds example_queue_store"
    using time_written [of example_queue_store ?payload ?fs'] add stored(4) by blast
  then have a: "\<exists>d. addDoc example_queue_store
               [(''triage'', VString ''RED''), (''status'', VString ''waiting''),
                (''timestamp'', VServerTimestamp)]
             = Inr (example_queue_store
                     \<lparr> documents := documents example_queue_store @ [(4, d)], nextId := 5 \<rparr>)
           \<and> creation_time (4, d) = 30"
    unfolding add by (auto simp: example_queue_store_def)
  show ?thesis
    using old t1 times c1 c2 c3 c4 c5 q s1 s2 a by (simp only: simp_thms)
qed

section \<open>Properties of the driver flows\<close>

lemma stored_updateDoc:
  "updateDoc fs i upd = Inr fs' \<Longrightarrow>
   stored fs' j k = (if j = i then (case map_of upd k of Some v \<Rightarrow> Some v | None \<Rightarrow> stored fs j k) else stored fs j k)"
  by (auto simp: updateDoc_def stored_def field_def update_conv' merge_conv' map_add_def
      split: option.splits if_splits)

lemma ids_update: "map fst (AList.update i v al) = (if i \<in> fst ` set al then map fst al else map fst al @ [i])"
  by (induction al) auto

lemma documents_updateDoc:
  "updateDoc fs i upd = Inr fs' \<Longrightarrow> map fst (documents fs') = map fst (documents fs)"
  by (auto simp: updateDoc_def ids_update split: option.splits if_splits dest!: map_of_SomeD)
     (metis fst_conv image_eqI)














lemma updateDoc_frame:
  "updateDoc fs i upd = Inr fs' \<Longrightarrow> map_of upd k = None \<Longrightarrow> stored fs' j k = stored fs j k"
  by (simp add: stored_updateDoc)

lemma driverPage_step_frame:
  assumes "k \<noteq> ''status''" "k \<noteq> ''driverLat''" "k \<noteq> ''driverLng''"
  shows "stored (fst (driverPage_step s ev)) j k = stored (fst s) j k"
  using assms
  by (cases ev)
     (auto simp: handleAcceptDispatch_def handlePatientLoaded_def handlePatientDelivered_def
        trackingTick_def updateDoc_frame split: option.splits sum.splits)

lemma queuePage_step_frame:
  assumes "k \<noteq> ''status''"
  shows "stored (fst (queuePage_step s ev)) j k = stored (fst s) j k"
  using assms
  by (cases ev)
     (auto simp: handlePatientLoaded_queue_def updateDoc_frame split: option.splits sum.splits)

lemma navPage_step_frame:
  assumes "k \<noteq> ''status''"
  shows "stored (fst (navPage_step s ev)) j k = stored (fst s) j k"
  using assms
  by (cases ev)
     (auto simp: handlePatientLoaded_nav_def completeTransport_def updateDoc_frame
        split: option.splits sum.splits)

lemma twoDrivers_step_frame:
  assumes "k \<noteq> ''status''" "k \<noteq> ''driverLat''" "k \<noteq> ''driverLng''"
  shows "stored (fst (twoDrivers_step s ev)) j k = stored (fst s) j k"
proof -
  obtain fs a b where s: "s = (fs, a, b)" by (cases s)
  show ?thesis
  proof (cases ev)
    case (Inl e)
    obtain fs' a' where st: "driverPage_step (fs, a) e = (fs', a')"
      by (cases "driverPage_step (fs, a) e")
    with driverPage_step_frame [OF assms, of "(fs, a)" e j] show ?thesis
      by (simp add: s Inl)
  next
    case (Inr e)
    obtain fs' b' where st: "driverPage_step (fs, b) e = (fs', b')"
      by (cases "driverPage_step (fs, b) e")
    with driverPage_step_frame [OF assms, of "(fs, b)" e j] show ?thesis
      by (simp add: s Inr)
  qed
qed

lemma ids_step:
  "map fst (documents (fst (driverPage_step s ev))) = map fst (documents (fst s))"
  by (cases ev)
     (auto simp: handleAcceptDispatch_def handlePatientLoaded_def handlePatientDelivered_def
        trackingTick_def documents_updateDoc split: option.splits sum.splits)


lemma twoDrivers_run_frame:
  assumes "k \<noteq> ''status''" "k \<noteq> ''driverLat''" "k \<noteq> ''driverLng''"
  shows "stored (fst (foldl twoDrivers_step s evs)) j k = stored (fst s) j k"
  by (induction evs arbitrary: s) (simp_all add: twoDrivers_step_frame [OF assms])


























text \<open>
  Claim C9. Every update after a record's creation leaves its severity fields as they
  are: accepting a dispatch, marking the patient loaded, marking the patient delivered
  and the live position updates write \<open>status\<close>, \<open>driverLat\<close> and \<open>driverLng\<close> only, so
  the \<open>triage\<close> and \<open>acuity\<close> fields of every record are the same before and after, on
  each driver page, for one step and for any run of two drivers on the shared store;
  no step creates or removes a record.
\<close>

theorem updates_keep_severity:
  "stored (fst (driverPage_step s ev)) i ''triage'' = stored (fst s) i ''triage''
   \<and> stored (fst (driverPage_step s ev)) i ''acuity'' = stored (fst s) i ''acuity''
   \<and> stored (fst (queuePage_step s ev)) i ''triage'' = stored (fst s) i ''triage''
   \<and> stored (fst (queuePage_step s ev)) i ''acuity'' = stored (fst s) i ''acuity''
   \<and> stored (fst (navPage_step s ev)) i ''triage'' = stored (fst s) i ''triage''
   \<and> stored (fst (navPage_step s ev)) i ''acuity'' = stored (fst s) i ''acuity''
   \<and> stored (fst (foldl twoDrivers_step t evs)) i ''triage'' = stored (fst t) i ''triage''
   \<and> stored (fst (foldl twoDrivers_step t evs)) i ''acuity'' = stored (fst t) i ''acuity''
   \<and> map fst (documents (fst (driverPage_step s ev))) = map fst (documents (fst s))"
  by (simp add: driverPage_step_frame queuePage_step_frame navPage_step_frame
      twoDrivers_run_frame ids_step)

theorem updates_keep_severity_witness:
  "stored (fst (driverPage_step (example_store,
       \<lparr> selectedPatient = Some (0, example_record), isNavigating = False,
         navigationPhase = 1 \<rparr>) AcceptDispatch)) 0 ''triage''
     = Some (VString ''RED'')
   \<and> stored (fst (driverPage_step (example_store,
       \<lparr> selectedPatient = Some (0, example_record), isNavigating = False,
         navigationPhase = 1 \<rparr>) AcceptDispatch)) 0 ''status''
     = Some (VString ''driver_en_route'')
   \<and> stored (fst (driverPage_step (example_store,
       \<lparr> selectedPatient = Some (0, example_record), isNavigating = True,
         navigationPhase = 1 \<rparr>) (TrackingTick 18.51 73.81))) 0 ''driverLat''
     = Some (VNumber 18.51)"
  using updates_keep_severity [of "(example_store,
       \<lparr> selectedPatient = Some (0, example_record), isNavigating = False,
         navigationPhase = 1 \<rparr>)" AcceptDispatch 0]
  by (simp add: example_store_def example_record_def field_def handleAcceptDispatch_def
      trackingTick_def updateDoc_def stored_def)

section \<open>Properties of the intake paths\<close>

lemma field_resolveTimestamps:
  "field (resolveTimestamps now d) k =
     map_option (\<lambda>v. if v = VServerTimestamp then VTimestamp now else v) (field d k)"
  unfolding field_def resolveTimestamps_def
  by (induction d) (simp_all add: case_prod_beta)

lemma addDoc_created:
  assumes "addDoc fs payload = Inr fs'"
    and "field payload ''status'' = Some (VString ''waiting'')"
    and "field payload ''timestamp'' = Some VServerTimestamp"
  shows "created_waiting fs fs'"
proof -
  let ?d = "resolveTimestamps (serverSeconds fs) payload"
  from assms(1) have docs: "documents fs' = documents fs @ [(nextId fs, ?d)]"
    by (auto simp: addDoc_def split: if_splits)
  have st: "field ?d ''status'' = Some (VString ''waiting'')"
    and ts: "field ?d ''timestamp'' = Some (VTimestamp (serverSeconds fs))"
    using assms(2,3) by (simp_all add: field_resolveTimestamps)
  have "(nextId fs, ?d) \<in> set (waitingQuery fs')"
    by (simp add: waitingQuery_def docs st)
  then show ?thesis
    unfolding created_waiting_def dispatchQueue_def dispatchQueue_mci_def set_sort_by
    using docs st ts by blast
qed

lemma addDoc_online: "online fs \<Longrightarrow> \<exists>fs'. addDoc fs payload = Inr fs'"
  by (simp add: addDoc_def)

lemma handleSendMessage_store:
  "fst (handleSendMessage hhmmss text (fs, c)) = fs
   \<or> created_waiting fs (fst (handleSendMessage hhmmss text (fs, c)))"
proof (cases "trim text = [] \<or> triageResult c \<noteq> None")
  case True
  then show ?thesis by (auto simp: handleSendMessage_def Let_def)
next
  case False
  show ?thesis
  proof (cases "evaluateStep (currentStep c) (trim text)")
    case None
    then show ?thesis using False by (simp add: handleSendMessage_def Let_def)
  next
    case (Some r)
    let ?payload = "[(''id'', VString (''CAL-'' @ hhmmss)),
                      (''triage'', VString (category_name (triage_category r))),
                      (''status'', VString ''waiting''),
                      (''patientLat'', VNumber 18.5074),
                      (''patientLng'', VNumber 73.8077),
                      (''timestamp'', VServerTimestamp)]"
    show ?thesis
    proof (cases "addDoc fs ?payload")
      case (Inl e)
      then show ?thesis using False Some by (simp add: handleSendMessage_def Let_def)
    next
      case (Inr fs')
      have "created_waiting fs fs'" by (rule addDoc_created [OF Inr]) (simp_all add: field_def)
      then show ?thesis using False Some Inr by (simp add: handleSendMessage_def Let_def)
    qed
  qed
qed

lemma captureAndSubmit_store:
  "fst (captureAndSubmit video frame timeStr (fs, p)) = fs
   \<or> created_waiting fs (fst (captureAndSubmit video frame timeStr (fs, p)))"
proof (cases "selectedColor p")
  case None
  then show ?thesis by (simp add: captureAndSubmit_def)
next
  case (Some col)
  show ?thesis
  proof (cases "video")
    case False
    then show ?thesis using Some by (simp add: captureAndSubmit_def)
  next
    case True
    show ?thesis
    proof (cases frame)
      case None
      then show ?thesis using Some True by (simp add: captureAndSubmit_def Let_def)
    next
      case (Some img)
      let ?payload = "[(''id'', VString (''MCI-'' @ color_name col @ ''-'' @ timeStr)),
                                (''triage'', VString (color_name col)),
                                (''photoBase64'', VString img),
                                (''status'', VString ''waiting''),
                                (''timestamp'', VServerTimestamp)]"
      show ?thesis
      proof (cases "addDoc fs ?payload")
        case (Inl e)
        then show ?thesis using \<open>selectedColor p = Some col\<close> True Some
          by (simp add: captureAndSubmit_def Let_def)
      next
        case (Inr fs')
        have "created_waiting fs fs'"
          by (rule addDoc_created [OF Inr]) (simp_all add: field_def)
        then show ?thesis using \<open>selectedColor p = Some col\<close> True Some Inr
          by (simp add: captureAndSubmit_def Let_def)
      qed
    qed
  qed
qed

lemma hr_check: 
  "(hr v = [] \<or> isNaN (parseInt (hr v)) \<or> js_lt (parseInt (hr v)) 1 \<or> js_gt (parseInt (hr v)) 300)
     = hr_invalid v"
  by (simp add: hr_invalid_def isNaN_def js_lt_def js_gt_def split: js_number.splits)

lemma spo2_check: 
  "(spo2 v = [] \<or> isNaN (parseInt (spo2 v)) \<or> js_lt (parseInt (spo2 v)) 0
      \<or> js_gt (parseInt (spo2 v)) 100)
     = spo2_invalid v"
  by (simp add: spo2_invalid_def isNaN_def js_lt_def js_gt_def split: js_number.splits)

lemma validateNormalForm_eq:
  "validateNormalForm g p =
     (if hr_invalid (vitals p)
      then (Inr False, p\<lparr> toasts := toasts p
              @ [ToastError ''Heart Rate is required and must be between 1 and 300''] \<rparr>)
      else if spo2_invalid (vitals p)
      then (Inr False, p\<lparr> toasts := toasts p
              @ [ToastError ''SpO2 is required and must be between 0 and 100''] \<rparr>)
      else if bp_absent (vitals p)
      then (Inr False, p\<lparr> toasts := toasts p @ [ToastError ''Blood Pressure is required''] \<rparr>)
      else (case g of
              None \<Rightarrow> (Inl (ReferenceError ''bp''), p)
            | Some b \<Rightarrow>
                if b = NaN \<or> bp_blank (vitals p)
                then (Inr False, p\<lparr> toasts := toasts p
                        @ [ToastError ''Blood Pressure is required''] \<rparr>)
                else (Inr True, p)))"
  unfolding validateNormalForm_def Let_def hr_check spo2_check
  by (simp only: bp_absent_def bp_blank_def isNaN_def)

lemma validateNormalForm_cases:
  obtains (throws) e where "validateNormalForm g p = (Inl e, p)"
  | (rejects) m where "validateNormalForm g p = (Inr False, p\<lparr> toasts := toasts p @ [ToastError m] \<rparr>)"
  | (passes) "validateNormalForm g p = (Inr True, p)"
proof (cases "hr_invalid (vitals p)")
  case True
  then show ?thesis using rejects by (simp add: validateNormalForm_eq)
next
  case hr: False
  show ?thesis
  proof (cases "spo2_invalid (vitals p)")
    case True
    then show ?thesis using rejects hr by (simp add: validateNormalForm_eq)
  next
    case spo2: False
    show ?thesis
    proof (cases "bp_absent (vitals p)")
      case True
      then show ?thesis using rejects hr spo2 by (simp add: validateNormalForm_eq)
    next
      case bp: False
      show ?thesis
      proof (cases g)
        case None
        then show ?thesis using throws hr spo2 bp by (simp add: validateNormalForm_eq)
      next
        case (Some b)
        show ?thesis
        proof (cases "b = NaN \<or> bp_blank (vitals p)")
          case True
          then show ?thesis using rejects hr spo2 bp Some by (simp add: validateNormalForm_eq)
        next
          case False
          then show ?thesis using passes hr spo2 bp Some by (simp add: validateNormalForm_eq)
        qed
      qed
    qed
  qed
qed

lemma submitStandardReport_store:
  "fst (snd (submitStandardReport g (fs, p))) = fs
   \<or> created_waiting fs (fst (snd (submitStandardReport g (fs, p))))"
proof (cases rule: validateNormalForm_cases [of g p])
  case (throws e)
  then show ?thesis by (simp add: submitStandardReport_def)
next
  case (rejects m)
  then show ?thesis by (simp add: submitStandardReport_def)
next
  case passes
  let ?payload = "[(''name'', VString (name (vitals p))),
                      (''hr'', VString (hr (vitals p))),
                      (''bp'', VString (bp (vitals p))),
                      (''spo2'', VString (spo2 (vitals p))),
                      (''notes'', VString (notes_text (vitals p))),
                      (''type'', VString ''standard''),
                      (''status'', VString ''waiting''),
                      (''timestamp'', VServerTimestamp)]"
  show ?thesis
  proof (cases "addDoc fs ?payload")
    case (Inl e)
    then show ?thesis using passes by (simp add: submitStandardReport_def Let_def)
  next
    case (Inr fs')
    have "created_waiting fs fs'" by (rule addDoc_created [OF Inr]) (simp_all add: field_def)
    then show ?thesis using passes Inr by (simp add: submitStandardReport_def Let_def)
  qed
qed

lemma handleSendMessage_creates:
  assumes "online fs" "trim text \<noteq> []" "triageResult c = None"
    "evaluateStep (currentStep c) (trim text) \<noteq> None"
  shows "created_waiting fs (fst (handleSendMessage hhmmss text (fs, c)))"
proof -
  from assms(4) obtain r where r: "evaluateStep (currentStep c) (trim text) = Some r" by auto
  obtain fs' where a: "addDoc fs [(''id'', VString (''CAL-'' @ hhmmss)),
                      (''triage'', VString (category_name (triage_category r))),
                      (''status'', VString ''waiting''),
                      (''patientLat'', VNumber 18.5074),
                      (''patientLng'', VNumber 73.8077),
                      (''timestamp'', VServerTimestamp)] = Inr fs'"
    using addDoc_online [OF assms(1)] by blast
  have "created_waiting fs fs'" by (rule addDoc_created [OF a]) (simp_all add: field_def)
  then show ?thesis using assms(2,3) r a by (simp add: handleSendMessage_def Let_def)
qed

lemma captureAndSubmit_creates:
  assumes "online fs" "selectedColor p \<noteq> None" "video" "frame \<noteq> None"
  shows "created_waiting fs (fst (captureAndSubmit video frame timeStr (fs, p)))"
proof -
  from assms obtain col img where c: "selectedColor p = Some col" "frame = Some img" by auto
  obtain fs' where a: "addDoc fs [(''id'', VString (''MCI-'' @ color_name col @ ''-'' @ timeStr)),
                                (''triage'', VString (color_name col)),
                                (''photoBase64'', VString img),
                                (''status'', VString ''waiting''),
                                (''timestamp'', VServerTimestamp)] = Inr fs'"
    using addDoc_online [OF assms(1)] by blast
  have "created_waiting fs fs'" by (rule addDoc_created [OF a]) (simp_all add: field_def)
  then show ?thesis using assms(3) c a by (simp add: captureAndSubmit_def Let_def)
qed

lemma validateNormalForm_True:
  "fst (validateNormalForm g p) = Inr True \<Longrightarrow> validateNormalForm g p = (Inr True, p)"
  by (cases rule: validateNormalForm_cases [of g p]) simp_all

lemma submitStandardReport_creates:
  assumes "online fs" "fst (validateNormalForm g p) = Inr True"
  shows "created_waiting fs (fst (snd (submitStandardReport g (fs, p))))"
proof -
  have v: "validateNormalForm g p = (Inr True, p)" by (rule validateNormalForm_True [OF assms(2)])
  obtain fs' where a: "addDoc fs [(''name'', VString (name (vitals p))),
                      (''hr'', VString (hr (vitals p))),
                      (''bp'', VString (bp (vitals p))),
                      (''spo2'', VString (spo2 (vitals p))),
                      (''notes'', VString (notes_text (vitals p))),
                      (''type'', VString ''standard''),
                      (''status'', VString ''waiting''),
                      (''timestamp'', VServerTimestamp)] = Inr fs'"
    using addDoc_online [OF assms(1)] by blast
  have "created_waiting fs fs'" by (rule addDoc_created [OF a]) (simp_all add: field_def)
  then show ?thesis using v a by (simp add: submitStandardReport_def Let_def)
qed

lemma submitStandardReport_rejects:
  assumes "hr_invalid (vitals p) \<or> spo2_invalid (vitals p) \<or> bp_absent (vitals p)"
  shows "\<exists>m. submitStandardReport g (fs, p)
              = (Inr (), fs, p\<lparr> toasts := toasts p @ [ToastError m] \<rparr>)"
  using assms by (auto simp: submitStandardReport_def validateNormalForm_eq)

lemma submitStandardReport_throws:
  assumes "\<not> hr_invalid (vitals p)" "\<not> spo2_invalid (vitals p)" "\<not> bp_absent (vitals p)"
  shows "submitStandardReport None (fs, p) = (Inl (ReferenceError ''bp''), fs, p)"
  using assms by (simp add: submitStandardReport_def validateNormalForm_eq)

text \<open>
  Claim C10. Each intake path (caller triage completion, mass-casualty photo capture,
  standard vitals report) either leaves the collection as it is or adds exactly one
  record, and that record has status \<open>waiting\<close> and the server's time as timestamp and is
  returned by the waiting query of the dispatch queue. When the store takes the write,
  the record is created: by the caller page when an answer ends the triage, by the
  capture when a colour is selected and a frame is read, by the standard report when
  its validation passes.
\<close>

theorem intake_creates_waiting:
  "(fst (handleSendMessage hhmmss text (fs, c)) = fs
      \<or> created_waiting fs (fst (handleSendMessage hhmmss text (fs, c))))
   \<and> (fst (captureAndSubmit video frame timeStr (fs, p)) = fs
      \<or> created_waiting fs (fst (captureAndSubmit video frame timeStr (fs, p))))
   \<and> (fst (snd (submitStandardReport g (fs, p))) = fs
      \<or> created_waiting fs (fst (snd (submitStandardReport g (fs, p)))))
   \<and> (online fs \<and> trim text \<noteq> [] \<and> triageResult c = None
        \<and> evaluateStep (currentStep c) (trim text) \<noteq> None
      \<longrightarrow> created_waiting fs (fst (handleSendMessage hhmmss text (fs, c))))
   \<and> (online fs \<and> selectedColor p \<noteq> None \<and> video \<and> frame \<noteq> None
      \<longrightarrow> created_waiting fs (fst (captureAndSubmit video frame timeStr (fs, p))))
   \<and> (online fs \<and> fst (validateNormalForm g p) = Inr True
      \<longrightarrow> created_waiting fs (fst (snd (submitStandardReport g (fs, p)))))"
proof (intro conjI impI)
  show "fst (handleSendMessage hhmmss text (fs, c)) = fs
      \<or> created_waiting fs (fst (handleSendMessage hhmmss text (fs, c)))"
    by (rule handleSendMessage_store)
  show "fst (captureAndSubmit video frame timeStr (fs, p)) = fs
      \<or> created_waiting fs (fst (captureAndSubmit video frame timeStr (fs, p)))"
    by (rule captureAndSubmit_store)
  show "fst (snd (submitStandardReport g (fs, p))) = fs
      \<or> created_waiting fs (fst (snd (submitStandardReport g (fs, p))))"
    by (rule submitStandardReport_store)
  show "created_waiting fs (fst (handleSendMessage hhmmss text (fs, c)))"
    if "online fs \<and> trim text \<noteq> [] \<and> triageResult c = None
        \<and> evaluateStep (currentStep c) (trim text) \<noteq> None"
    using that by (simp add: handleSendMessage_creates)
  show "created_waiting fs (fst (captureAndSubmit video frame timeStr (fs, p)))"
    if "online fs \<and> selectedColor p \<noteq> None \<and> video \<and> frame \<noteq> None"
    using that by (simp add: captureAndSubmit_creates)
  show "created_waiting fs (fst (snd (submitStandardReport g (fs, p))))"
    if "online fs \<and> fst (validateNormalForm g p) = Inr True"
    using that by (simp add: submitStandardReport_creates)
qed

text \<open>
  On the example store: a caller whose first answer is "no", a BLACK capture, and a
  standard report in a page whose global scope binds \<open>bp\<close> to a number.
\<close>

theorem intake_creates_waiting_witness:
  "online example_store
   \<and> trim '' no '' \<noteq> []
   \<and> evaluateStep 0 (trim '' no '') \<noteq> None
   \<and> created_waiting example_store
        (fst (handleSendMessage ''101500'' '' no ''
               (example_store, \<lparr> currentStep = 0, triageResult = None \<rparr>)))
   \<and> created_waiting example_store
        (fst (captureAndSubmit True (Some ''data:image/webp;base64,UklGRg=='') ''101500''
               (example_store, example_paramedic\<lparr> selectedColor := Some MCI_BLACK \<rparr>)))
   \<and> fst (validateNormalForm (Some (Num 120)) example_paramedic) = Inr True
   \<and> created_waiting example_store
        (fst (snd (submitStandardReport (Some (Num 120)) (example_store, example_paramedic))))
   \<and> stored (fst (snd (submitStandardReport (Some (Num 120))
                          (example_store, example_paramedic)))) 1 ''status''
       = Some (VString ''waiting'')
   \<and> stored (fst (snd (submitStandardReport (Some (Num 120))
                          (example_store, example_paramedic)))) 1 ''timestamp''
       = Some (VTimestamp 200)"
proof -
  have o: "online example_store" by (simp add: example_store_def)
  have t: "trim '' no '' = ''no''" by (simp add: trim_def isWhiteSpace_def)
  have e: "evaluateStep 0 ''no'' \<noteq> None"
    by (simp add: evaluateStep_def includes_no_literal)
  have v: "fst (validateNormalForm (Some (Num 120)) example_paramedic) = Inr True"
    by (simp add: validateNormalForm_eq example_paramedic_def hr_invalid_def spo2_invalid_def
        bp_absent_def bp_blank_def parseInt_def digit_of_def isWhiteSpace_def trim_def upt_rec)
  have s: "stored (fst (snd (submitStandardReport (Some (Num 120))
                          (example_store, example_paramedic)))) 1 ''status''
       = Some (VString ''waiting'')
     \<and> stored (fst (snd (submitStandardReport (Some (Num 120))
                          (example_store, example_paramedic)))) 1 ''timestamp''
       = Some (VTimestamp 200)"
    using validateNormalForm_True [OF v]
    by (simp add: submitStandardReport_def addDoc_def example_store_def stored_def field_def
        resolveTimestamps_def)
  show ?thesis
    using o t e v s
      intake_creates_waiting [of "''101500''" "'' no ''" example_store
        "\<lparr> currentStep = 0, triageResult = None \<rparr>" True
        "Some ''data:image/webp;base64,UklGRg==''" "''101500''"
        "example_paramedic\<lparr> selectedColor := Some MCI_BLACK \<rparr>" "Some (Num 120)"]
      intake_creates_waiting [of "''101500''" "'' no ''" example_store
        "\<lparr> currentStep = 0, triageResult = None \<rparr>" True
        "Some ''data:image/webp;base64,UklGRg==''" "''101500''"
        example_paramedic "Some (Num 120)"]
    by simp
qed

text \<open>
  Claim C4, at the input that shows the defect: heart rate 80, oxygen saturation 98 and
  a blood pressure of one space. The blood pressure is empty, so the claim asks for a
  rejection that tells the user. The third check of \<open>validateNormalForm\<close> reads the
  undeclared name \<open>bp\<close> before it reaches its own test for an empty blood pressure: with
  no global of that name the submission ends in a \<open>ReferenceError\<close>; the store is not
  written, and no toast tells the user. The same happens for every report whose heart
  rate and oxygen saturation are in range and whose blood pressure is not the empty
  text (\<open>submitStandardReport_throws\<close>); reports that fail the first two checks or have
  no blood pressure text at all are rejected with a toast
  (\<open>submitStandardReport_rejects\<close>).
\<close>

theorem blank_blood_pressure_throws:
  "bp_blank \<lparr> name = ''A. Rao'', hr = ''80'', bp = '' '', spo2 = ''98'', notes_text = [] \<rparr>
   \<and> submitStandardReport None
        (example_store,
         example_paramedic\<lparr> vitals :=
           \<lparr> name = ''A. Rao'', hr = ''80'', bp = '' '', spo2 = ''98'', notes_text = [] \<rparr> \<rparr>)
     = (Inl (ReferenceError ''bp''), example_store,
        example_paramedic\<lparr> vitals :=
           \<lparr> name = ''A. Rao'', hr = ''80'', bp = '' '', spo2 = ''98'', notes_text = [] \<rparr> \<rparr>)
   \<and> toasts (snd (snd (submitStandardReport None
        (example_store,
         example_paramedic\<lparr> vitals :=
           \<lparr> name = ''A. Rao'', hr = ''80'', bp = '' '', spo2 = ''98'', notes_text = [] \<rparr> \<rparr>))))
     = []"
  by (simp add: submitStandardReport_def validateNormalForm_eq example_paramedic_def
      hr_invalid_def spo2_invalid_def bp_absent_def bp_blank_def parseInt_def digit_of_def
      isWhiteSpace_def trim_def upt_rec)

section \<open>Properties of the number model\<close>

lemma powi_ge1: "0 \<le> d \<Longrightarrow> (1::'a::linordered_field) \<le> 2 powi d"
  using power_int_increasing [of 0 d "2::'a"] by simp

lemma powi_ge2: "1 \<le> d \<Longrightarrow> (2::'a::linordered_field) \<le> 2 powi d"
  using power_int_increasing [of 1 d "2::'a"] by simp

lemma powi_le1: "d \<le> 0 \<Longrightarrow> 2 powi d \<le> (1::'a::linordered_field)"
  using power_int_increasing [of d 0 "2::'a"] by simp

lemma powi_le_half: "d \<le> - 1 \<Longrightarrow> 2 powi d \<le> (1 / 2 ::'a::linordered_field)"
  using power_int_increasing [of d "- 1" "2::'a"] by (simp add: power_int_minus)

lemma binade_correct:
  assumes "0 < (x::'a::linordered_field)" "2 ^ 52 \<le> x / 2 powi d" "x / 2 powi d < 2 ^ 53" "nat \<bar>d\<bar> \<le> k"
  shows "binade k x e = e + d"
  using assms
proof (induction k arbitrary: x e d)
  case 0
  then show ?case by simp
next
  case (Suc k)
  have pos: "(0::'a) < 2 powi d" by simp
  show ?case
  proof (cases "x < 2 ^ 52")
    case True
    have "d < 0"
    proof (rule ccontr)
      assume "\<not> d < 0"
      then have "(1::'a) \<le> 2 powi d" by (simp add: powi_ge1)
      then have "x / 2 powi d \<le> x" using Suc.prems(1) pos
        by (simp add: divide_le_eq mult_le_cancel_left1)
      with True Suc.prems(2) show False by simp
    qed
    have eq: "(2 * x) / 2 powi (d + 1) = x / 2 powi d"
      by (simp add: power_int_add)
    have "binade k (2 * x) (e - 1) = (e - 1) + (d + 1)"
    proof (rule Suc.IH)
      show "0 < 2 * x" using Suc.prems(1) by simp
      show "2 ^ 52 \<le> 2 * x / 2 powi (d + 1)" using Suc.prems(2) by (simp only: eq)
      show "2 * x / 2 powi (d + 1) < 2 ^ 53" using Suc.prems(3) by (simp only: eq)
      show "nat \<bar>d + 1\<bar> \<le> k" using Suc.prems(4) \<open>d < 0\<close> by simp
    qed
    then show ?thesis using True by simp
  next
    case False
    show ?thesis
    proof (cases "2 ^ 53 \<le> x")
      case True
      have "0 < d"
      proof (rule ccontr)
        assume "\<not> 0 < d"
        then have "2 powi d \<le> (1::'a)" by (simp add: powi_le1)
        then have "x \<le> x / 2 powi d" using Suc.prems(1) pos
          by (simp add: le_divide_eq mult_le_cancel_left2)
        with True Suc.prems(3) show False by simp
      qed
      have eq: "(x / 2) / 2 powi (d - 1) = x / 2 powi d"
        by (simp add: power_int_diff)
      have "binade k (x / 2) (e + 1) = (e + 1) + (d - 1)"
      proof (rule Suc.IH)
        show "0 < x / 2" using Suc.prems(1) by simp
        show "2 ^ 52 \<le> x / 2 / 2 powi (d - 1)" using Suc.prems(2) by (simp only: eq)
        show "x / 2 / 2 powi (d - 1) < 2 ^ 53" using Suc.prems(3) by (simp only: eq)
        show "nat \<bar>d - 1\<bar> \<le> k" using Suc.prems(4) \<open>0 < d\<close> by simp
      qed
      then show ?thesis using True False by simp
    next
      case hi: False
      have "d = 0"
      proof (rule ccontr)
        assume "d \<noteq> 0"
        then consider "1 \<le> d" | "d \<le> - 1" by linarith
        then show False
        proof cases
          case 1
          then have "(2::'a) \<le> 2 powi d" by (rule powi_ge2)
          then have "x / 2 powi d \<le> x / 2" using Suc.prems(1) pos
            by (intro divide_left_mono) simp_all
          with hi Suc.prems(2) show False by simp
        next
          case 2
          then have "2 powi d \<le> (1 / 2 :: 'a)" by (rule powi_le_half)
          then have "x / (1 / 2) \<le> x / 2 powi d" using Suc.prems(1) pos
            by (intro divide_left_mono) simp_all
          with False Suc.prems(3) show False by simp
        qed
      qed
      then show ?thesis using False hi by simp
    qed
  qed
qed

lemma fl_eqI:
  assumes "2 ^ 52 \<le> \<bar>x::'a::floor_ceiling\<bar> / 2 powi e" "\<bar>x\<bar> / 2 powi e < 2 ^ 53"
    and "- 1074 \<le> e" "e \<le> 1000"
  shows "fl x = sgn x * of_int (round_half_even (\<bar>x\<bar> / 2 powi e)) * 2 powi e"
proof -
  have "x \<noteq> 0" using assms(1) by auto
  then have "binade 2200 \<bar>x\<bar> 0 = 0 + e"
    using assms by (intro binade_correct) simp_all
  then show ?thesis using \<open>x \<noteq> 0\<close> assms(3) by (simp add: fl_def)
qed

lemma round_half_even_frac:
  assumes "0 < b"
  shows "round_half_even (of_int a / of_int b :: 'a::floor_ceiling) =
    (if 2 * (a mod b) < b then a div b
     else if b < 2 * (a mod b) then a div b + 1
     else if even (a div b) then a div b else a div b + 1)"
proof -
  have fl: "\<lfloor>(of_int a / of_int b :: 'a)\<rfloor> = a div b"
    by (simp add: floor_divide_of_int_eq)
  have "(of_int a :: 'a) = of_int (a div b) * of_int b + of_int (a mod b)"
    unfolding of_int_mult [symmetric] of_int_add [symmetric] by simp
  then have r: "(of_int a / of_int b :: 'a) - of_int (a div b) = of_int (a mod b) / of_int b"
    using assms by (simp add: field_simps)
  have "(of_int (a mod b) / of_int b < (1 / 2 :: 'a))
      = ((of_int (2 * (a mod b)) :: 'a) < of_int b)"
    using assms by (simp add: field_simps)
  then have lt: "(of_int (a mod b) / of_int b < (1 / 2 :: 'a)) = (2 * (a mod b) < b)"
    by (simp only: of_int_less_iff)
  have "((1 / 2 :: 'a) < of_int (a mod b) / of_int b)
      = ((of_int b :: 'a) < of_int (2 * (a mod b)))"
    using assms by (simp add: field_simps)
  then have gt: "((1 / 2 :: 'a) < of_int (a mod b) / of_int b) = (b < 2 * (a mod b))"
    by (simp only: of_int_less_iff)
  show ?thesis
    unfolding round_half_even_def Let_def fl r lt gt by simp
qed

lemma round_half_even_numeral:
  "round_half_even (numeral a / numeral b :: 'a::floor_ceiling) =
    (if 2 * (numeral a mod numeral b) < (numeral b :: int) then numeral a div numeral b
     else if (numeral b :: int) < 2 * (numeral a mod numeral b) then numeral a div numeral b + 1
     else if even (numeral a div numeral b :: int) then numeral a div numeral b
     else numeral a div numeral b + 1)"
  using round_half_even_frac [where 'a = 'a, of "numeral b" "numeral a"] by simp


section \<open>Properties of the compression loop\<close>

lemma round_half_even_int_numeral: "round_half_even (numeral n) = numeral n"
  by (simp add: round_half_even_def)

lemma fl_literals:
  "fl (9 / 10) = 8106479329266893 / 9007199254740992"
  "fl (5 / 100) = 3602879701896397 / 72057594037927936"
  "fl (1 / 10) = 3602879701896397 / 36028797018963968"
  "fl (1 / 20) = 3602879701896397 / 72057594037927936"
  by (simp_all add: fl_eqI [where e = "-53"] fl_eqI [where e = "-57"] fl_eqI [where e = "-56"]
      round_half_even_numeral round_half_even_int_numeral power_int_minus)

lemma quality_steps_0: "quality_steps 0 = 8106479329266893 / 9007199254740992"
  by (simp add: fl_literals)

lemma quality_steps_1: "quality_steps 1 = 7656119366529843 / 9007199254740992"
proof -
  have "quality_steps (Suc 0) = 7656119366529843 / 9007199254740992"
    by (subst quality_steps.simps) (simp add: quality_steps_0 fl_literals fl_eqI [where e = "-53"]
          round_half_even_numeral round_half_even_int_numeral power_int_minus)
  then show ?thesis by simp
qed

lemma quality_steps_2: "quality_steps 2 = 7205759403792793 / 9007199254740992"
proof -
  have "quality_steps (Suc (Suc 0)) = 7205759403792793 / 9007199254740992"
    by (subst quality_steps.simps)
       (simp add: quality_steps_1 [unfolded One_nat_def] fl_literals fl_eqI [where e = "-53"]
          round_half_even_numeral round_half_even_int_numeral power_int_minus del: quality_steps.simps)
  then show ?thesis by (simp only: numeral_2_eq_2)
qed

lemma quality_steps_3: "quality_steps 3 = 6755399441055743 / 9007199254740992"
proof -
  have "quality_steps (Suc 2) = 6755399441055743 / 9007199254740992"
    by (subst quality_steps.simps) (simp add: quality_steps_2 fl_literals fl_eqI [where e = "-53"]
          round_half_even_numeral round_half_even_int_numeral power_int_minus)
  then show ?thesis by simp
qed

lemma quality_steps_4: "quality_steps 4 = 6305039478318693 / 9007199254740992"
proof -
  have "quality_steps (Suc 3) = 6305039478318693 / 9007199254740992"
    by (subst quality_steps.simps) (simp add: quality_steps_3 fl_literals fl_eqI [where e = "-53"]
          round_half_even_numeral round_half_even_int_numeral power_int_minus)
  then show ?thesis by simp
qed

lemma quality_steps_5: "quality_steps 5 = 5854679515581643 / 9007199254740992"
proof -
  have "quality_steps (Suc 4) = 5854679515581643 / 9007199254740992"
    by (subst quality_steps.simps) (simp add: quality_steps_4 fl_literals fl_eqI [where e = "-53"]
          round_half_even_numeral round_half_even_int_numeral power_int_minus)
  then show ?thesis by simp
qed

lemma quality_steps_6: "quality_steps 6 = 5404319552844593 / 9007199254740992"
proof -
  have "quality_steps (Suc 5) = 5404319552844593 / 9007199254740992"
    by (subst quality_steps.simps) (simp add: quality_steps_5 fl_literals fl_eqI [where e = "-53"]
          round_half_even_numeral round_half_even_int_numeral power_int_minus)
  then show ?thesis by simp
qed

lemma quality_steps_7: "quality_steps 7 = 4953959590107543 / 9007199254740992"
proof -
  have "quality_steps (Suc 6) = 4953959590107543 / 9007199254740992"
    by (subst quality_steps.simps) (simp add: quality_steps_6 fl_literals fl_eqI [where e = "-53"]
          round_half_even_numeral round_half_even_int_numeral power_int_minus)
  then show ?thesis by simp
qed

lemma quality_steps_8: "quality_steps 8 = 9007199254740987 / 18014398509481984"
proof -
  have "quality_steps (Suc 7) = 9007199254740987 / 18014398509481984"
    by (subst quality_steps.simps) (simp add: quality_steps_7 fl_literals fl_eqI [where e = "-54"]
          round_half_even_numeral round_half_even_int_numeral power_int_minus)
  then show ?thesis by simp
qed

lemma quality_steps_9: "quality_steps 9 = 1013309916158361 / 2251799813685248"
proof -
  have "quality_steps (Suc 8) = 1013309916158361 / 2251799813685248"
    by (subst quality_steps.simps) (simp add: quality_steps_8 fl_literals fl_eqI [where e = "-54"]
          round_half_even_numeral round_half_even_int_numeral power_int_minus)
  then show ?thesis by simp
qed

lemma quality_steps_10: "quality_steps 10 = 7205759403792789 / 18014398509481984"
proof -
  have "quality_steps (Suc 9) = 7205759403792789 / 18014398509481984"
    by (subst quality_steps.simps) (simp add: quality_steps_9 fl_literals fl_eqI [where e = "-54"]
          round_half_even_numeral round_half_even_int_numeral power_int_minus)
  then show ?thesis by simp
qed

lemma quality_steps_11: "quality_steps 11 = 3152519739159345 / 9007199254740992"
proof -
  have "quality_steps (Suc 10) = 3152519739159345 / 9007199254740992"
    by (subst quality_steps.simps) (simp add: quality_steps_10 fl_literals fl_eqI [where e = "-54"]
          round_half_even_numeral round_half_even_int_numeral power_int_minus)
  then show ?thesis by simp
qed

lemma quality_steps_12: "quality_steps 12 = 5404319552844591 / 18014398509481984"
proof -
  have "quality_steps (Suc 11) = 5404319552844591 / 18014398509481984"
    by (subst quality_steps.simps) (simp add: quality_steps_11 fl_literals fl_eqI [where e = "-54"]
          round_half_even_numeral round_half_even_int_numeral power_int_minus)
  then show ?thesis by simp
qed

lemma quality_steps_13: "quality_steps 13 = 1125899906842623 / 4503599627370496"
proof -
  have "quality_steps (Suc 12) = 1125899906842623 / 4503599627370496"
    by (subst quality_steps.simps) (simp add: quality_steps_12 fl_literals fl_eqI [where e = "-55"]
          round_half_even_numeral round_half_even_int_numeral power_int_minus)
  then show ?thesis by simp
qed

lemma quality_steps_14: "quality_steps 14 = 3602879701896393 / 18014398509481984"
proof -
  have "quality_steps (Suc 13) = 3602879701896393 / 18014398509481984"
    by (subst quality_steps.simps) (simp add: quality_steps_13 fl_literals fl_eqI [where e = "-55"]
          round_half_even_numeral round_half_even_int_numeral power_int_minus)
  then show ?thesis by simp
qed

lemma quality_steps_15: "quality_steps 15 = 1351079888211147 / 9007199254740992"
proof -
  have "quality_steps (Suc 14) = 1351079888211147 / 9007199254740992"
    by (subst quality_steps.simps) (simp add: quality_steps_14 fl_literals fl_eqI [where e = "-55"]
          round_half_even_numeral round_half_even_int_numeral power_int_minus)
  then show ?thesis by simp
qed

lemma quality_steps_16: "quality_steps 16 = 7205759403792779 / 72057594037927936"
proof -
  have "quality_steps (Suc 15) = 7205759403792779 / 72057594037927936"
    by (subst quality_steps.simps) (simp add: quality_steps_15 fl_literals fl_eqI [where e = "-56"]
          round_half_even_numeral round_half_even_int_numeral power_int_minus)
  then show ?thesis by simp
qed


lemma quality_floor: "quality_steps 16 \<le> fl (1 / 10)"
  by (simp add: quality_steps_16 fl_literals)

lemmas quality_steps_values =
  quality_steps_0 quality_steps_1 quality_steps_2 quality_steps_3 quality_steps_4 quality_steps_5 quality_steps_6 quality_steps_7 quality_steps_8 quality_steps_9 quality_steps_10 quality_steps_11 quality_steps_12 quality_steps_13 quality_steps_14 quality_steps_15 quality_steps_16
  quality_steps_1 [unfolded One_nat_def]

lemma less_16_cases:
  "j < 16 \<Longrightarrow> j = 0 \<or> j = 1 \<or> j = 2 \<or> j = 3 \<or> j = 4 \<or> j = 5 \<or> j = 6 \<or> j = 7
     \<or> j = 8 \<or> j = 9 \<or> j = 10 \<or> j = 11 \<or> j = 12 \<or> j = 13 \<or> j = 14 \<or> j = (15::nat)"
  by presburger

lemma quality_above_floor: "j < 16 \<Longrightarrow> fl (1 / 10) < quality_steps j \<and> 1 / 10 < quality_steps j"
  by (drule less_16_cases)
     (auto simp add: quality_steps_values fl_literals simp del: quality_steps.simps)

lemma quality_steps_close:
  "j \<le> 16 \<Longrightarrow> \<bar>quality_steps j - (9 / 10 - of_nat j * (5 / 100))\<bar> < 1 / 10 ^ 15"
proof -
  assume "j \<le> 16"
  then have "j < 16 \<or> j = 16" by linarith
  then show ?thesis
    by (auto dest!: less_16_cases simp add: quality_steps_values simp del: quality_steps.simps)
qed

lemma compress_from:
  "k \<le> 16 \<Longrightarrow>
   \<exists>n. k \<le> n \<and> n \<le> 16
     \<and> compress enc (quality_steps k)
         = Some (enc (quality_steps n), estimated_size (enc (quality_steps n)))
     \<and> (estimated_size (enc (quality_steps n)) \<le> MAX_SIZE \<or> quality_steps n \<le> fl (1 / 10))
     \<and> (\<forall>j. k \<le> j \<and> j < n \<longrightarrow>
            MAX_SIZE < estimated_size (enc (quality_steps j)) \<and> fl (1 / 10) < quality_steps j)"
proof (induction "16 - k" arbitrary: k)
  case 0
  then have k: "k = 16" by simp
  have "compress enc (quality_steps 16)
      = Some (enc (quality_steps 16), estimated_size (enc (quality_steps 16)))"
    by (subst compress.simps) (simp add: quality_floor Let_def)
  then show ?case using quality_floor unfolding k by (intro exI [of _ 16]) simp
next
  case (Suc m)
  then have k: "k < 16" by simp
  show ?case
  proof (cases "estimated_size (enc (quality_steps k)) \<le> MAX_SIZE")
    case True
    have "compress enc (quality_steps k)
        = Some (enc (quality_steps k), estimated_size (enc (quality_steps k)))"
      by (subst compress.simps) (simp add: True Let_def)
    then show ?thesis using True k by (intro exI [of _ k]) simp
  next
    case False
    have above: "fl (1 / 10) < quality_steps k" using quality_above_floor [OF k] by simp
    have step: "compress enc (quality_steps k) = compress enc (quality_steps (Suc k))"
      by (subst compress.simps) (use False above in \<open>simp add: Let_def\<close>)
    have "m = 16 - Suc k" "Suc k \<le> 16" using Suc.hyps(2) k by simp_all
    from Suc.hyps(1) [OF this]
    obtain n where n: "Suc k \<le> n" "n \<le> 16"
      "compress enc (quality_steps (Suc k))
         = Some (enc (quality_steps n), estimated_size (enc (quality_steps n)))"
      "estimated_size (enc (quality_steps n)) \<le> MAX_SIZE \<or> quality_steps n \<le> fl (1 / 10)"
      "\<forall>j. Suc k \<le> j \<and> j < n \<longrightarrow>
            MAX_SIZE < estimated_size (enc (quality_steps j)) \<and> fl (1 / 10) < quality_steps j"
      by blast
    have "\<forall>j. k \<le> j \<and> j < n \<longrightarrow>
            MAX_SIZE < estimated_size (enc (quality_steps j)) \<and> fl (1 / 10) < quality_steps j"
    proof (intro allI impI)
      fix j assume j: "k \<le> j \<and> j < n"
      show "MAX_SIZE < estimated_size (enc (quality_steps j)) \<and> fl (1 / 10) < quality_steps j"
      proof (cases "j = k")
        case True
        then show ?thesis using False above by simp
      next
        case False
        then have "Suc k \<le> j \<and> j < n" using j by simp
        then show ?thesis using n(5) by blast
      qed
    qed
    then show ?thesis using n step by (intro exI [of _ n]) simp
  qed
qed

lemma estimated_size_eq: "estimated_size s = (length s * 3 + 2) div 4"
proof -
  have "(of_nat (length s * 3) / 4 + 1 / 2 :: rat) = of_nat (length s * 3 + 2) / of_nat 4"
    by simp
  then have "Math_round (of_nat (length s * 3) / 4) = int ((length s * 3 + 2) div 4)"
    unfolding Math_round_def by (simp only: floor_divide_of_nat_eq)
  then show ?thesis by (simp add: estimated_size_def)
qed

lemma example_canvas_size:
  "estimated_size (example_canvas q) = (if 7 / 10 < q then 112500 else 45000)"
  by (simp add: estimated_size_eq example_canvas_def)

lemma example_canvas_step:
  assumes "k < 4"
  shows "compress example_canvas (quality_steps k) = compress example_canvas (quality_steps (Suc k))"
proof -
  have "k = 0 \<or> k = 1 \<or> k = 2 \<or> k = 3" using assms by presburger
  then have "7 / 10 < quality_steps k \<and> fl (1 / 10) < quality_steps k"
    by (auto simp add: quality_steps_values fl_literals simp del: quality_steps.simps)
  then show ?thesis
    by (subst compress.simps) (simp add: example_canvas_size MAX_SIZE_def Let_def)
qed

lemma example_canvas_run:
  "compressToUnder100KB example_canvas = Some (example_canvas (quality_steps 4), 45000)"
proof -
  have "compress example_canvas (quality_steps 4) = Some (example_canvas (quality_steps 4), 45000)"
    by (subst compress.simps)
       (simp add: example_canvas_size MAX_SIZE_def Let_def quality_steps_4
          del: quality_steps.simps)
  moreover have "compress example_canvas (quality_steps 0) = compress example_canvas (quality_steps 4)"
    using example_canvas_step [of 0] example_canvas_step [of 1] example_canvas_step [of 2]
      example_canvas_step [of 3]
    by (simp add: numeral_eq_Suc del: quality_steps.simps)
  ultimately have "compress example_canvas (quality_steps 0)
      = Some (example_canvas (quality_steps 4), 45000)"
    by (simp only:)
  then show ?thesis by (simp only: compressToUnder100KB_def quality_steps.simps(1))
qed

lemma compress_empty_canvas:
  assumes "canvas_width c = 0 \<or> canvas_height c = 0"
  shows "compressToUnder100KB (canvas_toDataURL c) = Some (''data:,'', 5)"
  unfolding compressToUnder100KB_def
  using assms
  by (subst compress.simps) (auto simp add: canvas_toDataURL_def estimated_size_eq MAX_SIZE_def Let_def)

lemma capture_canvas_small:
  "videoWidth v \<le> 640 \<Longrightarrow>
   capture_canvas v = \<lparr> canvas_width = videoWidth v, canvas_height = videoHeight v,
                        jpeg_base64 = frame_base64 v (videoWidth v) (videoHeight v) \<rparr>"
  by (simp add: capture_canvas_def MAX_WIDTH_def Let_def)

lemma capture_not_started:
  "videoWidth v = 0 \<Longrightarrow> capture v = Some (''data:,'', 5)"
  unfolding capture_def
  by (rule compress_empty_canvas) (simp add: capture_canvas_small)

lemma example_video_canvas:
  "canvas_toDataURL (capture_canvas example_video) = example_canvas"
  by (rule ext) (simp add: capture_canvas_small example_video_def canvas_toDataURL_def
      example_canvas_def)

text \<open>
  Claim C6, as stated: for every source image the loop ends with a payload of at most
  100 KB or at the quality floor, and the output is always an encoded JPEG data URL. The
  last part fails when Capture is pressed before the video has a frame: the canvas then
  has no pixels, \<open>toDataURL\<close> returns \<open>data:,\<close>, its estimated size 5 passes the size test
  at once, and the callback receives \<open>data:,\<close>, which is not a JPEG data URL.
\<close>

theorem empty_canvas_counterexample:
  "capture camera_not_started = Some (''data:,'', 5)
   \<and> \<not> is_jpeg_data_url ''data:,''"
  by (simp add: capture_not_started camera_not_started_def is_jpeg_data_url_def)

text \<open>
  Claim C6, amended. For every canvas the compression loop ends: the callback is called
  with the data URL that the canvas encodes at one of the qualities 0.9, 0.85, ..., at
  most 16 steps of 0.05 below 0.9. That payload has an estimated size of at most 100 KB
  or was encoded at a quality of at most 0.1, and it is the first one in the sequence for
  which this holds: every earlier quality was above 0.1 and gave a payload above 100 KB.
  The output is what \<open>canvas.toDataURL("image/jpeg", quality)\<close> returned: when every
  such value is a JPEG data URL, so is the output; for a canvas with pixels it is the
  JPEG data URL of the bitmap at that quality; for a canvas without pixels it is
  \<open>data:,\<close>. The capture handler passes a canvas of the size of the video frame, so a
  video without a frame gives \<open>data:,\<close>.
\<close>

theorem compression_terminates:
  "(\<exists>n\<le>16. compressToUnder100KB toDataURL
            = Some (toDataURL (quality_steps n), estimated_size (toDataURL (quality_steps n)))
     \<and> (estimated_size (toDataURL (quality_steps n)) \<le> 100 * 1024 \<or> quality_steps n \<le> 1 / 10)
     \<and> (\<forall>j<n. 100 * 1024 < estimated_size (toDataURL (quality_steps j))
                \<and> 1 / 10 < quality_steps j)
     \<and> \<bar>quality_steps n - (9 / 10 - of_nat n * (5 / 100))\<bar> < 1 / 10 ^ 15)
   \<and> ((\<forall>quality. is_jpeg_data_url (toDataURL quality))
        \<longrightarrow> (\<exists>dataURL size. compressToUnder100KB toDataURL = Some (dataURL, size)
               \<and> is_jpeg_data_url dataURL))
   \<and> (0 < canvas_width c \<and> 0 < canvas_height c
        \<longrightarrow> (\<exists>n\<le>16. compressToUnder100KB (canvas_toDataURL c)
                = Some (''data:image/jpeg;base64,'' @ jpeg_base64 c (quality_steps n),
                        estimated_size
                          (''data:image/jpeg;base64,'' @ jpeg_base64 c (quality_steps n)))
              \<and> is_jpeg_data_url
                  (''data:image/jpeg;base64,'' @ jpeg_base64 c (quality_steps n))))
   \<and> (canvas_width c = 0 \<or> canvas_height c = 0
        \<longrightarrow> compressToUnder100KB (canvas_toDataURL c) = Some (''data:,'', 5)
            \<and> \<not> is_jpeg_data_url ''data:,'')
   \<and> capture v = compressToUnder100KB (canvas_toDataURL (capture_canvas v))
   \<and> (videoWidth v = 0 \<longrightarrow> capture v = Some (''data:,'', 5))
   \<and> (videoWidth v \<le> 640
        \<longrightarrow> canvas_width (capture_canvas v) = videoWidth v
            \<and> canvas_height (capture_canvas v) = videoHeight v)"
proof -
  have run: "\<exists>n\<le>16. compressToUnder100KB f
            = Some (f (quality_steps n), estimated_size (f (quality_steps n)))
     \<and> (estimated_size (f (quality_steps n)) \<le> 100 * 1024 \<or> quality_steps n \<le> 1 / 10)
     \<and> (\<forall>j<n. 100 * 1024 < estimated_size (f (quality_steps j))
                \<and> 1 / 10 < quality_steps j)
     \<and> \<bar>quality_steps n - (9 / 10 - of_nat n * (5 / 100))\<bar> < 1 / 10 ^ 15" for f
  proof -
    from compress_from [of 0 f]
    obtain n where n: "n \<le> 16"
      "compress f (quality_steps 0)
         = Some (f (quality_steps n), estimated_size (f (quality_steps n)))"
      "estimated_size (f (quality_steps n)) \<le> MAX_SIZE \<or> quality_steps n \<le> fl (1 / 10)"
      "\<forall>j. 0 \<le> j \<and> j < n \<longrightarrow>
            MAX_SIZE < estimated_size (f (quality_steps j)) \<and> fl (1 / 10) < quality_steps j"
      by auto
    have stop: "estimated_size (f (quality_steps n)) \<le> 100 * 1024 \<or> quality_steps n \<le> 1 / 10"
    proof (cases "n = 16")
      case True
      then show ?thesis by (simp add: quality_steps_16)
    next
      case False
      then have "n < 16" using n(1) by simp
      then show ?thesis using n(3) quality_above_floor [of n] by (simp add: MAX_SIZE_def)
    qed
    have before: "\<forall>j<n. 100 * 1024 < estimated_size (f (quality_steps j))
                \<and> 1 / 10 < quality_steps j"
    proof (intro allI impI)
      fix j assume "j < n"
      then have "j < 16" using n(1) by simp
      with n(4) \<open>j < n\<close> quality_above_floor [of j]
      show "100 * 1024 < estimated_size (f (quality_steps j)) \<and> 1 / 10 < quality_steps j"
        by (simp add: MAX_SIZE_def)
    qed
    show ?thesis
      using n(1,2) stop before quality_steps_close [OF n(1)]
      by (intro exI [of _ n]) (simp add: compressToUnder100KB_def)
  qed
  have contract: "\<exists>dataURL size. compressToUnder100KB toDataURL = Some (dataURL, size)
               \<and> is_jpeg_data_url dataURL"
    if "\<forall>quality. is_jpeg_data_url (toDataURL quality)"
    using run [of toDataURL] that by blast
  have pixels: "\<exists>n\<le>16. compressToUnder100KB (canvas_toDataURL c)
                = Some (''data:image/jpeg;base64,'' @ jpeg_base64 c (quality_steps n),
                        estimated_size
                          (''data:image/jpeg;base64,'' @ jpeg_base64 c (quality_steps n)))
              \<and> is_jpeg_data_url
                  (''data:image/jpeg;base64,'' @ jpeg_base64 c (quality_steps n))"
    if "0 < canvas_width c \<and> 0 < canvas_height c"
  proof -
    from that have url: "canvas_toDataURL c q = ''data:image/jpeg;base64,'' @ jpeg_base64 c q" for q
      by (simp add: canvas_toDataURL_def)
    from run [of "canvas_toDataURL c"] obtain n where "n \<le> 16"
      "compressToUnder100KB (canvas_toDataURL c)
         = Some (canvas_toDataURL c (quality_steps n),
                 estimated_size (canvas_toDataURL c (quality_steps n)))"
      by blast
    then show ?thesis
      unfolding url by (intro exI [of _ n]) (simp add: is_jpeg_data_url_def)
  qed
  have empty: "compressToUnder100KB (canvas_toDataURL c) = Some (''data:,'', 5)
            \<and> \<not> is_jpeg_data_url ''data:,''"
    if "canvas_width c = 0 \<or> canvas_height c = 0"
    using compress_empty_canvas [OF that] by (simp add: is_jpeg_data_url_def)
  have small: "canvas_width (capture_canvas v) = videoWidth v
            \<and> canvas_height (capture_canvas v) = videoHeight v"
    if "videoWidth v \<le> 640"
    by (simp add: capture_canvas_small [OF that])
  show ?thesis
    using run [of toDataURL] contract pixels empty small capture_not_started [of v]
    by (simp only: capture_def simp_thms) blast
qed


text \<open>
  The example canvas: the encodings at 0.9, 0.85, 0.8 and 0.75 are too large, the one at
  the fifth quality (the binary64 value just below 0.7) fits, and it is a JPEG data URL.
  It is the canvas of the example video. The video without a frame gives \<open>data:,\<close>.
\<close>

theorem compression_terminates_witness:
  "(\<exists>n\<le>16. compressToUnder100KB example_canvas
            = Some (example_canvas (quality_steps n), estimated_size (example_canvas (quality_steps n)))
     \<and> (estimated_size (example_canvas (quality_steps n)) \<le> 100 * 1024 \<or> quality_steps n \<le> 1 / 10)
     \<and> (\<forall>j<n. 100 * 1024 < estimated_size (example_canvas (quality_steps j))
                \<and> 1 / 10 < quality_steps j)
     \<and> \<bar>quality_steps n - (9 / 10 - of_nat n * (5 / 100))\<bar> < 1 / 10 ^ 15)
   \<and> compressToUnder100KB example_canvas = Some (example_canvas (quality_steps 4), 45000)
   \<and> estimated_size (example_canvas (quality_steps 3)) = 112500
   \<and> quality_steps 4 = 6305039478318693 / 9007199254740992
   \<and> (\<forall>quality. is_jpeg_data_url (example_canvas quality))
   \<and> is_jpeg_data_url (example_canvas (quality_steps 4))
   \<and> videoWidth example_video \<le> 640
   \<and> canvas_width (capture_canvas example_video) = 320
   \<and> canvas_height (capture_canvas example_video) = 240
   \<and> 0 < canvas_width (capture_canvas example_video)
   \<and> 0 < canvas_height (capture_canvas example_video)
   \<and> capture example_video = Some (example_canvas (quality_steps 4), 45000)
   \<and> videoWidth camera_not_started = 0
   \<and> canvas_width (capture_canvas camera_not_started) = 0
   \<and> compressToUnder100KB (canvas_toDataURL (capture_canvas camera_not_started))
       = Some (''data:,'', 5)
   \<and> capture camera_not_started = Some (''data:,'', 5)"
proof -
  note started = compression_terminates
    [of example_canvas "capture_canvas example_video" example_video]
  note not_started = compression_terminates
    [of example_canvas "capture_canvas camera_not_started" camera_not_started]
  have size3: "estimated_size (example_canvas (quality_steps 3)) = 112500"
    by (simp add: example_canvas_size quality_steps_3 del: quality_steps.simps)
  have jpeg: "\<forall>quality. is_jpeg_data_url (example_canvas quality)"
    by (simp add: is_jpeg_data_url_def example_canvas_def)
  have w: "videoWidth example_video \<le> 640" "videoWidth camera_not_started = 0"
    "videoWidth camera_not_started \<le> 640"
    by (simp_all add: example_video_def camera_not_started_def)
  from started [THEN conjunct2, THEN conjunct1, THEN mp, OF jpeg]
  have out: "is_jpeg_data_url (example_canvas (quality_steps 4))"
    by (simp add: example_canvas_run)
  from started [THEN conjunct2, THEN conjunct2, THEN conjunct2, THEN conjunct2, THEN conjunct2,
      THEN conjunct2, rule_format, OF w(1)]
  have dims: "canvas_width (capture_canvas example_video) = 320"
    "canvas_height (capture_canvas example_video) = 240"
    by (simp_all add: example_video_def)
  from started [THEN conjunct2, THEN conjunct2, THEN conjunct2, THEN conjunct2, THEN conjunct1]
  have cap: "capture example_video = Some (example_canvas (quality_steps 4), 45000)"
    by (simp only: example_video_canvas example_canvas_run)
  from not_started [THEN conjunct2, THEN conjunct2, THEN conjunct2, THEN conjunct2,
      THEN conjunct2, THEN conjunct2, rule_format, OF w(3)]
  have zero: "canvas_width (capture_canvas camera_not_started) = 0"
    by (simp add: camera_not_started_def)
  from not_started [THEN conjunct2, THEN conjunct2, THEN conjunct2, THEN conjunct1, rule_format,
      OF disjI1, OF zero]
  have empty: "compressToUnder100KB (canvas_toDataURL (capture_canvas camera_not_started))
       = Some (''data:,'', 5)"
    by simp
  from not_started [THEN conjunct2, THEN conjunct2, THEN conjunct2, THEN conjunct2,
      THEN conjunct2, THEN conjunct1, rule_format, OF w(2)]
  have none: "capture camera_not_started = Some (''data:,'', 5)" .
  show ?thesis
    using started [THEN conjunct1] example_canvas_run quality_steps_4 size3 jpeg out w(1,2) dims
      cap zero empty none
    by (simp only: simp_thms zero_less_numeral)
qed

section \<open>Properties of the ETA advisory\<close>

lemma digit_of_digit_char: "d < 10 \<Longrightarrow> digit_of (digit_char d) = Some d"
proof -
  assume "d < 10"
  then have "d = 0 \<or> d = 1 \<or> d = 2 \<or> d = 3 \<or> d = 4 \<or> d = 5 \<or> d = 6 \<or> d = 7 \<or> d = 8 \<or> d = 9"
    by presburger
  then show ?thesis
    by (auto simp: digit_of_def digit_char_def upt_rec)
qed

lemma decimal_value_snoc:
  "decimal_value (s @ [c]) = 10 * decimal_value s + (case digit_of c of Some d \<Rightarrow> d | None \<Rightarrow> 0)"
  by (simp add: decimal_value_def)

lemma decimal_value_digits: "decimal_value (digits n) = n"
proof (induction n rule: digits.induct)
  case (1 n)
  show ?case
  proof (cases "n < 10")
    case True
    then show ?thesis
      by (subst digits.simps) (simp add: decimal_value_def digit_of_digit_char)
  next
    case False
    then show ?thesis
      using 1 by (subst digits.simps) (simp add: decimal_value_snoc digit_of_digit_char)
  qed
qed

lemma Math_round_close: "\<bar>of_int (Math_round x) - x\<bar> \<le> 1 / 2"
proof -
  have "of_int \<lfloor>x + 1 / 2\<rfloor> \<le> x + 1 / 2" "x + 1 / 2 < of_int \<lfloor>x + 1 / 2\<rfloor> + 1"
    by linarith+
  then have "of_int \<lfloor>x + 1 / 2\<rfloor> - x \<le> 1 / 2" "- (of_int \<lfloor>x + 1 / 2\<rfloor> - x) \<le> 1 / 2"
    by linarith+
  then show ?thesis unfolding Math_round_def by (rule abs_leI)
qed

lemma tenths_close: "\<bar>of_nat (tenths x) / 10 - \<bar>x\<bar>\<bar> \<le> 1 / 20"
proof -
  have nn: "0 \<le> Math_round (10 * \<bar>x\<bar>)" by (simp add: Math_round_def zero_le_floor)
  have "tenths x = nat (Math_round (10 * \<bar>x\<bar>))" by (simp add: tenths_def Math_round_def)
  then have "(of_nat (tenths x) :: rat) = of_int (Math_round (10 * \<bar>x\<bar>))"
    using nn by simp
  moreover have "\<bar>of_int (Math_round (10 * \<bar>x\<bar>)) - 10 * \<bar>x\<bar>\<bar> \<le> 1 / 2"
    by (rule Math_round_close)
  ultimately have "\<bar>of_nat (tenths x) - 10 * \<bar>x\<bar>\<bar> \<le> 1 / 2" by simp
  then have "\<bar>(of_nat (tenths x) - 10 * \<bar>x\<bar>) / 10\<bar> \<le> (1 / 2) / 10"
    unfolding abs_divide by (simp add: divide_right_mono)
  then show ?thesis by (simp add: diff_divide_distrib)
qed


lemma fetchOsrmRoute_eq:
  "fetchOsrmRoute net a b =
     (Inr (answered_route net),
      net\<lparr> requests := requests net @ [(a, b)], replies := tl (replies net) \<rparr>)"
  by (simp add: fetchOsrmRoute_def answered_route_def Let_def
      split: list.splits osrm_reply.splits option.splits)

lemma calculateETA_position_unknown:
  "known_position st geo = None \<Longrightarrow>
   calculateETA cancelled geo p (net, st) =
     (Inr (), net, if at_finally cancelled then st else st\<lparr> isCalculatingETA := False \<rparr>)"
  by (simp add: calculateETA_def known_position_def split: option.splits sum.splits)

lemma calculateETA_position_known:
  assumes "known_position st geo = Some pos"
  shows "fst (calculateETA cancelled geo p (net, st)) = Inr ()"
    and "requests (fst (snd (calculateETA cancelled geo p (net, st))))
           = requests net @ [(pos, patientPos p)]"
    and "dispatchETA (snd (snd (calculateETA cancelled geo p (net, st))))
           = (case answered_route net of
                None \<Rightarrow> dispatchETA st
              | Some r \<Rightarrow>
                  if after_route cancelled then dispatchETA st
                  else Some \<lparr> eta_distance = toFixed1 (fl (distance r / 1000)),
                              eta_time = Number_toString
                                (Math_round (fl (duration r / 60))) \<rparr>)"
proof -
  have pos: "(case driverLocation st of Some p \<Rightarrow> Inr p | None \<Rightarrow> geo) = Inr pos"
    using assms by (simp add: known_position_def split: option.splits sum.splits)
  show "fst (calculateETA cancelled geo p (net, st)) = Inr ()"
    by (simp add: calculateETA_def pos fetchOsrmRoute_eq Let_def split: option.splits)
  show "requests (fst (snd (calculateETA cancelled geo p (net, st))))
           = requests net @ [(pos, patientPos p)]"
    by (simp add: calculateETA_def pos fetchOsrmRoute_eq Let_def split: option.splits)
  show "dispatchETA (snd (snd (calculateETA cancelled geo p (net, st))))
           = (case answered_route net of
                None \<Rightarrow> dispatchETA st
              | Some r \<Rightarrow>
                  if after_route cancelled then dispatchETA st
                  else Some \<lparr> eta_distance = toFixed1 (fl (distance r / 1000)),
                              eta_time = Number_toString
                                (Math_round (fl (duration r / 60))) \<rparr>)"
    by (simp add: calculateETA_def pos fetchOsrmRoute_eq Let_def split: option.splits)
qed

lemma known_position_update [simp]:
  "known_position (st\<lparr> dispatchETA := e, isCalculatingETA := c \<rparr>) geo = known_position st geo"
  by (simp add: known_position_def)

lemma etaEffect_result: "fst (etaEffect cancelled geo p (net, st)) = Inr ()"
proof (cases "known_position st geo")
  case None
  then show ?thesis by (simp add: etaEffect_def calculateETA_position_unknown)
next
  case (Some pos)
  then show ?thesis by (simp add: etaEffect_def calculateETA_position_known(1) [of _ _ pos])
qed

lemma etaEffect_requests:
  "requests (fst (snd (etaEffect cancelled geo p (net, st))))
       = (case known_position st geo of
            None \<Rightarrow> requests net
          | Some pos \<Rightarrow> requests net @ [(pos, patientPos p)])"
proof (cases "known_position st geo")
  case None
  then show ?thesis by (simp add: etaEffect_def calculateETA_position_unknown)
next
  case (Some pos)
  then show ?thesis by (simp add: etaEffect_def calculateETA_position_known(2) [of _ _ pos])
qed

lemma etaEffect_dispatchETA:
  "dispatchETA (snd (snd (etaEffect cancelled geo p (net, st))))
       = (case known_position st geo of
            None \<Rightarrow> None
          | Some pos \<Rightarrow>
              (case answered_route net of
                 None \<Rightarrow> None
               | Some r \<Rightarrow>
                   if after_route cancelled then None
                   else Some \<lparr> eta_distance = toFixed1 (fl (distance r / 1000)),
                               eta_time = Number_toString
                                 (Math_round (fl (duration r / 60))) \<rparr>))"
proof (cases "known_position st geo")
  case None
  then show ?thesis by (simp add: etaEffect_def calculateETA_position_unknown)
next
  case (Some pos)
  then show ?thesis
    by (simp add: etaEffect_def calculateETA_position_known(3) [of _ _ pos] split: option.splits)
qed

lemma toFixed1_eq:
  "toFixed1 x = (if x < 0 then ''-'' else []) @ digits (tenths x div 10) @ ''.''
                     @ [digit_char (tenths x mod 10)]"
proof -
  have "tenths x mod 10 < 10" by simp
  then have "digits (tenths x mod 10) = [digit_char (tenths x mod 10)]"
    by (subst digits.simps) simp
  then show ?thesis by (simp add: toFixed1_def del: digits.simps)
qed

lemma Number_toString_nat: "Number_toString (int n) = digits n"
  by (simp add: Number_toString_def del: digits.simps)

lemma fetchOsrmRoute_result: "fst (fetchOsrmRoute net a b) = Inr (answered_route net)"
  by (simp add: fetchOsrmRoute_eq)

lemma fetchOsrmRoute_requests:
  "requests (snd (fetchOsrmRoute net a b)) = requests net @ [(a, b)]"
  by (simp add: fetchOsrmRoute_eq)

text \<open>
  Claim C5. For every origin and destination the ETA advisory makes one request to the
  routing service and no more, and it never raises: its result is \<open>Inr ()\<close> and
  \<open>fetchOsrmRoute\<close> returns a route or \<open>null\<close>. When the single request is answered by
  a route (and the effect was not cancelled meanwhile) the banner shows the distance in
  kilometres with one decimal and the duration in whole minutes: the kilometre value is
  the distance divided by 1000 and the printed tenths differ from it by at most 0.05;
  the minute value is the duration divided by 60, rounded to the nearest integer. On a
  network failure, on a body that does not parse and on a body without a route (and
  when no position can be had) the banner stays empty: the advisory is unavailable.
\<close>

theorem eta_advisory:
  "fst (etaEffect cancelled geo p (net, st)) = Inr ()
   \<and> fst (fetchOsrmRoute net a b) = Inr (answered_route net)
   \<and> requests (snd (fetchOsrmRoute net a b)) = requests net @ [(a, b)]
   \<and> requests (fst (snd (etaEffect cancelled geo p (net, st))))
       = (case known_position st geo of
            None \<Rightarrow> requests net
          | Some pos \<Rightarrow> requests net @ [(pos, patientPos p)])
   \<and> dispatchETA (snd (snd (etaEffect cancelled geo p (net, st))))
       = (case known_position st geo of
            None \<Rightarrow> None
          | Some pos \<Rightarrow>
              (case answered_route net of
                 None \<Rightarrow> None
               | Some r \<Rightarrow>
                   if after_route cancelled then None
                   else Some \<lparr> eta_distance = toFixed1 (fl (distance r / 1000)),
                               eta_time = Number_toString
                                 (Math_round (fl (duration r / 60))) \<rparr>))
   \<and> \<bar>of_nat (tenths x) / 10 - \<bar>x\<bar>\<bar> \<le> 1 / 20
   \<and> toFixed1 x = (if x < 0 then ''-'' else []) @ digits (tenths x div 10) @ ''.''
                     @ [digit_char (tenths x mod 10)]
   \<and> \<bar>of_int (Math_round y) - y\<bar> \<le> 1 / 2
   \<and> Number_toString (int n) = digits n
   \<and> decimal_value (digits n) = n"
  by (intro conjI etaEffect_result fetchOsrmRoute_result fetchOsrmRoute_requests
      etaEffect_requests etaEffect_dispatchETA tenths_close toFixed1_eq Math_round_close
      Number_toString_nat decimal_value_digits)

lemma Math_round_frac:
  assumes "0 < b"
  shows "Math_round (of_int a / of_int b) = (2 * a + b) div (2 * b)"
proof -
  have "(of_int a / of_int b + 1 / 2 :: rat) = of_int (2 * a + b) / of_int (2 * b)"
    using assms by (simp add: field_simps)
  then show ?thesis
    unfolding Math_round_def by (simp only: floor_divide_of_int_eq)
qed

lemma Math_round_numeral:
  "Math_round (numeral a / numeral b) = (2 * numeral a + numeral b) div (2 * numeral b)"
  using Math_round_frac [of "numeral b" "numeral a"] by simp

lemma tenths_eq: "tenths x = nat (Math_round (10 * \<bar>x\<bar>))"
  by (simp add: tenths_def Math_round_def)

lemma example_km: "fl (24691 / 2 / 1000) = 6949898649962807 / 562949953421312"
  by (simp add: fl_eqI [where e = "-49"] round_half_even_numeral power_int_minus)

lemma example_min: "fl (3017 / 4 / 60) = 1769187509866769 / 140737488355328"
  by (simp add: fl_eqI [where e = "-49"] round_half_even_numeral power_int_minus)

lemma example_eta_strings:
  "toFixed1 (6949898649962807 / 562949953421312) = ''12.3''"
  "Number_toString (Math_round (1769187509866769 / 140737488355328)) = ''13''"
  by (simp_all add: toFixed1_def tenths_eq Math_round_numeral Number_toString_def digit_char_def)

lemma not_cancelled_after_route: "after_route not_cancelled = False"
  by (simp add: not_cancelled_def)

lemma example_eta_position: "known_position example_eta_page (Inl GeolocationError) = Some \<lparr> lat = 18.52, lng = 73.85 \<rparr>"
  by (simp add: known_position_def example_eta_page_def)

lemma example_answered_route: "answered_route example_network = Some \<lparr> distance = 24691 / 2, duration = 3017 / 4 \<rparr>"
  by (simp add: answered_route_def example_network_def)

lemma example_unparsed_reply: "answered_route (example_network\<lparr> replies := [BodyNotJson] \<rparr>) = None"
  by (simp add: answered_route_def)

lemma example_patientPos: "patientPos (0, example_record) = \<lparr> lat = 18.5074, lng = 73.8077 \<rparr>"
  by (simp add: patientPos_def example_record_def field_def DEMO_PICKUP_def)

lemma example_requests: "requests example_network = []" "requests (example_network\<lparr> replies := [BodyNotJson] \<rparr>) = []"
  by (simp_all add: example_network_def)

lemma example_banner: 
  "toFixed1 (fl (distance \<lparr> distance = 24691 / 2, duration = 3017 / 4 \<rparr> / 1000)) = ''12.3''"
  "Number_toString (Math_round (fl (duration \<lparr> distance = 24691 / 2, duration = 3017 / 4 \<rparr> / 60))) = ''13''"
  by (simp_all only: Route.simps example_km example_min example_eta_strings)


text \<open>
  A driver at a known position selects the example record. The service answers with a
  route of 12345.5 m and 754.25 s: the banner shows 12.3 km and 13 min, after one
  request from the driver to the pickup point. When the body of the answer is not JSON
  the banner is empty, after one request.
\<close>

theorem eta_advisory_witness:
  "dispatchETA (snd (snd (etaEffect not_cancelled (Inl GeolocationError) (0, example_record)
       (example_network, example_eta_page))))
     = Some \<lparr> eta_distance = ''12.3'', eta_time = ''13'' \<rparr>
   \<and> requests (fst (snd (etaEffect not_cancelled (Inl GeolocationError) (0, example_record)
       (example_network, example_eta_page))))
     = [(\<lparr> lat = 18.52, lng = 73.85 \<rparr>, \<lparr> lat = 18.5074, lng = 73.8077 \<rparr>)]
   \<and> dispatchETA (snd (snd (etaEffect not_cancelled (Inl GeolocationError) (0, example_record)
       (example_network\<lparr> replies := [BodyNotJson] \<rparr>, example_eta_page))))
     = None
   \<and> requests (fst (snd (etaEffect not_cancelled (Inl GeolocationError) (0, example_record)
       (example_network\<lparr> replies := [BodyNotJson] \<rparr>, example_eta_page))))
     = [(\<lparr> lat = 18.52, lng = 73.85 \<rparr>, \<lparr> lat = 18.5074, lng = 73.8077 \<rparr>)]"
proof -
  note a = eta_advisory [of not_cancelled "Inl GeolocationError" "(0, example_record)" example_network
      example_eta_page]
  note b = eta_advisory [of not_cancelled "Inl GeolocationError" "(0, example_record)"
      "example_network\<lparr> replies := [BodyNotJson] \<rparr>" example_eta_page]
  from a have "dispatchETA (snd (snd (etaEffect not_cancelled (Inl GeolocationError) (0, example_record)
       (example_network, example_eta_page))))
     = Some \<lparr> eta_distance = ''12.3'', eta_time = ''13'' \<rparr>"
    by (simp only: example_eta_position example_answered_route example_banner option.case
        not_cancelled_after_route if_False)
  moreover from a have "requests (fst (snd (etaEffect not_cancelled (Inl GeolocationError) (0, example_record)
       (example_network, example_eta_page))))
     = [(\<lparr> lat = 18.52, lng = 73.85 \<rparr>, \<lparr> lat = 18.5074, lng = 73.8077 \<rparr>)]"
    by (simp only: example_eta_position example_patientPos example_requests option.case append_Nil)
  moreover from b have "dispatchETA (snd (snd (etaEffect not_cancelled (Inl GeolocationError) (0, example_record)
       (example_network\<lparr> replies := [BodyNotJson] \<rparr>, example_eta_page))))
     = None"
    by (simp only: example_eta_position example_unparsed_reply option.case)
  moreover from b have "requests (fst (snd (etaEffect not_cancelled (Inl GeolocationError) (0, example_record)
       (example_network\<lparr> replies := [BodyNotJson] \<rparr>, example_eta_page))))
     = [(\<lparr> lat = 18.52, lng = 73.85 \<rparr>, \<lparr> lat = 18.5074, lng = 73.8077 \<rparr>)]"
    by (simp only: example_eta_position example_patientPos example_requests option.case append_Nil)
  ultimately show ?thesis by blast
qed

section \<open>Properties of the nearest-hospital selection\<close>

lemma pick_nan_start:
  "D x = NotANumber \<Longrightarrow>
   foldl (\<lambda>best h. if less_than (D h) (D best) then h else best) x xs = x"
  by (induction xs) (simp_all add: less_than_def split: double.splits)

lemma pick_number_start:
  assumes "D x = Double d"
  shows "\<exists>r dr. foldl (\<lambda>best h. if less_than (D h) (D best) then h else best) x xs = r
           \<and> r \<in> set (x # xs) \<and> D r = Double dr
           \<and> (\<forall>y\<in>set (x # xs). \<forall>dy. D y = Double dy \<longrightarrow> dr \<le> dy)"
  using assms
proof (induction xs arbitrary: x d)
  case Nil
  then show ?case by simp
next
  case (Cons z zs)
  let ?f = "\<lambda>best h. if less_than (D h) (D best) then h else best"
  show ?case
  proof (cases "less_than (D z) (D x)")
    case True
    then obtain dz where dz: "D z = Double dz" "dz < d"
      using Cons.prems by (auto simp: less_than_def split: double.splits)
    from Cons.IH [OF dz(1)] obtain r dr where r: "foldl ?f z zs = r" "r \<in> set (z # zs)"
      "D r = Double dr" "\<forall>y\<in>set (z # zs). \<forall>dy. D y = Double dy \<longrightarrow> dr \<le> dy"
      by blast
    then have "dr \<le> dz" using dz(1) by simp
    then have "\<forall>y\<in>set (x # z # zs). \<forall>dy. D y = Double dy \<longrightarrow> dr \<le> dy"
      using r(4) dz(2) Cons.prems by auto
    then show ?thesis using r True by auto
  next
    case False
    from Cons.IH [OF Cons.prems] obtain r dr where r: "foldl ?f x zs = r" "r \<in> set (x # zs)"
      "D r = Double dr" "\<forall>y\<in>set (x # zs). \<forall>dy. D y = Double dy \<longrightarrow> dr \<le> dy"
      by blast
    then have "dr \<le> d" using Cons.prems by simp
    moreover have "d \<le> dz" if "D z = Double dz" for dz
      using False that Cons.prems by (simp add: less_than_def)
    ultimately have "\<forall>y\<in>set (x # z # zs). \<forall>dy. D y = Double dy \<longrightarrow> dr \<le> dy"
      using r(4) by auto
    then show ?thesis using r False by auto
  qed
qed

lemma closestHospital_eq:
  "closestHospital M to_pos =
     Inr (foldl (\<lambda>best h. if less_than (haversineKm M (position_of h) to_pos)
                                     (haversineKm M (position_of best) to_pos)
                        then h else best)
            Deenanath [Sahyadri, Shashwat])"
  by (simp add: closestHospital_def reduce_def HOSPITALS_def position_of_def)

lemma HOSPITALS_set: "set HOSPITALS = set (Deenanath # [Sahyadri, Shashwat])"
  by (simp add: HOSPITALS_def)

lemma closestHospital_nan:
  assumes "haversineKm M (position_of Deenanath) to_pos = NotANumber"
  shows "closestHospital M to_pos = Inr Deenanath"
  unfolding closestHospital_eq
  using pick_nan_start [of "\<lambda>h. haversineKm M (position_of h) to_pos", OF assms,
      of "[Sahyadri, Shashwat]"]
  by (simp only:)

lemma closestHospital_listed: "\<exists>H\<in>set HOSPITALS. closestHospital M to_pos = Inr H"
proof (cases "haversineKm M (position_of Deenanath) to_pos")
  case NotANumber
  from closestHospital_nan [OF this] show ?thesis by (simp add: HOSPITALS_def)
next
  case (Double d)
  from pick_number_start [of "\<lambda>h. haversineKm M (position_of h) to_pos", OF this,
      of "[Sahyadri, Shashwat]"]
  show ?thesis unfolding closestHospital_eq HOSPITALS_set by blast
qed

lemma closestHospital_min:
  assumes "haversineKm M (position_of Deenanath) to_pos = Double d0"
  shows "\<exists>H\<in>set HOSPITALS. \<exists>d. closestHospital M to_pos = Inr H
           \<and> haversineKm M (position_of H) to_pos = Double d
           \<and> (\<forall>H'\<in>set HOSPITALS. \<forall>d'.
                 haversineKm M (position_of H') to_pos = Double d' \<longrightarrow> d \<le> d')"
  using pick_number_start [of "\<lambda>h. haversineKm M (position_of h) to_pos", OF assms,
      of "[Sahyadri, Shashwat]"]
  unfolding closestHospital_eq HOSPITALS_set by blast

lemma fl_zero: "fl 0 = 0"
  by (simp add: fl_def)

lemma fl_one: "fl (1::real) = 1"
  by (simp add: fl_eqI [where e = "-52"] round_half_even_def power_int_minus)

lemma haversineKm_same:
  assumes "exact_at_zero M"
  shows "haversineKm M p p = Double 0"
proof -
  from assms have z: "Math_sin M 0 = 0" "Math_pow M 0 2 = 0" "sqrt_of_nonnegative M 0 = 0"
    "sqrt_of_nonnegative M 1 = 1" "atan2_of_numbers M 0 1 = 0"
    by (simp_all add: exact_at_zero_def)
  have "haversine_h M p p = 0"
    by (simp add: haversine_h_def fl_zero z)
  then show ?thesis
    by (simp add: haversineKm_def Math_sqrt_def Math_atan2_def times_def fl_zero fl_one z)
qed

lemma closestHospital_coincident:
  assumes zero: "exact_at_zero M" and H: "H \<in> set HOSPITALS"
    and others: "\<forall>H'\<in>set HOSPITALS. H' \<noteq> H \<longrightarrow>
                   less_than (Double 0) (haversineKm M (position_of H') (position_of H))"
  shows "closestHospital M (position_of H) = Inr H"
proof -
  have own: "haversineKm M (position_of H) (position_of H) = Double 0"
    by (rule haversineKm_same [OF zero])
  have "\<exists>d0. haversineKm M (position_of Deenanath) (position_of H) = Double d0"
  proof (cases "Deenanath = H")
    case True
    then show ?thesis using own by simp
  next
    case False
    then have "less_than (Double 0) (haversineKm M (position_of Deenanath) (position_of H))"
      using others by (simp add: HOSPITALS_def)
    then show ?thesis
      by (cases "haversineKm M (position_of Deenanath) (position_of H)")
         (simp_all add: less_than_def)
  qed
  then obtain d0 where "haversineKm M (position_of Deenanath) (position_of H) = Double d0" ..
  from closestHospital_min [OF this] obtain R d where R: "R \<in> set HOSPITALS"
    "closestHospital M (position_of H) = Inr R"
    "haversineKm M (position_of R) (position_of H) = Double d"
    "\<forall>H'\<in>set HOSPITALS. \<forall>d'.
        haversineKm M (position_of H') (position_of H) = Double d' \<longrightarrow> d \<le> d'"
    by blast
  from R(4) H own have "d \<le> 0" by blast
  have "R = H"
  proof (rule ccontr)
    assume "R \<noteq> H"
    with others R(1) have "less_than (Double 0) (haversineKm M (position_of R) (position_of H))"
      by blast
    with R(3) \<open>d \<le> 0\<close> show False by (simp add: less_than_def)
  qed
  then show ?thesis using R(2) by simp
qed

text \<open>
  The roundings and the library values that the example distances go through, and the
  distances themselves.
\<close>

lemma fl_literal_1:
  "fl (- (10616349998624679 / 100000000000000) :: real) = - (1867648042884409 / 17592186044416)"
  "fl (- (9251399968972537 / 500000000000000) :: real) = - (5208075181615017 / 281474976710656)"
  "fl (36993 / 2000 :: real) = 5206301906728649 / 281474976710656"
  "fl (46257 / 2500 :: real) = 2604037599540963 / 140737488355328"
  "fl (3701 / 200 :: real) = 5208694444030689 / 281474976710656"
  "fl (92537 / 5000 :: real) = 5209369983974795 / 281474976710656"
  "fl (92253 / 1250 :: real) = 2596691102648815 / 35184372088832"
  "fl (738077 / 10000 :: real) = 5193755159641771 / 70368744177664"
  by (simp_all add: fl_eqI [where e = "-48"] fl_eqI [where e = "-46"] round_half_even_numeral
      round_half_even_int_numeral power_int_minus)

lemma fl_literal_2:
  "fl (369101 / 5000 :: real) = 649329346117999 / 8796093022208"
  "fl (147673 / 2000 :: real) = 649472722434261 / 8796093022208"
  by (simp_all add: fl_eqI [where e = "-46"] round_half_even_numeral round_half_even_int_numeral
      power_int_minus)

lemma fl_rounded_1:
  "fl (- (2800154399548649005955350669705 / 4951760157141521099596496896) :: real) = - (155439794344217 / 274877906944)"
  "fl (- (2799900830011337153568986046885 / 4951760157141521099596496896) :: real) = - (4973622989033077 / 8796093022208)"
  "fl (- (5599247851708054778339951685315 / 9903520314283042199192993792) :: real) = - (4973131108439381 / 8796093022208)"
  "fl (- (3166593487752931 / 17592186044416) :: real) = - (3166593487752931 / 17592186044416)"
  "fl (- (3166306735120407 / 17592186044416) :: real) = - (3166306735120407 / 17592186044416)"
  "fl (- (6331987188417633 / 35184372088832) :: real) = - (6331987188417633 / 35184372088832)"
  "fl (- (4605669058745375855627892242415 / 39614081257132168796771975168) :: real) = - (4090655866258231 / 35184372088832)"
  "fl (- (575674408233841629942632102245 / 4951760157141521099596496896) :: real) = - (2045206344667753 / 17592186044416)"
  by (simp_all add: fl_eqI [where e = "-46"] fl_eqI [where e = "-45"] fl_eqI [where e = "-43"]
      round_half_even_numeral round_half_even_int_numeral power_int_minus)

lemma fl_rounded_2:
  "fl (- (4604611222638799128229457866315 / 39614081257132168796771975168) :: real) = - (2044858159528395 / 17592186044416)"
  "fl (- (4605395258147915906210864385435 / 79228162514264337593543950336) :: real) = - (2045206341238133 / 35184372088832)"
  "fl (- (5208384812822853 / 140737488355328) :: real) = - (5208384812822853 / 140737488355328)"
  "fl (- (10416150380696943 / 281474976710656) :: real) = - (651009398793559 / 17592186044416)"
  "fl (- (5207188544171833 / 140737488355328) :: real) = - (5207188544171833 / 140737488355328)"
  "fl (- (155439794344217 / 49478023249920) :: real) = - (442139859467995 / 140737488355328)"
  "fl (- (4973622989033077 / 1583296743997440) :: real) = - (3536798569979077 / 1125899906842624)"
  "fl (- (4973131108439381 / 1583296743997440) :: real) = - (442056098527945 / 140737488355328)"
  by (simp_all add: fl_eqI [where e = "-51"] fl_eqI [where e = "-47"] fl_eqI [where e = "-46"]
      round_half_even_numeral round_half_even_int_numeral power_int_minus)

lemma fl_rounded_3:
  "fl (- (442139859467995 / 281474976710656) :: real) = - (442139859467995 / 281474976710656)"
  "fl (- (3536798569979077 / 2251799813685248) :: real) = - (3536798569979077 / 2251799813685248)"
  "fl (- (442056098527945 / 281474976710656) :: real) = - (442056098527945 / 281474976710656)"
  "fl (- (4090655866258231 / 6333186975989760) :: real) = - (5817821676456151 / 9007199254740992)"
  "fl (- (2045206344667753 / 3166593487994880) :: real) = - (363592239052045 / 562949953421312)"
  "fl (- (136323877301893 / 211106232532992) :: real) = - (5816485431547435 / 9007199254740992)"
  "fl (- (5817821676456151 / 18014398509481984) :: real) = - (5817821676456151 / 18014398509481984)"
  "fl (- (363592239052045 / 1125899906842624) :: real) = - (363592239052045 / 1125899906842624)"
  by (simp_all add: fl_eqI [where e = "-54"] fl_eqI [where e = "-53"] fl_eqI [where e = "-52"]
      round_half_even_numeral round_half_even_int_numeral power_int_minus)

lemma fl_rounded_4:
  "fl (- (2045206341238133 / 6333186975989760) :: real) = - (1454368953769339 / 4503599627370496)"
  "fl (- (5816485431547435 / 18014398509481984) :: real) = - (5816485431547435 / 18014398509481984)"
  "fl (- (1060947389243233570749654095 / 9903520314283042199192993792) :: real) = - (1929852058753083 / 18014398509481984)"
  "fl (- (1792098815848308512426886935 / 19807040628566084398385987584) :: real) = - (6519617512270301 / 72057594037927936)"
  "fl (- (553808314619528798020408455 / 9903520314283042199192993792) :: real) = - (4029485823554051 / 72057594037927936)"
  "fl (- (63392384327963096591155705 / 1237940039285380274899124224) :: real) = - (7379844822916563 / 144115188075855872)"
  "fl (- (777820666600898966968395655 / 19807040628566084398385987584) :: real) = - (5659390201624039 / 144115188075855872)"
  "fl (- (1199787088229 / 35184372088832) :: real) = - (1199787088229 / 35184372088832)"
  by (simp_all add: fl_eqI [where e = "-57"] fl_eqI [where e = "-56"] fl_eqI [where e = "-54"]
      round_half_even_numeral round_half_even_int_numeral power_int_minus)

lemma fl_rounded_5:
  "fl (- (2026619832317 / 70368744177664) :: real) = - (2026619832317 / 70368744177664)"
  "fl (- (264459026644181849608594025 / 9903520314283042199192993792) :: real) = - (3848385337102545 / 144115188075855872)"
  "fl (- (1568086463866938343478899735 / 79228162514264337593543950336) :: real) = - (5704665323235307 / 288230376151711744)"
  "fl (- (626281823181 / 35184372088832) :: real) = - (626281823181 / 35184372088832)"
  "fl (- (71688158131 / 4398046511104) :: real) = - (71688158131 / 4398046511104)"
  "fl (- (879609302221 / 70368744177664) :: real) = - (879609302221 / 70368744177664)"
  "fl (- (299067162755 / 35184372088832) :: real) = - (299067162755 / 35184372088832)"
  "fl (- (547585749286516453389852465 / 79228162514264337593543950336) :: real) = - (1992105350969783 / 288230376151711744)"
  by (simp_all add: fl_eqI [where e = "-60"] fl_eqI [where e = "-59"] fl_eqI [where e = "-58"]
      round_half_even_numeral round_half_even_int_numeral power_int_minus)

lemma fl_rounded_6:
  "fl (- (1773292353277 / 281474976710656) :: real) = - (1773292353277 / 281474976710656)"
  "fl (- (619244948763 / 281474976710656) :: real) = - (619244948763 / 281474976710656)"
  "fl (- (643284019584361 / 1080863910568919040) :: real) = - (5489356967119881 / 9223372036854775808)"
  "fl (- (6519617512270301 / 12970366926827028480) :: real) = - (579521556646249 / 1152921504606846976)"
  "fl (- (4029485823554051 / 12970366926827028480) :: real) = - (358176517649249 / 1152921504606846976)"
  "fl (- (5489356967119881 / 18446744073709551616) :: real) = - (5489356967119881 / 18446744073709551616)"
  "fl (- (2459948274305521 / 8646911284551352320) :: real) = - (2623944825925889 / 9223372036854775808)"
  "fl (- (579521556646249 / 2305843009213693952) :: real) = - (579521556646249 / 2305843009213693952)"
  by (simp_all add: fl_eqI [where e = "-64"] fl_eqI [where e = "-63"] fl_eqI [where e = "-61"]
      fl_eqI [where e = "-60"] round_half_even_numeral round_half_even_int_numeral
      power_int_minus)

lemma fl_rounded_7:
  "fl (- (5659390201624039 / 25940733853654056960) :: real) = - (8048910508976411 / 36893488147419103232)"
  "fl (- (358176517649249 / 2305843009213693952) :: real) = - (358176517649249 / 2305843009213693952)"
  "fl (- (256559022473503 / 1729382256910270464) :: real) = - (5473259146101397 / 36893488147419103232)"
  "fl (- (2623944825925889 / 18446744073709551616) :: real) = - (2623944825925889 / 18446744073709551616)"
  "fl (- (5704665323235307 / 51881467707308113920) :: real) = - (4056650896522885 / 36893488147419103232)"
  "fl (- (8048910508976411 / 73786976294838206464) :: real) = - (8048910508976411 / 73786976294838206464)"
  "fl (- (5473259146101397 / 73786976294838206464) :: real) = - (5473259146101397 / 73786976294838206464)"
  "fl (- (4056650896522885 / 73786976294838206464) :: real) = - (4056650896522885 / 73786976294838206464)"
  by (simp_all add: fl_eqI [where e = "-67"] fl_eqI [where e = "-66"] fl_eqI [where e = "-65"]
      round_half_even_numeral round_half_even_int_numeral power_int_minus)

lemma fl_rounded_8:
  "fl (- (1992105350969783 / 51881467707308113920) :: real) = - (5666432998314049 / 147573952589676412928)"
  "fl (- (5666432998314049 / 295147905179352825856) :: real) = - (5666432998314049 / 295147905179352825856)"
  "fl (- (1 / 4503599627370496) :: real) = - (1 / 4503599627370496)"
  "fl (20946796770272518616706148363273 / 10889035741470030830827987437816582766592 :: real) = 4651123213300083 / 2417851639229258349412352"
  "fl (1427927905283455 / 604462909807314587353088 :: real) = 1427927905283455 / 604462909807314587353088"
  "fl (3641308582423982852347867780317 / 340282366920938463463374607431768211456 :: real) = 6468263404755673 / 604462909807314587353088"
  "fl (24767622950524547494972313882811 / 1361129467683753853853498429727072845824 :: real) = 5499517052981361 / 302231454903657293676544"
  "fl (11937382691775735 / 604462909807314587353088 :: real) = 1492172836471967 / 75557863725914323419136"
  by (simp_all add: fl_eqI [where e = "-104"] fl_eqI [where e = "-81"] fl_eqI [where e = "-79"]
      fl_eqI [where e = "-78"] fl_eqI [where e = "-68"] fl_eqI [where e = "-67"]
      round_half_even_numeral round_half_even_int_numeral power_int_minus)

lemma fl_rounded_9:
  "fl (191122977 / 9007199254740992 :: real) = 191122977 / 9007199254740992"
  "fl (25652126707637703 / 1208925819614629174706176 :: real) = 3206515838454713 / 151115727451828646838272"
  "fl (14767723293799003581528181882757 / 680564733841876926926749214863536422912 :: real) = 1639546642206891 / 75557863725914323419136"
  "fl (16442220027261009 / 604462909807314587353088 :: real) = 1027638751703813 / 37778931862957161709568"
  "fl (4832217322180899849906560184717 / 85070591730234615865843651857942052864 :: real) = 8583742289724405 / 151115727451828646838272"
  "fl (141236065993396003 / 2417851639229258349412352 :: real) = 4413627062293625 / 75557863725914323419136"
  "fl (13548971253145288758584006493225 / 170141183460469231731687303715884105728 :: real) = 752118992261313 / 9444732965739290427392"
  "fl (1547469207115087567 / 19342813113834066795298816 :: real) = 6044801590293311 / 75557863725914323419136"
  by (simp_all add: fl_eqI [where e = "-78"] fl_eqI [where e = "-77"] fl_eqI [where e = "-76"]
      round_half_even_numeral round_half_even_int_numeral power_int_minus)

lemma fl_rounded_10:
  "fl (720597267 / 9007199254740992 :: real) = 720597267 / 9007199254740992"
  "fl (5666432998314049 / 295147905179352825856 :: real) = 5666432998314049 / 295147905179352825856"
  "fl (6181563270896373 / 295147905179352825856 :: real) = 6181563270896373 / 295147905179352825856"
  "fl (1992105350969783 / 51881467707308113920 :: real) = 5666432998314049 / 147573952589676412928"
  "fl (5923998134605211 / 147573952589676412928 :: real) = 5923998134605211 / 147573952589676412928"
  "fl (1086602918712253 / 25940733853654056960 :: real) = 6181563270896373 / 147573952589676412928"
  "fl (6825476111599113 / 147573952589676412928 :: real) = 6825476111599113 / 147573952589676412928"
  "fl (4056650896522885 / 73786976294838206464 :: real) = 4056650896522885 / 73786976294838206464"
  by (simp_all add: fl_eqI [where e = "-76"] fl_eqI [where e = "-68"] fl_eqI [where e = "-67"]
      round_half_even_numeral round_half_even_int_numeral power_int_minus)

lemma fl_rounded_11:
  "fl (5473259146101397 / 73786976294838206464 :: real) = 5473259146101397 / 73786976294838206464"
  "fl (4165311188394289 / 51881467707308113920 :: real) = 5923998134605211 / 73786976294838206464"
  "fl (799860481828021 / 8646911284551352320 :: real) = 6825476111599113 / 73786976294838206464"
  "fl (3509324981912745 / 36893488147419103232 :: real) = 3509324981912745 / 36893488147419103232"
  "fl (5704665323235307 / 51881467707308113920 :: real) = 4056650896522885 / 36893488147419103232"
  "fl (2623944825925889 / 18446744073709551616 :: real) = 2623944825925889 / 18446744073709551616"
  "fl (256559022473503 / 1729382256910270464 :: real) = 5473259146101397 / 36893488147419103232"
  "fl (358176517649249 / 2305843009213693952 :: real) = 358176517649249 / 2305843009213693952"
  by (simp_all add: fl_eqI [where e = "-66"] fl_eqI [where e = "-65"] round_half_even_numeral
      round_half_even_int_numeral power_int_minus)

lemma fl_rounded_12:
  "fl (2467494127907399 / 12970366926827028480 :: real) = 3509324981912745 / 18446744073709551616"
  "fl (2459948274305521 / 8646911284551352320 :: real) = 2623944825925889 / 9223372036854775808"
  "fl (5489356967119881 / 18446744073709551616 :: real) = 5489356967119881 / 18446744073709551616"
  "fl (4029485823554051 / 12970366926827028480 :: real) = 358176517649249 / 1152921504606846976"
  "fl (643284019584361 / 1080863910568919040 :: real) = 5489356967119881 / 9223372036854775808"
  "fl (619244948763 / 281474976710656 :: real) = 619244948763 / 281474976710656"
  "fl (337769972053 / 140737488355328 :: real) = 337769972053 / 140737488355328"
  "fl (1294784892869 / 281474976710656 :: real) = 1294784892869 / 281474976710656"
  by (simp_all add: fl_eqI [where e = "-65"] fl_eqI [where e = "-64"] fl_eqI [where e = "-63"]
      fl_eqI [where e = "-61"] fl_eqI [where e = "-60"] round_half_even_numeral
      round_half_even_int_numeral power_int_minus)

lemma fl_rounded_13:
  "fl (372954344141 / 70368744177664 :: real) = 372954344141 / 70368744177664"
  "fl (1773292353277 / 281474976710656 :: real) = 1773292353277 / 281474976710656"
  "fl (547585749286516453389852465 / 79228162514264337593543950336 :: real) = 1992105350969783 / 288230376151711744"
  "fl (298683135974865465357648415 / 39614081257132168796771975168 :: real) = 1086602918712253 / 144115188075855872"
  "fl (299067162755 / 35184372088832 :: real) = 299067162755 / 35184372088832"
  "fl (1534038623073 / 140737488355328 :: real) = 1534038623073 / 140737488355328"
  "fl (1144952021236247384105149295 / 79228162514264337593543950336 :: real) = 4165311188394289 / 288230376151711744"
  "fl (71688158131 / 4398046511104 :: real) = 71688158131 / 4398046511104"
  by (simp_all add: fl_eqI [where e = "-60"] fl_eqI [where e = "-59"] fl_eqI [where e = "-58"]
      round_half_even_numeral round_half_even_int_numeral power_int_minus)

lemma fl_rounded_14:
  "fl (329795962638158629072421255 / 19807040628566084398385987584 :: real) = 2399581445484063 / 144115188075855872"
  "fl (626281823181 / 35184372088832 :: real) = 626281823181 / 35184372088832"
  "fl (1568086463866938343478899735 / 79228162514264337593543950336 :: real) = 5704665323235307 / 288230376151711744"
  "fl (264459026644181849608594025 / 9903520314283042199192993792 :: real) = 3848385337102545 / 144115188075855872"
  "fl (1199787088229 / 35184372088832 :: real) = 1199787088229 / 35184372088832"
  "fl (1356519242551592863792024515 / 39614081257132168796771975168 :: real) = 2467494127907399 / 72057594037927936"
  "fl (63392384327963096591155705 / 1237940039285380274899124224 :: real) = 7379844822916563 / 144115188075855872"
  "fl (553808314619528798020408455 / 9903520314283042199192993792 :: real) = 4029485823554051 / 72057594037927936"
  by (simp_all add: fl_eqI [where e = "-58"] fl_eqI [where e = "-57"] round_half_even_numeral
      round_half_even_int_numeral power_int_minus)

lemma fl_rounded_15:
  "fl (1060947389243233570749654095 / 9903520314283042199192993792 :: real) = 1929852058753083 / 18014398509481984"
  "fl (2044509977818657 / 6333186975989760 :: real) = 5815495048017513 / 18014398509481984"
  "fl (2726941797463163 / 8444249301319680 :: real) = 5817475834588081 / 18014398509481984"
  "fl (1022724762510049 / 3166593487994880 :: real) = 5818167537834945 / 18014398509481984"
  "fl (8182859235743197 / 25332747903959040 :: real) = 2909461061597581 / 9007199254740992"
  "fl (45696782908390623387 / 73786976294838206464 :: real) = 2789110284935951 / 4503599627370496"
  "fl (4559752507088018917349917637733 / 5070602400912917605986812821504 :: real) = 8099747551938241 / 9007199254740992"
  "fl (2279905551154972942275791382909 / 2535301200456458802993406410752 :: real) = 2024962909490367 / 2251799813685248"
  by (simp_all add: fl_eqI [where e = "-56"] fl_eqI [where e = "-54"] fl_eqI [where e = "-53"]
      round_half_even_numeral round_half_even_int_numeral power_int_minus)

lemma fl_rounded_16:
  "fl (284988527356987832695633895121 / 316912650057057350374175801344 :: real) = 2024965278884763 / 2251799813685248"
  "fl (2279937315808425911938537513479 / 2535301200456458802993406410752 :: real) = 2024991122170073 / 2251799813685248"
  "fl (142496094804852327703381194633 / 158456325028528675187087900672 :: real) = 4049982601510815 / 4503599627370496"
  "fl (4559875035407986202316919939131 / 5070602400912917605986812821504 :: real) = 2024991301489359 / 2251799813685248"
  "fl (71248962977370838727707156609 / 79228162514264337593543950336 :: real) = 8100069291841787 / 9007199254740992"
  "fl (2279966816102233316299112355363 / 2535301200456458802993406410752 :: real) = 8100069294777631 / 9007199254740992"
  "fl (8100069294777631 / 9007199254740992 :: real) = 8100069294777631 / 9007199254740992"
  "fl (72959661768439629601551765883341 / 81129638414606681695789005144064 :: real) = 506259352276159 / 562949953421312"
  by (simp_all add: fl_eqI [where e = "-53"] round_half_even_numeral round_half_even_int_numeral
      power_int_minus)

lemma fl_rounded_17:
  "fl (4560042794324882121868161406617 / 5070602400912917605986812821504 :: real) = 4050131602828417 / 4503599627370496"
  "fl (36480810421305646952889733455405 / 40564819207303340847894502572032 :: real) = 8100367137343777 / 9007199254740992"
  "fl (2280050696638576507281226234641 / 2535301200456458802993406410752 :: real) = 4050183649153241 / 4503599627370496"
  "fl (72961622318879148378171882258387 / 81129638414606681695789005144064 :: real) = 4050183650621217 / 4503599627370496"
  "fl (72964306594794637182495216936609 / 81129638414606681695789005144064 :: real) = 1012583164466877 / 1125899906842624"
  "fl (72057588273149797 / 72057594037927936 :: real) = 9007198534143725 / 9007199254740992"
  "fl (75557857681112733125825 / 75557863725914323419136 :: real) = 9007198534144489 / 9007199254740992"
  "fl (75557859312287261125511 / 75557863725914323419136 :: real) = 4503599364297823 / 4503599627370496"
  by (simp_all add: fl_eqI [where e = "-53"] round_half_even_numeral round_half_even_int_numeral
      power_int_minus)

lemma fl_rounded_18:
  "fl (37778930835318410005755 / 37778931862957161709568 :: real) = 9007199009732821 / 9007199254740992"
  "fl (151115724245312808383559 / 151115727451828646838272 :: real) = 4503599531808877 / 4503599627370496"
  "fl (72057592508944119 / 72057594037927936 :: real) = 9007199063618015 / 9007199254740992"
  "fl (75557862233741486947169 / 75557863725914323419136 :: real) = 281474971151879 / 281474976710656"
  "fl (604462908379386682069633 / 604462909807314587353088 :: real) = 1125899904182901 / 1125899906842624"
  "fl (72057594037927945 / 72057594037927936 :: real) = 4503599627370497 / 4503599627370496"
  "fl (16515702782573073175 / 9223372036854775808 :: real) = 4032153999651629 / 2251799813685248"
  "fl (34238851346693440641 / 18446744073709551616 :: real) = 2089773641765957 / 1125899906842624"
  by (simp_all add: fl_eqI [where e = "-53"] fl_eqI [where e = "-52"] round_half_even_numeral
      round_half_even_int_numeral power_int_minus)

lemma fl_rounded_19:
  "fl (38766154677422941523 / 18446744073709551616 :: real) = 4732196615896355 / 2251799813685248"
  "fl (28404379960480589973 / 9223372036854775808 :: real) = 6934663076289207 / 2251799813685248"
  "fl (33241340073972362261 / 9223372036854775808 :: real) = 8115561541497159 / 2251799813685248"
  "fl (4603827187129682350248051347195 / 79228162514264337593543950336 :: real) = 2044509977818657 / 35184372088832"
  "fl (2302697636796774644295765123465 / 39614081257132168796771975168 :: real) = 8180825392389489 / 140737488355328"
  "fl (4605942859342835805044920099395 / 79228162514264337593543950336 :: real) = 1022724762510049 / 17592186044416"
  "fl (4606540225614785535975635396225 / 79228162514264337593543950336 :: real) = 8182859235743197 / 140737488355328"
  "fl (12742 :: real) = 12742"
  by (simp_all add: fl_eqI [where e = "-51"] fl_eqI [where e = "-47"] fl_eqI [where e = "-39"]
      round_half_even_numeral round_half_even_int_numeral power_int_minus)

lemma fl_rounded_20:
  "fl (22530926576164905191 / 1125899906842624 :: real) = 2750357248067005 / 137438953472"
  "fl (22532894586869104769 / 1125899906842624 :: real) = 1375298741874335 / 68719476736"
  by (simp_all add: fl_eqI [where e = "-38"] round_half_even_numeral round_half_even_int_numeral
      power_int_minus)

lemmas fl_values =
  fl_zero fl_one fl_literal_1 fl_literal_2 fl_rounded_1 fl_rounded_2 fl_rounded_3 fl_rounded_4
  fl_rounded_5 fl_rounded_6 fl_rounded_7 fl_rounded_8 fl_rounded_9 fl_rounded_10 fl_rounded_11
  fl_rounded_12 fl_rounded_13 fl_rounded_14 fl_rounded_15 fl_rounded_16 fl_rounded_17
  fl_rounded_18 fl_rounded_19 fl_rounded_20

lemma libm_sin_values:
  "libm_sin (- (442139859467995 / 281474976710656)) = - 1"
  "libm_sin (- (3536798569979077 / 2251799813685248)) = - (4503599581808739 / 4503599627370496)"
  "libm_sin (- (442056098527945 / 281474976710656)) = - (9007198855933211 / 9007199254740992)"
  "libm_sin (- (5817821676456151 / 18014398509481984)) = - (1429303835628895 / 4503599627370496)"
  "libm_sin (- (363592239052045 / 1125899906842624)) = - (5716887369656751 / 18014398509481984)"
  "libm_sin (- (5816485431547435 / 18014398509481984)) = - (5715948162995411 / 18014398509481984)"
  "libm_sin (- (5489356967119881 / 18446744073709551616)) = - (5489356886103335 / 18446744073709551616)"
  "libm_sin (- (579521556646249 / 2305843009213693952)) = - (4636172404362325 / 18446744073709551616)"
  "libm_sin (- (358176517649249 / 2305843009213693952)) = - (5730824259341717 / 36893488147419103232)"
  "libm_sin (- (2623944825925889 / 18446744073709551616)) = - (5247889634154625 / 36893488147419103232)"
  "libm_sin (- (8048910508976411 / 73786976294838206464)) = - (4024455246506961 / 36893488147419103232)"
  "libm_sin (- (5473259146101397 / 73786976294838206464)) = - (684157392635285 / 9223372036854775808)"
  "libm_sin (- (4056650896522885 / 73786976294838206464)) = - (8113301788958605 / 147573952589676412928)"
  "libm_sin (- (5666432998314049 / 295147905179352825856)) = - (5666432997965953 / 295147905179352825856)"
  "libm_sin 0 = 0"
  "libm_sin (5666432998314049 / 295147905179352825856) = 5666432997965953 / 295147905179352825856"
  "libm_sin (6181563270896373 / 295147905179352825856) = 3090781635222225 / 147573952589676412928"
  "libm_sin (5923998134605211 / 147573952589676412928) = 5923998133014197 / 147573952589676412928"
  "libm_sin (6825476111599113 / 147573952589676412928) = 6825476109165631 / 147573952589676412928"
  "libm_sin (4056650896522885 / 73786976294838206464) = 8113301788958605 / 147573952589676412928"
  "libm_sin (5473259146101397 / 73786976294838206464) = 684157392635285 / 9223372036854775808"
  "libm_sin (3509324981912745 / 36893488147419103232) = 1754662488310371 / 18446744073709551616"
  "libm_sin (2623944825925889 / 18446744073709551616) = 5247889634154625 / 36893488147419103232"
  "libm_sin (358176517649249 / 2305843009213693952) = 5730824259341717 / 36893488147419103232"
  "libm_sin (5489356967119881 / 18446744073709551616) = 5489356886103335 / 18446744073709551616"
  by (simp_all add: libm_sin_def)

lemma libm_cos_values:
  "libm_cos (- (1454368953769339 / 4503599627370496)) = 8541600443811171 / 9007199254740992"
  "libm_cos (5815495048017513 / 18014398509481984) = 8541914691378897 / 9007199254740992"
  "libm_cos (5817475834588081 / 18014398509481984) = 266925013772353 / 281474976710656"
  "libm_cos (5818167537834945 / 18014398509481984) = 533843167378761 / 562949953421312"
  "libm_cos (2909461061597581 / 9007199254740992) = 8541370922619453 / 9007199254740992"
  by (simp_all add: libm_cos_def)

lemma libm_square_values:
  "libm_square (- 1) = 1"
  "libm_square (- (4503599581808739 / 4503599627370496)) = 9007199072493965 / 9007199254740992"
  "libm_square (- (9007198855933211 / 9007199254740992)) = 1125899807140681 / 1125899906842624"
  "libm_square (- (1429303835628895 / 4503599627370496)) = 7257872363707461 / 72057594037927936"
  "libm_square (- (5716887369656751 / 18014398509481984)) = 7257039679706897 / 72057594037927936"
  "libm_square (- (5715948162995411 / 18014398509481984)) = 7254655410193903 / 72057594037927936"
  "libm_square (- (5489356886103335 / 18446744073709551616)) = 3345439372527415 / 37778931862957161709568"
  "libm_square (- (4636172404362325 / 18446744073709551616)) = 2386323867728051 / 37778931862957161709568"
  "libm_square (- (5730824259341717 / 36893488147419103232)) = 3646232947958021 / 151115727451828646838272"
  "libm_square (- (5247889634154625 / 36893488147419103232)) = 6115185160974771 / 302231454903657293676544"
  "libm_square (- (4024455246506961 / 36893488147419103232)) = 7192575437969763 / 604462909807314587353088"
  "libm_square (- (684157392635285 / 9223372036854775808)) = 3325846889605881 / 604462909807314587353088"
  "libm_square (- (8113301788958605 / 147573952589676412928)) = 3654058495712259 / 1208925819614629174706176"
  "libm_square (- (5666432997965953 / 295147905179352825856)) = 7129510963918543 / 19342813113834066795298816"
  "libm_square 0 = 0"
  "libm_square (5666432997965953 / 295147905179352825856) = 7129510963918543 / 19342813113834066795298816"
  "libm_square (3090781635222225 / 147573952589676412928) = 1060588407833737 / 2417851639229258349412352"
  "libm_square (5923998133014197 / 147573952589676412928) = 3896189357805523 / 2417851639229258349412352"
  "libm_square (6825476109165631 / 147573952589676412928) = 2586104892276553 / 1208925819614629174706176"
  "libm_square (8113301788958605 / 147573952589676412928) = 3654058495712259 / 1208925819614629174706176"
  "libm_square (684157392635285 / 9223372036854775808) = 3325846889605881 / 604462909807314587353088"
  "libm_square (1754662488310371 / 18446744073709551616) = 2734559643510031 / 302231454903657293676544"
  "libm_square (5247889634154625 / 36893488147419103232) = 6115185160974771 / 302231454903657293676544"
  "libm_square (5730824259341717 / 36893488147419103232) = 3646232947958021 / 151115727451828646838272"
  "libm_square (5489356886103335 / 18446744073709551616) = 3345439372527415 / 37778931862957161709568"
  by (simp_all add: libm_square_def)

lemma libm_sqrt_values:
  "libm_sqrt 0 = 0"
  "libm_sqrt (1427927905283455 / 604462909807314587353088) = 7172623275843505 / 147573952589676412928"
  "libm_sqrt (1492172836471967 / 75557863725914323419136) = 1296162512024199 / 9223372036854775808"
  "libm_sqrt (191122977 / 9007199254740992) = 5374168559146067 / 36893488147419103232"
  "libm_sqrt (3206515838454713 / 151115727451828646838272) = 2687086110940831 / 18446744073709551616"
  "libm_sqrt (1027638751703813 / 37778931862957161709568) = 6084783315283971 / 36893488147419103232"
  "libm_sqrt (4413627062293625 / 75557863725914323419136) = 8916772777882793 / 36893488147419103232"
  "libm_sqrt (6044801590293311 / 75557863725914323419136) = 2608800787218791 / 9223372036854775808"
  "libm_sqrt (720597267 / 9007199254740992) = 1304401085044065 / 4611686018427387904"
  "libm_sqrt (9007198534143725 / 9007199254740992) = 9007198894442351 / 9007199254740992"
  "libm_sqrt (9007198534144489 / 9007199254740992) = 9007198894442733 / 9007199254740992"
  "libm_sqrt (4503599364297823 / 4503599627370496) = 9007198991668315 / 9007199254740992"
  "libm_sqrt (9007199009732821 / 9007199254740992) = 4503599566118453 / 4503599627370496"
  "libm_sqrt (4503599531808877 / 4503599627370496) = 2251799789794843 / 2251799813685248"
  "libm_sqrt (9007199063618015 / 9007199254740992) = 9007199159179503 / 9007199254740992"
  "libm_sqrt (281474971151879 / 281474976710656) = 562949947862535 / 562949953421312"
  "libm_sqrt (1125899904182901 / 1125899906842624) = 2251799811025525 / 2251799813685248"
  "libm_sqrt 1 = 1"
  by (simp_all add: libm_sqrt_def)

lemma libm_atan2_values:
  "libm_atan2 0 1 = 0"
  "libm_atan2 (7172623275843505 / 147573952589676412928) (2251799811025525 / 2251799813685248) = 7172623278667497 / 147573952589676412928"
  "libm_atan2 (1296162512024199 / 9223372036854775808) (562949947862535 / 562949953421312) = 2592325032580925 / 18446744073709551616"
  "libm_atan2 (2687086110940831 / 18446744073709551616) (2251799789794843 / 2251799813685248) = 5374172240887371 / 36893488147419103232"
  "libm_atan2 (6084783315283971 / 36893488147419103232) (4503599566118453 / 4503599627370496) = 6084783342869713 / 36893488147419103232"
  "libm_atan2 (8916772777882793 / 36893488147419103232) (9007198991668315 / 9007199254740992) = 4458386432346663 / 18446744073709551616"
  "libm_atan2 (2608800787218791 / 9223372036854775808) (9007198894442733 / 9007199254740992) = 5217601644007591 / 18446744073709551616"
  "libm_atan2 (9007198894442351 / 9007199254740992) (1304401085044065 / 4611686018427387904) = 3536481961413421 / 2251799813685248"
  "libm_atan2 (9007199159179503 / 9007199254740992) (5374168559146067 / 36893488147419103232) = 3536790862795339 / 2251799813685248"
  by (simp_all add: libm_atan2_def)

lemmas libm_values =
  libm_sin_values libm_cos_values libm_square_values libm_sqrt_values
  libm_atan2_values

lemmas distance_defs =
  haversineKm_def haversine_h_def position_of_def Deenanath_def Sahyadri_def Shashwat_def
  demo_pickup_def antipode_pickup_def libm_def PI_def Math_sqrt_def Math_atan2_def times_def
  Let_def

lemma distance_Deenanath_antipode_pickup:
  "haversineKm libm (position_of Deenanath) antipode_pickup = NotANumber"
  by (simp add: distance_defs fl_values libm_values)

lemma distance_Sahyadri_antipode_pickup:
  "haversineKm libm (position_of Sahyadri) antipode_pickup = Double (2750357248067005 / 137438953472)"
  by (simp add: distance_defs fl_values libm_values)

lemma distance_Shashwat_antipode_pickup:
  "haversineKm libm (position_of Shashwat) antipode_pickup = Double (1375298741874335 / 68719476736)"
  by (simp add: distance_defs fl_values libm_values)

lemma distance_Deenanath_demo_pickup:
  "haversineKm libm (position_of Deenanath) demo_pickup = Double (6934663076289207 / 2251799813685248)"
  by (simp add: distance_defs fl_values libm_values)

lemma distance_Sahyadri_demo_pickup:
  "haversineKm libm (position_of Sahyadri) demo_pickup = Double (2789110284935951 / 4503599627370496)"
  by (simp add: distance_defs fl_values libm_values)

lemma distance_Shashwat_demo_pickup:
  "haversineKm libm (position_of Shashwat) demo_pickup = Double (4032153999651629 / 2251799813685248)"
  by (simp add: distance_defs fl_values libm_values)

lemma distance_Sahyadri_Deenanath:
  "haversineKm libm (position_of Sahyadri) (position_of Deenanath) = Double (8115561541497159 / 2251799813685248)"
  by (simp add: distance_defs fl_values libm_values)

lemma distance_Shashwat_Deenanath:
  "haversineKm libm (position_of Shashwat) (position_of Deenanath) = Double (2089773641765957 / 1125899906842624)"
  by (simp add: distance_defs fl_values libm_values)

lemma distance_Deenanath_Sahyadri:
  "haversineKm libm (position_of Deenanath) (position_of Sahyadri) = Double (8115561541497159 / 2251799813685248)"
  by (simp add: distance_defs fl_values libm_values)

lemma distance_Shashwat_Sahyadri:
  "haversineKm libm (position_of Shashwat) (position_of Sahyadri) = Double (4732196615896355 / 2251799813685248)"
  by (simp add: distance_defs fl_values libm_values)

lemma distance_Deenanath_Shashwat:
  "haversineKm libm (position_of Deenanath) (position_of Shashwat) = Double (2089773641765957 / 1125899906842624)"
  by (simp add: distance_defs fl_values libm_values)

lemma distance_Sahyadri_Shashwat:
  "haversineKm libm (position_of Sahyadri) (position_of Shashwat) = Double (4732196615896355 / 2251799813685248)"
  by (simp add: distance_defs fl_values libm_values)


lemma exact_at_zero_libm: "exact_at_zero libm"
  by (simp add: exact_at_zero_def libm_def libm_values)

lemma HOSPITALS_cases:
  "H \<in> set HOSPITALS \<longleftrightarrow> H = Deenanath \<or> H = Sahyadri \<or> H = Shashwat"
  by (auto simp: HOSPITALS_def)

lemma closestHospital_libm_coincident:
  assumes "H \<in> set HOSPITALS"
  shows "closestHospital libm (position_of H) = Inr H"
proof (rule closestHospital_coincident [OF exact_at_zero_libm assms])
  from assms consider "H = Deenanath" | "H = Sahyadri" | "H = Shashwat"
    by (auto simp: HOSPITALS_cases)
  then show "\<forall>H'\<in>set HOSPITALS. H' \<noteq> H \<longrightarrow>
               less_than (Double 0) (haversineKm libm (position_of H') (position_of H))"
  proof cases
    case 1
    then show ?thesis
      by (simp add: HOSPITALS_def less_than_def distance_Sahyadri_Deenanath
          distance_Shashwat_Deenanath)
  next
    case 2
    then show ?thesis
      by (simp add: HOSPITALS_def less_than_def distance_Deenanath_Sahyadri
          distance_Shashwat_Sahyadri)
  next
    case 3
    then show ?thesis
      by (simp add: HOSPITALS_def less_than_def distance_Deenanath_Shashwat
          distance_Sahyadri_Shashwat)
  qed
qed

lemma closestHospital_all_numbers:
  assumes "\<forall>H'\<in>set HOSPITALS. haversineKm M (position_of H') to_pos \<noteq> NotANumber"
  shows "\<exists>H\<in>set HOSPITALS. closestHospital M to_pos = Inr H
           \<and> (\<forall>H'\<in>set HOSPITALS. at_most (haversineKm M (position_of H) to_pos)
                                           (haversineKm M (position_of H') to_pos))"
proof -
  from assms obtain d0 where "haversineKm M (position_of Deenanath) to_pos = Double d0"
    by (cases "haversineKm M (position_of Deenanath) to_pos") (auto simp: HOSPITALS_def)
  from closestHospital_min [OF this] obtain H d where H: "H \<in> set HOSPITALS"
    "closestHospital M to_pos = Inr H" "haversineKm M (position_of H) to_pos = Double d"
    "\<forall>H'\<in>set HOSPITALS. \<forall>d'. haversineKm M (position_of H') to_pos = Double d' \<longrightarrow> d \<le> d'"
    by blast
  have "at_most (haversineKm M (position_of H) to_pos) (haversineKm M (position_of H') to_pos)"
    if "H' \<in> set HOSPITALS" for H'
    using assms H(3,4) that
    by (cases "haversineKm M (position_of H') to_pos") (auto simp: at_most_def)
  with H(1,2) show ?thesis by blast
qed

lemma closestHospital_demo:
  "closestHospital libm demo_pickup = Inr Sahyadri"
  by (simp add: closestHospital_eq distance_Deenanath_demo_pickup distance_Sahyadri_demo_pickup
      distance_Shashwat_demo_pickup less_than_def)

text \<open>
  Claim C8, as stated: the selected hospital's haversine distance to the pickup point is
  at most that of every other listed hospital, for every pickup point. This fails in
  binary64 near the antipode of the first listed hospital. At the pickup point
  (-18.502799937945074, -106.16349998624679) the value \<open>h\<close> for Deenanath Mangeshkar
  Hospital rounds to \<open>1 + 2^-52\<close>, so \<open>Math.sqrt(1 - h)\<close> is \<open>NaN\<close> and so is the
  distance; every comparison with it is false and the reduce keeps Deenanath, the first
  of the list, although the other two hospitals have the distances 20011.48 km and
  20013.23 km.
\<close>

theorem antipode_counterexample:
  "closestHospital libm antipode_pickup = Inr Deenanath
   \<and> haversineKm libm (position_of Deenanath) antipode_pickup = NotANumber
   \<and> haversineKm libm (position_of Sahyadri) antipode_pickup
       = Double (2750357248067005 / 137438953472)
   \<and> haversineKm libm (position_of Shashwat) antipode_pickup
       = Double (1375298741874335 / 68719476736)
   \<and> Sahyadri \<in> set HOSPITALS
   \<and> \<not> at_most (haversineKm libm (position_of Deenanath) antipode_pickup)
               (haversineKm libm (position_of Sahyadri) antipode_pickup)"
  using closestHospital_nan [OF distance_Deenanath_antipode_pickup]
  by (simp add: distance_Deenanath_antipode_pickup distance_Sahyadri_antipode_pickup
      distance_Shashwat_antipode_pickup HOSPITALS_def at_most_def)

text \<open>
  Claim C8, amended. For every Math library and every pickup point, \<open>closestHospital\<close>
  returns a listed hospital. When the computed distance of the first listed hospital is
  \<open>NaN\<close>, it returns that hospital. When that distance is a number, the distance of the
  returned hospital is a number and is at most every computed distance that is a number;
  so when no computed distance is \<open>NaN\<close>, the returned hospital's distance is at most
  that of every listed hospital. For a library with the exact values at zero the
  computed distance from a point to itself is zero, and at the coordinates of a listed
  hospital that hospital is returned, provided the computed distances of the other
  listed hospitals from there are positive numbers. With the example library this holds
  at each of the three hospitals.
\<close>

theorem nearest_hospital:
  "(\<exists>H\<in>set HOSPITALS. closestHospital M to_pos = Inr H)
   \<and> (haversineKm M (position_of (hd HOSPITALS)) to_pos = NotANumber
        \<longrightarrow> closestHospital M to_pos = Inr (hd HOSPITALS))
   \<and> ((\<exists>d0. haversineKm M (position_of (hd HOSPITALS)) to_pos = Double d0)
        \<longrightarrow> (\<exists>H\<in>set HOSPITALS. \<exists>d. closestHospital M to_pos = Inr H
               \<and> haversineKm M (position_of H) to_pos = Double d
               \<and> (\<forall>H'\<in>set HOSPITALS. \<forall>d'.
                     haversineKm M (position_of H') to_pos = Double d' \<longrightarrow> d \<le> d')))
   \<and> ((\<forall>H'\<in>set HOSPITALS. haversineKm M (position_of H') to_pos \<noteq> NotANumber)
        \<longrightarrow> (\<exists>H\<in>set HOSPITALS. closestHospital M to_pos = Inr H
               \<and> (\<forall>H'\<in>set HOSPITALS. at_most (haversineKm M (position_of H) to_pos)
                                               (haversineKm M (position_of H') to_pos))))
   \<and> (exact_at_zero M \<longrightarrow> haversineKm M to_pos to_pos = Double 0)
   \<and> (exact_at_zero M \<and> H \<in> set HOSPITALS
       \<and> (\<forall>H'\<in>set HOSPITALS. H' \<noteq> H \<longrightarrow>
             less_than (Double 0) (haversineKm M (position_of H') (position_of H)))
        \<longrightarrow> closestHospital M (position_of H) = Inr H
            \<and> haversineKm M (position_of H) (position_of H) = Double 0)
   \<and> exact_at_zero libm
   \<and> (H \<in> set HOSPITALS
        \<longrightarrow> closestHospital libm (position_of H) = Inr H
            \<and> haversineKm libm (position_of H) (position_of H) = Double 0)"
proof -
  have first: "hd HOSPITALS = Deenanath" by (simp add: HOSPITALS_def)
  have nan: "haversineKm M (position_of (hd HOSPITALS)) to_pos = NotANumber
        \<longrightarrow> closestHospital M to_pos = Inr (hd HOSPITALS)"
    unfolding first using closestHospital_nan by blast
  have number: "(\<exists>d0. haversineKm M (position_of (hd HOSPITALS)) to_pos = Double d0)
        \<longrightarrow> (\<exists>H\<in>set HOSPITALS. \<exists>d. closestHospital M to_pos = Inr H
               \<and> haversineKm M (position_of H) to_pos = Double d
               \<and> (\<forall>H'\<in>set HOSPITALS. \<forall>d'.
                     haversineKm M (position_of H') to_pos = Double d' \<longrightarrow> d \<le> d'))"
    unfolding first using closestHospital_min [of M to_pos] by blast
  have coincident: "exact_at_zero M \<and> H \<in> set HOSPITALS
       \<and> (\<forall>H'\<in>set HOSPITALS. H' \<noteq> H \<longrightarrow>
             less_than (Double 0) (haversineKm M (position_of H') (position_of H)))
        \<longrightarrow> closestHospital M (position_of H) = Inr H
            \<and> haversineKm M (position_of H) (position_of H) = Double 0"
    using closestHospital_coincident [of M H] haversineKm_same [of M "position_of H"] by blast
  have libm: "H \<in> set HOSPITALS
        \<longrightarrow> closestHospital libm (position_of H) = Inr H
            \<and> haversineKm libm (position_of H) (position_of H) = Double 0"
    using closestHospital_libm_coincident [of H]
      haversineKm_same [OF exact_at_zero_libm, of "position_of H"] by blast
  show ?thesis
    using closestHospital_listed [of M to_pos] nan number
      closestHospital_all_numbers [of M to_pos] haversineKm_same [of M to_pos]
      coincident exact_at_zero_libm libm
    by (intro conjI impI) blast+
qed

text \<open>
  With the example library: near the antipode of the first hospital its distance is
  \<open>NaN\<close> and it is returned; at the patient position of the pages the three distances
  are 3.08 km, 0.62 km and 1.79 km and Sahyadri Hospital Kothrud is returned; at the
  coordinates of Shashwat Hospital the other two hospitals are 1.86 km and 2.10 km away
  and Shashwat Hospital is returned with distance zero.
\<close>

theorem nearest_hospital_witness:
  "haversineKm libm (position_of (hd HOSPITALS)) antipode_pickup = NotANumber
   \<and> closestHospital libm antipode_pickup = Inr (hd HOSPITALS)
   \<and> haversineKm libm (position_of Deenanath) demo_pickup
       = Double (6934663076289207 / 2251799813685248)
   \<and> haversineKm libm (position_of Sahyadri) demo_pickup
       = Double (2789110284935951 / 4503599627370496)
   \<and> haversineKm libm (position_of Shashwat) demo_pickup
       = Double (4032153999651629 / 2251799813685248)
   \<and> closestHospital libm demo_pickup = Inr Sahyadri
   \<and> at_most (haversineKm libm (position_of Sahyadri) demo_pickup)
             (haversineKm libm (position_of Deenanath) demo_pickup)
   \<and> at_most (haversineKm libm (position_of Sahyadri) demo_pickup)
             (haversineKm libm (position_of Sahyadri) demo_pickup)
   \<and> at_most (haversineKm libm (position_of Sahyadri) demo_pickup)
             (haversineKm libm (position_of Shashwat) demo_pickup)
   \<and> exact_at_zero libm
   \<and> Shashwat \<in> set HOSPITALS
   \<and> haversineKm libm (position_of Deenanath) (position_of Shashwat)
       = Double (2089773641765957 / 1125899906842624)
   \<and> haversineKm libm (position_of Sahyadri) (position_of Shashwat)
       = Double (4732196615896355 / 2251799813685248)
   \<and> closestHospital libm (position_of Shashwat) = Inr Shashwat
   \<and> haversineKm libm (position_of Shashwat) (position_of Shashwat) = Double 0"
proof -
  note at_antipode = nearest_hospital [of libm antipode_pickup Shashwat]
  note at_demo = nearest_hospital [of libm demo_pickup Shashwat]
  note at_hospital = nearest_hospital [of libm "position_of Shashwat" Shashwat]
  have first: "hd HOSPITALS = Deenanath" by (simp add: HOSPITALS_def)
  have nan: "haversineKm libm (position_of (hd HOSPITALS)) antipode_pickup = NotANumber"
    by (simp only: first distance_Deenanath_antipode_pickup)
  from at_antipode [THEN conjunct2, THEN conjunct1, rule_format, OF nan]
  have kept: "closestHospital libm antipode_pickup = Inr (hd HOSPITALS)" .
  have numbers: "\<forall>H'\<in>set HOSPITALS. haversineKm libm (position_of H') demo_pickup \<noteq> NotANumber"
    by (simp add: HOSPITALS_def distance_Deenanath_demo_pickup distance_Sahyadri_demo_pickup
        distance_Shashwat_demo_pickup)
  from at_demo [THEN conjunct2, THEN conjunct2, THEN conjunct2, THEN conjunct1, THEN mp,
      OF numbers]
  have "\<forall>H'\<in>set HOSPITALS. at_most (haversineKm libm (position_of Sahyadri) demo_pickup)
                                   (haversineKm libm (position_of H') demo_pickup)"
    by (simp add: closestHospital_demo)
  then have least:
    "at_most (haversineKm libm (position_of Sahyadri) demo_pickup)
             (haversineKm libm (position_of Deenanath) demo_pickup)"
    "at_most (haversineKm libm (position_of Sahyadri) demo_pickup)
             (haversineKm libm (position_of Sahyadri) demo_pickup)"
    "at_most (haversineKm libm (position_of Sahyadri) demo_pickup)
             (haversineKm libm (position_of Shashwat) demo_pickup)"
    by (simp_all add: HOSPITALS_def)
  have zero: "exact_at_zero libm"
    by (rule at_demo [THEN conjunct2, THEN conjunct2, THEN conjunct2, THEN conjunct2,
          THEN conjunct2, THEN conjunct2, THEN conjunct1])
  have listed: "Shashwat \<in> set HOSPITALS" by (simp add: HOSPITALS_def)
  have others: "\<forall>H'\<in>set HOSPITALS. H' \<noteq> Shashwat \<longrightarrow>
      less_than (Double 0) (haversineKm libm (position_of H') (position_of Shashwat))"
    by (simp add: HOSPITALS_def less_than_def distance_Deenanath_Shashwat
          distance_Sahyadri_Shashwat)
  from at_hospital [THEN conjunct2, THEN conjunct2, THEN conjunct2, THEN conjunct2,
      THEN conjunct2, THEN conjunct1, THEN mp, OF conjI [OF zero conjI [OF listed others]]]
  have own: "closestHospital libm (position_of Shashwat) = Inr Shashwat
     \<and> haversineKm libm (position_of Shashwat) (position_of Shashwat) = Double 0" .
  show ?thesis
    using nan kept distance_Deenanath_demo_pickup distance_Sahyadri_demo_pickup
      distance_Shashwat_demo_pickup closestHospital_demo least zero listed
      distance_Deenanath_Shashwat distance_Sahyadri_Shashwat own
    by (simp only: simp_thms)
qed

end
